theory Spec2Isabelle
  imports Main "HOL-Library.AList" "HOL-Library.Monad_Syntax"
begin

section \<open>Python values\<close>

subsection \<open>Strings\<close>

text \<open>
  A Python \<^verbatim>\<open>str\<close> is a sequence of Unicode code points, and \<^verbatim>\<open>len\<close> counts code points.
  A string is therefore a list of natural numbers; \<open>str ''abc''\<close> writes an ASCII literal.
\<close>

type_synonym ustr = "nat list"

definition str :: "string \<Rightarrow> ustr" where
  "str s = map of_char s"

text \<open>
  What the repository takes from the Python runtime and its libraries without defining it:
  the Unicode character database beyond ASCII, \<^verbatim>\<open>urllib.parse.urlparse\<close> and \<^verbatim>\<open>hashlib.sha1\<close>.
  Every function that depends on one of them takes the runtime as its first argument, and the
  theorems hold for every runtime.
  \<^item> \<open>uni_alnum c\<close>: \<^verbatim>\<open>chr(c).isalnum()\<close> for a code point \<open>c \<ge> 128\<close>;
  \<^item> \<open>uni_upper c\<close>: \<^verbatim>\<open>chr(c).upper()\<close> for \<open>c \<ge> 128\<close> (it may be several characters);
  \<^item> \<open>uni_lower s i\<close>: what \<^verbatim>\<open>s.lower()\<close> puts in place of the \<open>i\<close>-th character of \<open>s\<close> when that
    character is not ASCII (the final-sigma rule makes it depend on the neighbours);
  \<^item> \<open>url_netloc u\<close>: \<^verbatim>\<open>urlparse(u).netloc\<close>, \<open>None\<close> where \<^verbatim>\<open>urlparse\<close> raises \<^verbatim>\<open>ValueError\<close>;
  \<^item> \<open>sha1_hex s\<close>: \<^verbatim>\<open>hashlib.sha1(s.encode("utf-8", errors="ignore")).hexdigest()\<close>.
\<close>

record pyrt =
  uni_alnum :: "nat \<Rightarrow> bool"
  uni_upper :: "nat \<Rightarrow> ustr"
  uni_lower :: "ustr \<Rightarrow> nat \<Rightarrow> ustr"
  url_netloc :: "ustr \<Rightarrow> ustr option"
  sha1_hex :: "ustr \<Rightarrow> ustr"

text \<open>\<^verbatim>\<open>str.isspace\<close>, which is also the class \<^verbatim>\<open>\s\<close> of \<^verbatim>\<open>re\<close> on \<^verbatim>\<open>str\<close> patterns.\<close>

definition py_isspace :: "nat \<Rightarrow> bool" where
  "py_isspace c \<longleftrightarrow>
     (0x09 \<le> c \<and> c \<le> 0x0D) \<or> (0x1C \<le> c \<and> c \<le> 0x20) \<or> c = 0x85 \<or> c = 0xA0 \<or>
     c = 0x1680 \<or> (0x2000 \<le> c \<and> c \<le> 0x200A) \<or> c = 0x2028 \<or> c = 0x2029 \<or>
     c = 0x202F \<or> c = 0x205F \<or> c = 0x3000"

text \<open>\<^verbatim>\<open>s.strip()\<close>\<close>

definition py_strip :: "ustr \<Rightarrow> ustr" where
  "py_strip s = rev (dropWhile py_isspace (rev (dropWhile py_isspace s)))"

text \<open>\<^verbatim>\<open>s.startswith(p)\<close>\<close>

fun startswith :: "ustr \<Rightarrow> ustr \<Rightarrow> bool" where
  "startswith s [] = True"
| "startswith [] (p # ps) = False"
| "startswith (c # cs) (p # ps) = (c = p \<and> startswith cs ps)"

text \<open>\<^verbatim>\<open>sub in s\<close>, written \<open>contains s sub\<close>\<close>

fun contains :: "ustr \<Rightarrow> ustr \<Rightarrow> bool" where
  "contains [] sub = (sub = [])"
| "contains (c # cs) sub = (startswith (c # cs) sub \<or> contains cs sub)"

text \<open>
  \<^verbatim>\<open>s.replace(old, new)\<close>: the occurrences of \<open>old\<close> are found from the left and do not
  overlap. With an empty \<open>old\<close>, Python puts \<open>new\<close> before every character and at the end.
\<close>

fun replace_ne :: "ustr \<Rightarrow> ustr \<Rightarrow> ustr \<Rightarrow> ustr" where
  "replace_ne old new [] = []"
| "replace_ne old new (c # cs) =
     (if startswith (c # cs) old then new @ replace_ne old new (drop (length old - 1) cs)
      else c # replace_ne old new cs)"

definition py_replace :: "ustr \<Rightarrow> ustr \<Rightarrow> ustr \<Rightarrow> ustr" where
  "py_replace old new s =
     (if old = [] then new @ concat (map (\<lambda>c. c # new) s) else replace_ne old new s)"

text \<open>\<^verbatim>\<open>s.split(sep)\<close> for a separator of one character, and \<^verbatim>\<open>sep.join(xs)\<close>\<close>

fun py_split :: "nat \<Rightarrow> ustr \<Rightarrow> ustr list" where
  "py_split sep [] = [[]]"
| "py_split sep (c # cs) =
     (if c = sep then [] # py_split sep cs
      else (case py_split sep cs of [] \<Rightarrow> [[c]] | w # ws \<Rightarrow> (c # w) # ws))"

fun py_join :: "ustr \<Rightarrow> ustr list \<Rightarrow> ustr" where
  "py_join sep [] = []"
| "py_join sep [x] = x"
| "py_join sep (x # y # ys) = x @ sep @ py_join sep (y # ys)"

text \<open>
  \<^verbatim>\<open>re.sub(r"[...]+", rep, s)\<close> for a character class \<open>P\<close>: every maximal run of characters
  of the class is one match.
\<close>

function sub_runs :: "(nat \<Rightarrow> bool) \<Rightarrow> ustr \<Rightarrow> ustr \<Rightarrow> ustr" where
  "sub_runs P rep [] = []"
| "sub_runs P rep (c # cs) =
     (if P c then rep @ sub_runs P rep (dropWhile P cs) else c # sub_runs P rep cs)"
  by pat_completeness auto
termination
  by (relation "measure (\<lambda>(P, rep, s). length s)") (auto simp: length_dropWhile_le less_Suc_eq_le)

text \<open>Case mapping: ASCII is spelled out, the rest is the runtime's.\<close>

definition ascii_upper :: "nat \<Rightarrow> nat" where
  "ascii_upper c = (if 0x61 \<le> c \<and> c \<le> 0x7A then c - 32 else c)"

definition ascii_lower :: "nat \<Rightarrow> nat" where
  "ascii_lower c = (if 0x41 \<le> c \<and> c \<le> 0x5A then c + 32 else c)"

definition upper_char :: "pyrt \<Rightarrow> nat \<Rightarrow> ustr" where
  "upper_char L c = (if c < 128 then [ascii_upper c] else uni_upper L c)"

definition py_upper :: "pyrt \<Rightarrow> ustr \<Rightarrow> ustr" where
  "py_upper L s = concat (map (upper_char L) s)"

definition py_lower :: "pyrt \<Rightarrow> ustr \<Rightarrow> ustr" where
  "py_lower L s =
     concat (map (\<lambda>i. if s ! i < 128 then [ascii_lower (s ! i)] else uni_lower L s i) [0..<length s])"

text \<open>
  The class \<^verbatim>\<open>\w\<close> of \<^verbatim>\<open>re\<close> on \<^verbatim>\<open>str\<close> patterns: alphanumeric or underscore. The four letters
  beyond ASCII that \<^verbatim>\<open>re.IGNORECASE\<close> folds onto ASCII letters (dotted capital I, dotless i,
  long s, Kelvin sign) are letters in every version of the Unicode database.
\<close>

definition is_word :: "pyrt \<Rightarrow> nat \<Rightarrow> bool" where
  "is_word L c \<longleftrightarrow>
     (0x30 \<le> c \<and> c \<le> 0x39) \<or> (0x41 \<le> c \<and> c \<le> 0x5A) \<or> (0x61 \<le> c \<and> c \<le> 0x7A) \<or> c = 0x5F \<or>
     c = 0x130 \<or> c = 0x131 \<or> c = 0x17F \<or> c = 0x212A \<or> (128 \<le> c \<and> uni_alnum L c)"

text \<open>
  A literal lower-case ASCII letter \<open>p\<close> of a pattern compiled with \<^verbatim>\<open>re.IGNORECASE\<close> matches
  the character \<open>c\<close>: the letter, its capital, and the letters the \<^verbatim>\<open>re\<close> module folds onto it.
\<close>

definition ci_match :: "nat \<Rightarrow> nat \<Rightarrow> bool" where
  "ci_match p c \<longleftrightarrow>
     c = p \<or> c + 32 = p \<or> (p = 0x73 \<and> c = 0x17F) \<or> (p = 0x69 \<and> (c = 0x130 \<or> c = 0x131)) \<or>
     (p = 0x6B \<and> c = 0x212A)"

text \<open>
  The pattern \<^verbatim>\<open>\bWORD\b\<close> under \<^verbatim>\<open>re.IGNORECASE\<close>, for a non-empty \<open>pat\<close> of lower-case ASCII
  letters. \<open>word_at L pat prev s\<close>: the pattern matches at the start of \<open>s\<close>, where \<open>prev\<close> tells
  whether the character before \<open>s\<close> is a word character (\<open>False\<close> at the start of the text).
  \<^verbatim>\<open>\b\<close> holds between two positions of which exactly one is a word character.
\<close>

definition word_at :: "pyrt \<Rightarrow> ustr \<Rightarrow> bool \<Rightarrow> ustr \<Rightarrow> bool" where
  "word_at L pat prev s \<longleftrightarrow>
     pat \<noteq> [] \<and> length pat \<le> length s \<and>
     prev \<noteq> is_word L (hd s) \<and>
     list_all2 ci_match pat (take (length pat) s) \<and>
     is_word L (s ! (length pat - 1)) \<noteq>
       (case drop (length pat) s of [] \<Rightarrow> False | d # _ \<Rightarrow> is_word L d)"

text \<open>\<^verbatim>\<open>re.search(r"\bWORD\b", s, flags=re.IGNORECASE) is not None\<close>, as \<open>has_word L pat False s\<close>\<close>

fun has_word :: "pyrt \<Rightarrow> ustr \<Rightarrow> bool \<Rightarrow> ustr \<Rightarrow> bool" where
  "has_word L pat prev [] = False"
| "has_word L pat prev (c # cs) = (word_at L pat prev (c # cs) \<or> has_word L pat (is_word L c) cs)"

text \<open>
  \<^verbatim>\<open>re.sub(r"\bWORD\b", rep, s, flags=re.IGNORECASE)\<close>, as \<open>sub_word L pat rep False s\<close>: the
  text is scanned from the left; a match is replaced and the scan goes on after it.
\<close>

fun sub_word :: "pyrt \<Rightarrow> ustr \<Rightarrow> ustr \<Rightarrow> bool \<Rightarrow> ustr \<Rightarrow> ustr" where
  "sub_word L pat rep prev [] = []"
| "sub_word L pat rep prev (c # cs) =
     (if word_at L pat prev (c # cs)
      then rep @ sub_word L pat rep (is_word L ((c # cs) ! (length pat - 1))) (drop (length pat - 1) cs)
      else c # sub_word L pat rep (is_word L c) cs)"

text \<open>
  \<^verbatim>\<open>template.format(**kw)\<close> for templates whose replacement fields are plain names:
  \<^verbatim>\<open>{name}\<close> is replaced by the field's value, \<^verbatim>\<open>{{\<close> and \<^verbatim>\<open>}}\<close> are literal braces. A name with
  no value is a \<^verbatim>\<open>KeyError\<close>, a single \<^verbatim>\<open>}\<close> or an unclosed \<^verbatim>\<open>{\<close> a \<^verbatim>\<open>ValueError\<close>: \<open>None\<close>.
\<close>

function py_format :: "(ustr \<times> ustr) list \<Rightarrow> ustr \<Rightarrow> ustr option" where
  "py_format kw [] = Some []"
| "py_format kw (c # cs) =
     (if c = 0x7B then
        (case cs of
           d # ds \<Rightarrow>
             if d = 0x7B then map_option ((#) 0x7B) (py_format kw ds)
             else if 0x7D \<in> set cs then
               (case map_of kw (takeWhile (\<lambda>x. x \<noteq> 0x7D) cs) of
                  None \<Rightarrow> None
                | Some v \<Rightarrow> map_option ((@) v) (py_format kw (tl (dropWhile (\<lambda>x. x \<noteq> 0x7D) cs))))
             else None
         | [] \<Rightarrow> None)
      else if c = 0x7D then
        (case cs of
           d # ds \<Rightarrow> if d = 0x7D then map_option ((#) 0x7D) (py_format kw ds) else None
         | [] \<Rightarrow> None)
      else map_option ((#) c) (py_format kw cs))"
  by pat_completeness auto
termination
  by (relation "measure (\<lambda>(kw, s). length s)")
     (auto simp: less_Suc_eq_le intro: le_SucI length_dropWhile_le order.trans [OF diff_le_self])

subsection \<open>JSON values and dictionaries\<close>

text \<open>
  What \<^verbatim>\<open>json.load\<close> returns. A \<^verbatim>\<open>dict\<close> is an association list in insertion order;
  \<open>map_of\<close> looks a key up and \<open>AList.update\<close> assigns: an existing key keeps its place, a new
  key goes to the end, as in Python. Numbers are the integers (the pipeline stores none).
\<close>

datatype json =
    JNull
  | JBool bool
  | JInt int
  | JStr ustr
  | JArr "json list"
  | JObj "(ustr \<times> json) list"

type_synonym dict = "(ustr \<times> json) list"

text \<open>Truth value of a Python object (\<^verbatim>\<open>if x\<close>, \<^verbatim>\<open>not x\<close>, \<^verbatim>\<open>x or y\<close>).\<close>

fun truthy :: "json \<Rightarrow> bool" where
  "truthy JNull = False"
| "truthy (JBool b) = b"
| "truthy (JInt i) = (i \<noteq> 0)"
| "truthy (JStr s) = (s \<noteq> [])"
| "truthy (JArr xs) = (xs \<noteq> [])"
| "truthy (JObj kvs) = (kvs \<noteq> [])"

text \<open>\<^verbatim>\<open>len(x)\<close>: a \<^verbatim>\<open>TypeError\<close> (\<open>None\<close>) on numbers, booleans and \<^verbatim>\<open>None\<close>.\<close>

fun py_len :: "json \<Rightarrow> nat option" where
  "py_len (JStr s) = Some (length s)"
| "py_len (JArr xs) = Some (length xs)"
| "py_len (JObj kvs) = Some (length kvs)"
| "py_len _ = None"

text \<open>\<^verbatim>\<open>d.get(k, default)\<close>\<close>

definition dget :: "dict \<Rightarrow> ustr \<Rightarrow> json \<Rightarrow> json" where
  "dget d k dflt = (case map_of d k of None \<Rightarrow> dflt | Some v \<Rightarrow> v)"

text \<open>
  Results are options: \<open>None\<close> is an uncaught Python exception (\<^verbatim>\<open>AttributeError\<close>,
  \<^verbatim>\<open>TypeError\<close>, \<^verbatim>\<open>KeyError\<close>, \<^verbatim>\<open>ValueError\<close>). \<open>as_str\<close> and \<open>as_dict\<close> are the places where the
  code calls a \<^verbatim>\<open>str\<close> or \<^verbatim>\<open>dict\<close> method on a value.
\<close>

fun as_str :: "json \<Rightarrow> ustr option" where
  "as_str (JStr s) = Some s"
| "as_str _ = None"

fun as_dict :: "json \<Rightarrow> dict option" where
  "as_dict (JObj d) = Some d"
| "as_dict _ = None"

text \<open>
  A value interpolated into an f-string or by \<^verbatim>\<open>str.format\<close>. A string is inserted as it is.
  Python renders any other value with \<^verbatim>\<open>str()\<close>; that rendering is not modelled, and the
  result is \<open>None\<close> there as well.
\<close>

fun fmt :: "json \<Rightarrow> ustr option" where
  "fmt (JStr s) = Some s"
| "fmt _ = None"

text \<open>
  \<^verbatim>\<open>a == b\<close> on JSON values: a boolean equals the integer 0 or 1, lists are compared
  element by element, dictionaries key by key whatever the order of insertion.
\<close>

fun py_eq :: "json \<Rightarrow> json \<Rightarrow> bool" where
  "py_eq (JBool a) (JInt i) = (i = (if a then 1 else 0))"
| "py_eq (JInt i) (JBool a) = (i = (if a then 1 else 0))"
| "py_eq (JArr xs) (JArr ys) = list_all2 py_eq xs ys"
| "py_eq (JObj a) (JObj b) =
     (set (map fst a) = set (map fst b) \<and>
      (\<forall>(k, v) \<in> set a. case map_of b k of None \<Rightarrow> False | Some w \<Rightarrow> py_eq v w))"
| "py_eq x y = (x = y)"

text \<open>\<^verbatim>\<open>x or y\<close>\<close>

definition py_or :: "json \<Rightarrow> json \<Rightarrow> json" where
  "py_or x y = (if truthy x then x else y)"

text \<open>
  \<^verbatim>\<open>for x in v\<close>: a list gives its elements, a string its characters, a dictionary its keys;
  anything else is not iterable (\<^verbatim>\<open>TypeError\<close>).
\<close>

fun py_iter :: "json \<Rightarrow> json list option" where
  "py_iter (JArr xs) = Some xs"
| "py_iter (JStr s) = Some (map (\<lambda>c. JStr [c]) s)"
| "py_iter (JObj kvs) = Some (map (\<lambda>kv. JStr (fst kv)) kvs)"
| "py_iter _ = None"

text \<open>\<^verbatim>\<open>d.update(other)\<close>, and a run of assignments \<^verbatim>\<open>d[k] = v\<close> in the order written\<close>

definition py_update :: "dict \<Rightarrow> dict \<Rightarrow> dict" where
  "py_update d other = foldl (\<lambda>acc kv. AList.update (fst kv) (snd kv) acc) d other"

section \<open>Content Generator (\<^verbatim>\<open>content_generators.py\<close>)\<close>

text \<open>The entries \<^verbatim>\<open>SECTION_TITLES["en"]\<close> and \<^verbatim>\<open>TEXT["en"]\<close>, the only ones \<^verbatim>\<open>generate_en_content\<close> reads.\<close>

definition CG_SECTION_TITLES_en :: json where
  "CG_SECTION_TITLES_en = JObj
     [(str ''description_title'', JStr (str ''Description'')),
      (str ''ingredients_title'', JStr (str ''Ingredients'')),
      (str ''precautions_title'', JStr (str ''Consumption precautions'')),
      (str ''history_title'', JStr (str ''History''))]"

definition CG_TEXT_en_description :: ustr where
  "CG_TEXT_en_description =
     str ''{title} is produced using traditional methods. Made in {country}, it reflects the heritage and expertise of the brand.''"

definition CG_TEXT_en_ingredients :: ustr where
  "CG_TEXT_en_ingredients =
     str ''Ingredients may vary depending on the product. Please refer to the packaging for details.''"

definition CG_TEXT_en_precautions :: ustr where
  "CG_TEXT_en_precautions =
     str ''Store according to package instructions. Check the label for allergen information.''"

definition CG_TEXT_en_history :: "(ustr \<times> ustr) list" where
  "CG_TEXT_en_history =
     [(str ''Origins'', str ''The {brand} brand was founded in {country}.''),
      (str ''Development'', str ''Over time, {brand} expanded its range.''),
      (str ''Today'', str ''Today, {brand} products are enjoyed worldwide.'')]"

text \<open>One entry \<^verbatim>\<open>{"year": y, "text": t.format(brand=brand, country=country)}\<close> of a history.\<close>

definition history_entry :: "ustr \<Rightarrow> ustr \<Rightarrow> json \<Rightarrow> ustr \<Rightarrow> json option" where
  "history_entry brand country y t =
     map_option (\<lambda>tx. JObj [(str ''year'', y), (str ''text'', JStr tx)])
       (py_format [(str ''brand'', brand), (str ''country'', country)] t)"

definition generate_en_content :: "dict \<Rightarrow> dict \<Rightarrow> dict option" where
  "generate_en_content product en_block = do {
     name \<leftarrow> as_str (dget product (str ''name'') (JStr []));
     let title = py_or (JStr (py_strip name)) (dget product (str ''brand'') (JStr []));
     let brand = dget product (str ''brand'') (JStr []);
     let country = dget product (str ''country_of_origin'') (JStr []);
     title_s \<leftarrow> fmt title;
     country_s \<leftarrow> fmt country;
     description \<leftarrow>
       py_format [(str ''title'', title_s), (str ''country'', country_s)] CG_TEXT_en_description;
     brand_s \<leftarrow> fmt brand;
     history \<leftarrow> those (map (\<lambda>(y, t). history_entry brand_s country_s (JStr y) t) CG_TEXT_en_history);
     Some (py_update en_block
       [(str ''title'', title),
        (str ''sections'', CG_SECTION_TITLES_en),
        (str ''description'', JStr description),
        (str ''ingredients'', JStr CG_TEXT_en_ingredients),
        (str ''precautions'', JStr CG_TEXT_en_precautions),
        (str ''history'', JArr history)])
   }"

section \<open>Localizer (\<^verbatim>\<open>i18n_translator.py\<close>)\<close>

text \<open>
  The tables of the module, one entry per language code. The texts are written as code
  points where they leave ASCII.
\<close>

definition LANGS :: "ustr list" where
  "LANGS = [str ''ru'', str ''ua'', str ''de'', str ''es'', str ''it'', str ''hr'', str ''hu'']"

definition SECTION_TITLES :: "(ustr \<times> json) list" where
  "SECTION_TITLES =
    [(str ''ru'', JObj
         [(str ''description_title'', JStr ([0x41E, 0x43F, 0x438, 0x441, 0x430, 0x43D, 0x438, 0x435])),
          (str ''ingredients_title'', JStr ([0x418, 0x43D, 0x433, 0x440, 0x435, 0x434, 0x438, 0x435, 0x43D, 0x442,
                   0x44B])),
          (str ''precautions_title'', JStr ([0x41F, 0x440, 0x435, 0x434, 0x43E, 0x441, 0x442, 0x435, 0x440, 0x435,
                   0x436, 0x435, 0x43D, 0x438, 0x44F])),
          (str ''history_title'', JStr ([0x418, 0x441, 0x442, 0x43E, 0x440, 0x438, 0x44F]))]),
     (str ''ua'', JObj
         [(str ''description_title'', JStr ([0x41E, 0x43F, 0x438, 0x441])),
          (str ''ingredients_title'', JStr ([0x406, 0x43D, 0x433, 0x440, 0x435, 0x434, 0x456, 0x454, 0x43D, 0x442,
                   0x438])),
          (str ''precautions_title'', JStr ([0x417, 0x430, 0x441, 0x442, 0x435, 0x440, 0x435, 0x436, 0x435, 0x43D,
                   0x43D, 0x44F])),
          (str ''history_title'', JStr ([0x406, 0x441, 0x442, 0x43E, 0x440, 0x456, 0x44F]))]),
     (str ''de'', JObj
         [(str ''description_title'', JStr (str ''Beschreibung'')),
          (str ''ingredients_title'', JStr (str ''Zutaten'')),
          (str ''precautions_title'', JStr (str ''Hinweise'')),
          (str ''history_title'', JStr (str ''Geschichte''))]),
     (str ''es'', JObj
         [(str ''description_title'', JStr (str ''Descripci'' @ [0xF3] @ str ''n'')),
          (str ''ingredients_title'', JStr (str ''Ingredientes'')),
          (str ''precautions_title'', JStr (str ''Advertencias'')),
          (str ''history_title'', JStr (str ''Historia''))]),
     (str ''it'', JObj
         [(str ''description_title'', JStr (str ''Descrizione'')),
          (str ''ingredients_title'', JStr (str ''Ingredienti'')),
          (str ''precautions_title'', JStr (str ''Avvertenze'')),
          (str ''history_title'', JStr (str ''Storia''))]),
     (str ''hr'', JObj
         [(str ''description_title'', JStr (str ''Opis'')),
          (str ''ingredients_title'', JStr (str ''Sastojci'')),
          (str ''precautions_title'', JStr (str ''Upozorenja'')),
          (str ''history_title'', JStr (str ''Povijest''))]),
     (str ''hu'', JObj
         [(str ''description_title'', JStr (str ''Le'' @ [0xED] @ str ''r'' @ [0xE1] @ str ''s'')),
          (str ''ingredients_title'', JStr ([0xD6] @ str ''sszetev'' @ [0x151] @ str ''k'')),
          (str ''precautions_title'', JStr (str ''Figyelmeztet'' @ [0xE9] @ str ''sek'')),
          (str ''history_title'', JStr (str ''T'' @ [0xF6] @ str ''rt'' @ [0xE9] @ str ''net''))])]"

definition META_LABELS :: "(ustr \<times> json) list" where
  "META_LABELS =
    [(str ''ru'', JObj
         [(str ''brand'', JStr ([0x411, 0x440, 0x435, 0x43D, 0x434])),
          (str ''country_of_origin'', JStr ([0x421, 0x442, 0x440, 0x430, 0x43D, 0x430] @ str '' '' @
                 [0x43F, 0x440, 0x43E, 0x438, 0x441, 0x445, 0x43E, 0x436, 0x434, 0x435,
                   0x43D, 0x438, 0x44F])),
          (str ''category'', JStr ([0x41A, 0x430, 0x442, 0x435, 0x433, 0x43E, 0x440, 0x438, 0x44F])),
          (str ''size'', JStr ([0x420, 0x430, 0x437, 0x43C, 0x435, 0x440])),
          (str ''alcohol_content'', JStr ([0x421, 0x43E, 0x434, 0x435, 0x440, 0x436, 0x430, 0x43D, 0x438, 0x435] @
                 str '' '' @ [0x430, 0x43B, 0x43A, 0x43E, 0x433, 0x43E, 0x43B, 0x44F])),
          (str ''sku'', JStr (str ''SKU''))]),
     (str ''ua'', JObj
         [(str ''brand'', JStr ([0x411, 0x440, 0x435, 0x43D, 0x434])),
          (str ''country_of_origin'', JStr ([0x41A, 0x440, 0x430, 0x457, 0x43D, 0x430] @ str '' '' @
                 [0x43F, 0x43E, 0x445, 0x43E, 0x434, 0x436, 0x435, 0x43D, 0x43D, 0x44F])),
          (str ''category'', JStr ([0x41A, 0x430, 0x442, 0x435, 0x433, 0x43E, 0x440, 0x456, 0x44F])),
          (str ''size'', JStr ([0x420, 0x43E, 0x437, 0x43C, 0x456, 0x440])),
          (str ''alcohol_content'', JStr ([0x412, 0x43C, 0x456, 0x441, 0x442] @ str '' '' @
                 [0x430, 0x43B, 0x43A, 0x43E, 0x433, 0x43E, 0x43B, 0x44E])),
          (str ''sku'', JStr (str ''SKU''))]),
     (str ''de'', JObj
         [(str ''brand'', JStr (str ''Marke'')),
          (str ''country_of_origin'', JStr (str ''Herkunftsland'')),
          (str ''category'', JStr (str ''Kategorie'')),
          (str ''size'', JStr (str ''Gr'' @ [0xF6, 0xDF] @ str ''e'')),
          (str ''alcohol_content'', JStr (str ''Alkoholgehalt'')),
          (str ''sku'', JStr (str ''SKU''))]),
     (str ''es'', JObj
         [(str ''brand'', JStr (str ''Marca'')),
          (str ''country_of_origin'', JStr (str ''Pa'' @ [0xED] @ str ''s de origen'')),
          (str ''category'', JStr (str ''Categor'' @ [0xED] @ str ''a'')),
          (str ''size'', JStr (str ''Tama'' @ [0xF1] @ str ''o'')),
          (str ''alcohol_content'', JStr (str ''Graduaci'' @ [0xF3] @ str ''n alcoh'' @ [0xF3] @ str ''lica'')),
          (str ''sku'', JStr (str ''SKU''))]),
     (str ''it'', JObj
         [(str ''brand'', JStr (str ''Marca'')),
          (str ''country_of_origin'', JStr (str ''Paese d'' @ [0x27] @ str ''origine'')),
          (str ''category'', JStr (str ''Categoria'')),
          (str ''size'', JStr (str ''Formato'')),
          (str ''alcohol_content'', JStr (str ''Contenuto alcolico'')),
          (str ''sku'', JStr (str ''SKU''))]),
     (str ''hr'', JObj
         [(str ''brand'', JStr (str ''Brend'')),
          (str ''country_of_origin'', JStr (str ''Zemlja podrijetla'')),
          (str ''category'', JStr (str ''Kategorija'')),
          (str ''size'', JStr (str ''Veli'' @ [0x10D] @ str ''ina'')),
          (str ''alcohol_content'', JStr (str ''Sadr'' @ [0x17E] @ str ''aj alkohola'')),
          (str ''sku'', JStr (str ''SKU''))]),
     (str ''hu'', JObj
         [(str ''brand'', JStr (str ''M'' @ [0xE1] @ str ''rka'')),
          (str ''country_of_origin'', JStr (str ''Sz'' @ [0xE1] @ str ''rmaz'' @ [0xE1] @ str ''si orsz'' @ [0xE1] @
                 str ''g'')),
          (str ''category'', JStr (str ''Kateg'' @ [0xF3] @ str ''ria'')),
          (str ''size'', JStr (str ''M'' @ [0xE9] @ str ''ret'')),
          (str ''alcohol_content'', JStr (str ''Alkoholtartalom'')),
          (str ''sku'', JStr (str ''SKU''))])]"

definition DESC_TPL :: "(ustr \<times> json) list" where
  "DESC_TPL =
    [(str ''ru'', JStr (str ''{name} '' @ [0x2014] @ str '' '' @
             [0x43F, 0x440, 0x43E, 0x434, 0x443, 0x43A, 0x442] @ str '' '' @
             [0x431, 0x440, 0x435, 0x43D, 0x434, 0x430] @ str '' {brand}, '' @
             [0x43F, 0x440, 0x43E, 0x438, 0x437, 0x432, 0x435, 0x434, 0x451, 0x43D, 0x43D,
               0x44B, 0x439] @
             str '' '' @ [0x432] @ str '' {country}. '' @
             [0x418, 0x437, 0x433, 0x43E, 0x442, 0x43E, 0x432, 0x43B, 0x435, 0x43D] @
             str '' '' @
             [0x442, 0x440, 0x430, 0x434, 0x438, 0x446, 0x438, 0x43E, 0x43D, 0x43D, 0x44B,
               0x43C, 0x438] @
             str '' '' @ [0x43C, 0x435, 0x442, 0x43E, 0x434, 0x430, 0x43C, 0x438] @
             str '' '' @ [0x438] @ str '' '' @
             [0x43E, 0x442, 0x43B, 0x438, 0x447, 0x430, 0x435, 0x442, 0x441, 0x44F] @
             str '' '' @
             [0x441, 0x442, 0x430, 0x431, 0x438, 0x43B, 0x44C, 0x43D, 0x44B, 0x43C] @
             str '' '' @ [0x43A, 0x430, 0x447, 0x435, 0x441, 0x442, 0x432, 0x43E, 0x43C] @
             str ''. '' @ [0x423, 0x434, 0x43E, 0x431, 0x43D, 0x44B, 0x439] @ str '' '' @
             [0x444, 0x43E, 0x440, 0x43C, 0x430, 0x442] @ str '' {size} '' @
             [0x43F, 0x43E, 0x434, 0x445, 0x43E, 0x434, 0x438, 0x442] @ str '' '' @
             [0x43A, 0x430, 0x43A] @ str '' '' @ [0x434, 0x43B, 0x44F] @ str '' '' @
             [0x43F, 0x43E, 0x432, 0x441, 0x435, 0x434, 0x43D, 0x435, 0x432, 0x43D, 0x43E,
               0x433, 0x43E] @
             str '' '' @
             [0x438, 0x441, 0x43F, 0x43E, 0x43B, 0x44C, 0x437, 0x43E, 0x432, 0x430, 0x43D,
               0x438, 0x44F] @
             str '', '' @ [0x442, 0x430, 0x43A] @ str '' '' @ [0x438] @ str '' '' @
             [0x434, 0x43B, 0x44F] @ str '' '' @ [0x43E, 0x441, 0x43E, 0x431, 0x44B,
               0x445] @
             str '' '' @ [0x441, 0x43B, 0x443, 0x447, 0x430, 0x435, 0x432] @ str ''.'')),
     (str ''ua'', JStr (str ''{name} '' @ [0x2014] @ str '' '' @
             [0x43F, 0x440, 0x43E, 0x434, 0x443, 0x43A, 0x442] @ str '' '' @
             [0x431, 0x440, 0x435, 0x43D, 0x434, 0x443] @ str '' {brand}, '' @
             [0x432, 0x438, 0x433, 0x43E, 0x442, 0x43E, 0x432, 0x43B, 0x435, 0x43D, 0x438,
               0x439] @
             str '' '' @ [0x443] @ str '' {country}. '' @
             [0x421, 0x442, 0x432, 0x43E, 0x440, 0x435, 0x43D, 0x438, 0x439] @ str '' '' @
             [0x442, 0x440, 0x430, 0x434, 0x438, 0x446, 0x456, 0x439, 0x43D, 0x438, 0x43C,
               0x438] @
             str '' '' @ [0x43C, 0x435, 0x442, 0x43E, 0x434, 0x430, 0x43C, 0x438] @
             str '' '' @ [0x442, 0x430] @ str '' '' @
             [0x432, 0x438, 0x440, 0x456, 0x437, 0x43D, 0x44F, 0x454, 0x442, 0x44C, 0x441,
               0x44F] @
             str '' '' @
             [0x441, 0x442, 0x430, 0x431, 0x456, 0x43B, 0x44C, 0x43D, 0x43E, 0x44E] @
             str '' '' @ [0x44F, 0x43A, 0x456, 0x441, 0x442, 0x44E] @ str ''. '' @
             [0x417, 0x440, 0x443, 0x447, 0x43D, 0x438, 0x439] @ str '' '' @
             [0x444, 0x43E, 0x440, 0x43C, 0x430, 0x442] @ str '' {size} '' @
             [0x43F, 0x456, 0x434, 0x445, 0x43E, 0x434, 0x438, 0x442, 0x44C] @ str '' '' @
             [0x456] @ str '' '' @ [0x434, 0x43B, 0x44F] @ str '' '' @
             [0x449, 0x43E, 0x434, 0x435, 0x43D, 0x43D, 0x43E, 0x433, 0x43E] @ str '' '' @
             [0x432, 0x438, 0x43A, 0x43E, 0x440, 0x438, 0x441, 0x442, 0x430, 0x43D, 0x43D,
               0x44F] @
             str '', '' @ [0x456] @ str '' '' @ [0x434, 0x43B, 0x44F] @ str '' '' @
             [0x43E, 0x441, 0x43E, 0x431, 0x43B, 0x438, 0x432, 0x438, 0x445] @ str '' '' @
             [0x43C, 0x43E, 0x43C, 0x435, 0x43D, 0x442, 0x456, 0x432] @ str ''.'')),
     (str ''de'', JStr (str ''{name} ist ein Produkt der Marke {brand} aus {country}. Nach traditionellen Methoden hergestellt und f'' @
             [0xFC] @ str ''r gleichbleibende Qualit'' @ [0xE4] @
             str ''t bekannt. Das Format {size} eignet sich sowohl f'' @ [0xFC] @
             str ''r den Alltag als auch f'' @ [0xFC] @ str ''r besondere Anl'' @ [0xE4] @
             str ''sse.'')),
     (str ''es'', JStr (str ''{name} es un producto de la marca {brand} elaborado en {country}. Se produce con m'' @
             [0xE9] @
             str ''todos tradicionales y destaca por su calidad constante. Su formato {size} es ideal para el d'' @
             [0xED] @ str ''a a d'' @ [0xED] @ str ''a y ocasiones especiales.'')),
     (str ''it'', JStr (str ''{name} '' @ [0xE8] @
             str '' un prodotto del marchio {brand} realizzato in {country}. Prodotto con metodi tradizionali e noto per la qualit'' @
             [0xE0] @ str '' costante. Il formato {size} '' @ [0xE8] @
             str '' perfetto sia per l'' @ [0x2019] @
             str ''uso quotidiano sia per le occasioni speciali.'')),
     (str ''hr'', JStr (str ''{name} je proizvod brenda {brand} proizveden u {country}. Izra'' @
             [0x111] @ str ''en tradicionalnim metodama i poznat po ujedna'' @ [0x10D] @
             str ''enoj kvaliteti. Format {size} prikladan je za svakodnevnu upotrebu i posebne prilike.'')),
     (str ''hu'', JStr (str ''A(z) {name} a {brand} m'' @ [0xE1] @ str ''rka term'' @ [0xE9] @
             str ''ke {country} ter'' @ [0xFC] @ str ''let'' @ [0xE9] @ str ''r'' @ [0x151] @
             str ''l. Hagyom'' @ [0xE1] @ str ''nyos elj'' @ [0xE1] @ str ''r'' @ [0xE1] @
             str ''ssal k'' @ [0xE9] @ str ''sz'' @ [0xFC] @ str ''l, megb'' @ [0xED] @
             str ''zhat'' @ [0xF3] @ str '' min'' @ [0x151] @ str ''s'' @ [0xE9] @
             str ''ggel. A(z) {size} kiszerel'' @ [0xE9] @ str ''s a mindennapokra '' @
             [0xE9] @ str ''s k'' @ [0xFC] @ str ''l'' @ [0xF6] @
             str ''nleges alkalmakra is ide'' @ [0xE1] @ str ''lis.''))]"

definition ING_TEXT :: "(ustr \<times> json) list" where
  "ING_TEXT =
    [(str ''ru'', JStr ([0x421, 0x43E, 0x441, 0x442, 0x430, 0x432] @ str '' '' @
             [0x43C, 0x43E, 0x436, 0x435, 0x442] @ str '' '' @
             [0x43E, 0x442, 0x43B, 0x438, 0x447, 0x430, 0x442, 0x44C, 0x441, 0x44F] @
             str '' '' @ [0x432] @ str '' '' @
             [0x437, 0x430, 0x432, 0x438, 0x441, 0x438, 0x43C, 0x43E, 0x441, 0x442, 0x438] @
             str '' '' @ [0x43E, 0x442] @ str '' '' @
             [0x43F, 0x440, 0x43E, 0x434, 0x443, 0x43A, 0x442, 0x430] @ str ''. '' @
             [0x421, 0x43C] @ str ''. '' @
             [0x443, 0x43F, 0x430, 0x43A, 0x43E, 0x432, 0x43A, 0x443] @ str ''.'')),
     (str ''ua'', JStr ([0x421, 0x43A, 0x43B, 0x430, 0x434] @ str '' '' @ [0x43C, 0x43E, 0x436,
               0x435] @
             str '' '' @
             [0x432, 0x456, 0x434, 0x440, 0x456, 0x437, 0x43D, 0x44F, 0x442, 0x438, 0x441,
               0x44F] @
             str '' '' @ [0x437, 0x430, 0x43B, 0x435, 0x436, 0x43D, 0x43E] @ str '' '' @
             [0x432, 0x456, 0x434] @ str '' '' @
             [0x43F, 0x440, 0x43E, 0x434, 0x443, 0x43A, 0x442, 0x443] @ str ''. '' @
             [0x414, 0x438, 0x432] @ str ''. '' @
             [0x443, 0x43F, 0x430, 0x43A, 0x43E, 0x432, 0x43A, 0x443] @ str ''.'')),
     (str ''de'', JStr (str ''Die Zutaten k'' @ [0xF6] @
             str ''nnen je nach Produkt variieren. Siehe Verpackung.'')),
     (str ''es'', JStr (str ''Los ingredientes pueden variar seg'' @ [0xFA] @
             str ''n el producto. Consulte el envase.'')),
     (str ''it'', JStr (str ''Gli ingredienti possono variare a seconda del prodotto. Vedi confezione.'')),
     (str ''hr'', JStr (str ''Sastojci se mogu razlikovati ovisno o proizvodu. Pogledajte pakiranje.'')),
     (str ''hu'', JStr (str ''Az '' @ [0xF6] @ str ''sszetev'' @ [0x151] @ str ''k term'' @ [0xE9] @
             str ''kenk'' @ [0xE9] @ str ''nt elt'' @ [0xE9] @ str ''rhetnek. L'' @ [0xE1] @
             str ''sd a csomagol'' @ [0xE1] @ str ''st.''))]"

definition PREC_TEXT :: "(ustr \<times> json) list" where
  "PREC_TEXT =
    [(str ''ru'', JStr ([0x425, 0x440, 0x430, 0x43D, 0x438, 0x442, 0x44C] @ str '' '' @
             [0x441, 0x43E, 0x433, 0x43B, 0x430, 0x441, 0x43D, 0x43E] @ str '' '' @
             [0x443, 0x43A, 0x430, 0x437, 0x430, 0x43D, 0x438, 0x44F, 0x43C] @ str '' '' @
             [0x43D, 0x430] @ str '' '' @
             [0x443, 0x43F, 0x430, 0x43A, 0x43E, 0x432, 0x43A, 0x435] @ str ''. '' @
             [0x41F, 0x440, 0x43E, 0x432, 0x435, 0x440, 0x44C, 0x442, 0x435] @ str '' '' @
             [0x430, 0x43B, 0x43B, 0x435, 0x440, 0x433, 0x435, 0x43D, 0x43D, 0x443, 0x44E] @
             str '' '' @
             [0x438, 0x43D, 0x444, 0x43E, 0x440, 0x43C, 0x430, 0x446, 0x438, 0x44E] @
             str ''.'')),
     (str ''ua'', JStr ([0x417, 0x431, 0x435, 0x440, 0x456, 0x433, 0x430, 0x442, 0x438] @ str '' '' @
             [0x437, 0x433, 0x456, 0x434, 0x43D, 0x43E] @ str '' '' @ [0x437] @ str '' '' @
             [0x456, 0x43D, 0x441, 0x442, 0x440, 0x443, 0x43A, 0x446, 0x456, 0x44F, 0x43C,
               0x438] @
             str '' '' @ [0x43D, 0x430] @ str '' '' @
             [0x443, 0x43F, 0x430, 0x43A, 0x43E, 0x432, 0x446, 0x456] @ str ''. '' @
             [0x41F, 0x435, 0x440, 0x435, 0x432, 0x456, 0x440, 0x442, 0x435] @ str '' '' @
             [0x430, 0x43B, 0x435, 0x440, 0x433, 0x435, 0x43D, 0x438] @ str ''.'')),
     (str ''de'', JStr (str ''Gem'' @ [0xE4, 0xDF] @
             str '' den Anweisungen auf der Verpackung lagern. Allergenhinweise pr'' @
             [0xFC] @ str ''fen.'')),
     (str ''es'', JStr (str ''Conservar seg'' @ [0xFA] @
             str ''n las instrucciones del envase. Verifique al'' @ [0xE9] @ str ''rgenos.'')),
     (str ''it'', JStr (str ''Conservare secondo le istruzioni sulla confezione. Verificare allergeni.'')),
     (str ''hr'', JStr ([0x10C] @ str ''uvati prema uputama na pakiranju. Provjeriti alergene.'')),
     (str ''hu'', JStr (str ''A csomagol'' @ [0xE1] @ str ''s szerint t'' @ [0xE1] @ str ''roland'' @
             [0xF3] @ str ''. Ellen'' @ [0x151] @ str ''rizze az allerg'' @ [0xE9] @
             str ''neket.''))]"

definition HIST_TPL :: "(ustr \<times> json) list" where
  "HIST_TPL =
    [(str ''ru'', JArr
         [JStr ([0x411, 0x440, 0x435, 0x43D, 0x434] @ str '' {brand} '' @
                [0x431, 0x44B, 0x43B] @ str '' '' @
                [0x43E, 0x441, 0x43D, 0x43E, 0x432, 0x430, 0x43D] @ str '' '' @ [0x432] @
                str '' {country}.''),
          JStr ([0x421, 0x43E] @ str '' '' @
                [0x432, 0x440, 0x435, 0x43C, 0x435, 0x43D, 0x435, 0x43C] @ str '' '' @
                [0x431, 0x440, 0x435, 0x43D, 0x434] @ str '' {brand} '' @
                [0x440, 0x430, 0x441, 0x448, 0x438, 0x440, 0x438, 0x43B] @ str '' '' @
                [0x430, 0x441, 0x441, 0x43E, 0x440, 0x442, 0x438, 0x43C, 0x435, 0x43D,
                  0x442] @
                str ''.''),
          JStr ([0x421, 0x435, 0x433, 0x43E, 0x434, 0x43D, 0x44F] @ str '' '' @
                [0x43F, 0x440, 0x43E, 0x434, 0x443, 0x43A, 0x446, 0x438, 0x44F] @
                str '' {brand} '' @ [0x438, 0x437, 0x432, 0x435, 0x441, 0x442, 0x43D,
                  0x430] @
                str '' '' @ [0x438] @ str '' '' @ [0x43B, 0x44E, 0x431, 0x438, 0x43C,
                  0x430] @
                str '' '' @ [0x432, 0x43E] @ str '' '' @
                [0x43C, 0x43D, 0x43E, 0x433, 0x438, 0x445] @ str '' '' @
                [0x441, 0x442, 0x440, 0x430, 0x43D, 0x430, 0x445] @ str ''.'')]),
     (str ''ua'', JArr
         [JStr ([0x411, 0x440, 0x435, 0x43D, 0x434] @ str '' {brand} '' @
                [0x431, 0x443, 0x432] @ str '' '' @
                [0x437, 0x430, 0x441, 0x43D, 0x43E, 0x432, 0x430, 0x43D, 0x438, 0x439] @
                str '' '' @ [0x443] @ str '' {country}.''),
          JStr ([0x417] @ str '' '' @ [0x447, 0x430, 0x441, 0x43E, 0x43C] @ str '' '' @
                [0x431, 0x440, 0x435, 0x43D, 0x434] @ str '' {brand} '' @
                [0x440, 0x43E, 0x437, 0x448, 0x438, 0x440, 0x438, 0x432] @ str '' '' @
                [0x430, 0x441, 0x43E, 0x440, 0x442, 0x438, 0x43C, 0x435, 0x43D, 0x442] @
                str ''.''),
          JStr ([0x421, 0x44C, 0x43E, 0x433, 0x43E, 0x434, 0x43D, 0x456] @ str '' '' @
                [0x43F, 0x440, 0x43E, 0x434, 0x443, 0x43A, 0x446, 0x456, 0x44F] @
                str '' {brand} '' @ [0x432, 0x456, 0x434, 0x43E, 0x43C, 0x430] @ str '' '' @
                [0x443] @ str '' '' @
                [0x431, 0x430, 0x433, 0x430, 0x442, 0x44C, 0x43E, 0x445] @ str '' '' @
                [0x43A, 0x440, 0x430, 0x457, 0x43D, 0x430, 0x445] @ str ''.'')]),
     (str ''de'', JArr
         [JStr (str ''Die Marke {brand} wurde in {country} gegr'' @ [0xFC] @ str ''ndet.''),
          JStr (str ''Im Laufe der Zeit erweiterte {brand} sein Sortiment.''),
          JStr (str ''Heute werden {brand} Produkte weltweit gesch'' @ [0xE4] @ str ''tzt.'')]),
     (str ''es'', JArr
         [JStr (str ''La marca {brand} fue fundada en {country}.''),
          JStr (str ''Con el tiempo, {brand} ampli'' @ [0xF3] @
                str '' su gama de productos.''),
          JStr (str ''Hoy, los productos {brand} se disfrutan en todo el mundo.'')]),
     (str ''it'', JArr
         [JStr (str ''Il marchio {brand} '' @ [0xE8] @ str '' stato fondato in {country}.''),
          JStr (str ''Nel tempo, {brand} ha ampliato la sua gamma.''),
          JStr (str ''Oggi i prodotti {brand} sono apprezzati in tutto il mondo.'')]),
     (str ''hr'', JArr
         [JStr (str ''Marka {brand} osnovana je u {country}.''),
          JStr (str ''S vremenom je {brand} pro'' @ [0x161] @ str ''irio svoj asortiman.''),
          JStr (str ''Danas se proizvodi {brand} koriste diljem svijeta.'')]),
     (str ''hu'', JArr
         [JStr (str ''A {brand} m'' @ [0xE1] @ str ''rk'' @ [0xE1] @ str ''t {country} ter'' @
                [0xFC] @ str ''let'' @ [0xE9] @ str ''n alap'' @ [0xED] @ str ''tott'' @
                [0xE1] @ str ''k.''),
          JStr (str ''Id'' @ [0x151] @ str ''vel a {brand} kib'' @ [0x151] @ str ''v'' @
                [0xED] @ str ''tette term'' @ [0xE9] @ str ''kk'' @ [0xED] @ str ''n'' @
                [0xE1] @ str ''lat'' @ [0xE1] @ str ''t.''),
          JStr (str ''Ma a {brand} term'' @ [0xE9] @ str ''keket vil'' @ [0xE1] @
                str ''gszerte '' @ [0xE9] @ str ''lvezik.'')])]"


text \<open>
  The body of the loop over \<^verbatim>\<open>LANGS\<close>: a deep copy of the \<^verbatim>\<open>en\<close> block, then seven assignments.
  \<open>years\<close> holds \<^verbatim>\<open>[h.get("year", "") for h in en.get("history", [])]\<close>.
\<close>

definition localize_block ::
  "dict \<Rightarrow> ustr \<Rightarrow> ustr \<Rightarrow> ustr \<Rightarrow> ustr \<Rightarrow> json list \<Rightarrow> ustr \<Rightarrow> dict option" where
  "localize_block en name brand country sz years lang = do {
     sections \<leftarrow> map_of SECTION_TITLES lang;
     meta \<leftarrow> map_of META_LABELS lang;
     desc_tpl \<leftarrow> map_of DESC_TPL lang \<bind> as_str;
     description \<leftarrow>
       py_format [(str ''name'', name), (str ''brand'', brand), (str ''country'', country),
                  (str ''size'', sz)] desc_tpl;
     ingredients \<leftarrow> map_of ING_TEXT lang;
     precautions \<leftarrow> map_of PREC_TEXT lang;
     hist_tpl \<leftarrow> map_of HIST_TPL lang \<bind> py_iter;
     history_out \<leftarrow> those (map (\<lambda>(i, tpl). as_str tpl \<bind>
        history_entry brand country (if i < length years then years ! i else JStr []))
        (enumerate 0 hist_tpl));
     Some (py_update en
       [(str ''sections'', sections),
        (str ''meta'', meta),
        (str ''title'', JStr name),
        (str ''description'', JStr description),
        (str ''ingredients'', ingredients),
        (str ''precautions'', precautions),
        (str ''history'', JArr history_out)])
   }"

text \<open>
  \<^verbatim>\<open>generate_i18n_from_en(data)\<close>, returning the mutated \<^verbatim>\<open>data\<close>. An \<^verbatim>\<open>en\<close> block that is not
  a dictionary raises at the latest at the first item assignment on its copy.
\<close>

definition generate_i18n_from_en :: "dict \<Rightarrow> dict option" where
  "generate_i18n_from_en data = do {
     i18n \<leftarrow> map_of data (str ''i18n'') \<bind> as_dict;
     en \<leftarrow> map_of i18n (str ''en'') \<bind> as_dict;
     name \<leftarrow> as_str (py_or (dget data (str ''name'') JNull)
                        (py_or (dget en (str ''title'') JNull) (JStr [])));
     brand \<leftarrow> as_str (py_or (dget data (str ''brand'') JNull) (JStr []));
     country \<leftarrow> as_str (py_or (dget data (str ''country_of_origin'') JNull) (JStr []));
     sz \<leftarrow> as_str (py_or (dget data (str ''size'') JNull) (JStr []));
     hs \<leftarrow> py_iter (dget en (str ''history'') (JArr []));
     years \<leftarrow> those (map (\<lambda>h. map_option (\<lambda>d. dget d (str ''year'') (JStr [])) (as_dict h)) hs);
     blocks \<leftarrow> those (map (\<lambda>lang. map_option (\<lambda>b. (lang, JObj b))
        (localize_block en (py_strip name) (py_strip brand) (py_strip country) (py_strip sz)
           years lang)) LANGS);
     Some (AList.update (str ''i18n'') (JObj (py_update i18n blocks)) data)
   }"

section \<open>Store builder (\<^verbatim>\<open>generate_json_from_excel.py\<close>)\<close>

definition forbidden :: "nat \<Rightarrow> bool" where
  "forbidden c \<longleftrightarrow> c = 0x5C \<or> c = 0x22 \<or> c \<in> set (str ''/:*?<>|'')"

definition safe_filename :: "ustr \<Rightarrow> ustr" where
  "safe_filename value0 =
     (let value1 = py_strip value0;
          value2 = py_replace (str ''.0'') [] value1;
          value3 = sub_runs forbidden (str ''-'') value2;
          value4 = sub_runs py_isspace (str '' '') value3
      in value4)"

text \<open>
  A spreadsheet row maps a column to the text \<^verbatim>\<open>str()\<close> gives for its cell;
  \<open>cell row col\<close> is \<^verbatim>\<open>str(row.get(col, "")).strip()\<close>.
\<close>

definition cell :: "(ustr \<times> ustr) list \<Rightarrow> ustr \<Rightarrow> ustr" where
  "cell row col = py_strip (case map_of row col of None \<Rightarrow> [] | Some v \<Rightarrow> v)"

text \<open>
  The body of the main loop for one row. \<open>template\<close> is the parsed \<^verbatim>\<open>template_product.json\<close>,
  a file the repository does not contain. The result is \<open>Skipped\<close> for a row without SKU, or
  the file name stem and the record written to \<^verbatim>\<open>content/<sku>.json\<close>.
\<close>

datatype row_result = Skipped | Written ustr dict

definition build_product :: "json \<Rightarrow> (ustr \<times> ustr) list \<Rightarrow> row_result option" where
  "build_product template row =
     (let sku_raw = cell row (str ''SKU ID'') in
      if sku_raw = [] then Some Skipped
      else do {
        let sku = safe_filename sku_raw;
        product0 \<leftarrow> as_dict template;
        let tags = cell row (str ''Tags'');
        let product1 = py_update product0
          [(str ''sku'', JStr sku),
           (str ''name'', JStr (cell row (str ''SKU Name''))),
           (str ''brand'', JStr (cell row (str ''Brand''))),
           (str ''country_of_origin'', JStr (cell row (str ''Country''))),
           (str ''category'', JStr (cell row (str ''Department''))),
           (str ''size'', JStr (cell row (str ''Size''))),
           (str ''alcohol_content'', JStr []),
           (str ''image'', JStr (str ''../../assets/'' @ sku @ str ''.jpg'')),
           (str ''tags'', JArr (map (\<lambda>t. JStr (py_strip t))
              (filter (\<lambda>t. py_strip t \<noteq> []) (py_split 0x2C tags))))];
        i18n0 \<leftarrow> map_of product1 (str ''i18n'') \<bind> as_dict;
        let en0 = dget i18n0 (str ''en'') (JObj []);
        let product2 = AList.update (str ''i18n'') (JObj [(str ''en'', en0)]) product1;
        en_block \<leftarrow> as_dict en0;
        en1 \<leftarrow> generate_en_content product2 en_block;
        let product3 = AList.update (str ''i18n'') (JObj [(str ''en'', JObj en1)]) product2;
        product4 \<leftarrow> generate_i18n_from_en product3;
        Some (Written sku product4)
      })"

section \<open>Page Renderer (\<^verbatim>\<open>generate_pages.py\<close>)\<close>

definition LANG_MAP :: "(ustr \<times> ustr) list" where
  "LANG_MAP =
     [(str ''en'', str ''index.html''),
      (str ''ru'', str ''ru.html''),
      (str ''ua'', str ''ua.html''),
      (str ''de'', str ''de.html''),
      (str ''es'', str ''es.html''),
      (str ''it'', str ''it.html''),
      (str ''hr'', str ''hr.html''),
      (str ''hu'', str ''hu.html'')]"

definition tags_html :: "json \<Rightarrow> ustr option" where
  \<open>tags_html tags = do {
     ts \<leftarrow> py_iter tags;
     spans \<leftarrow> those (map (\<lambda>tag. map_option (\<lambda>t. str ''<span class="tag">'' @ t @ str ''</span>'')
        (fmt tag)) ts);
     Some (concat spans)
   }\<close>

text \<open>
  One turn of the history loop. \<^verbatim>\<open>history_labels.get(key, "")\<close> needs a dictionary and a
  hashable key; a key that is no string is not among the keys of a JSON object.
\<close>

definition history_item :: "json \<Rightarrow> json \<Rightarrow> ustr option" where
  \<open>history_item history_labels h = do {
     entry \<leftarrow> as_dict h;
     labels \<leftarrow> as_dict history_labels;
     label \<leftarrow> (case dget entry (str ''key'') (JStr []) of
        JStr k \<Rightarrow> Some (dget labels k (JStr []))
      | JArr _ \<Rightarrow> None
      | JObj _ \<Rightarrow> None
      | _ \<Rightarrow> Some (JStr []));
     let text = dget entry (str ''text'') (JStr []);
     if \<not> truthy text then Some []
     else do {
       year \<leftarrow> (if truthy label
                then map_option (\<lambda>l. str ''<span class="year">'' @ l @ str ''</span>'') (fmt label)
                else Some []);
       t \<leftarrow> fmt text;
       Some (str ''<div class="history-item">'' @ year @ str ''<p>'' @ t @ str ''</p>'' @ str ''</div>'')
     }
   }\<close>

text \<open>
  The page of one language: the chain of \<^verbatim>\<open>.replace\<close> calls on the text of \<^verbatim>\<open>template.html\<close>
  (the argument \<open>T\<close>; the file is not part of the repository). Every substituted value has to be a
  string.
\<close>

definition render_page :: "ustr \<Rightarrow> dict \<Rightarrow> ustr \<Rightarrow> json \<Rightarrow> ustr \<Rightarrow> ustr option" where
  "render_page T data sku product_name lang = do {
     all_i18n \<leftarrow> map_of data (str ''i18n'') \<bind> as_dict;
     i18n \<leftarrow> as_dict (dget all_i18n lang (JObj []));
     sections \<leftarrow> as_dict (dget i18n (str ''sections'') (JObj []));
     meta \<leftarrow> as_dict (dget i18n (str ''meta'') (JObj []));
     tags \<leftarrow> tags_html (dget data (str ''tags'') (JArr []));
     hs \<leftarrow> py_iter (dget i18n (str ''history'') (JArr []));
     items \<leftarrow> those (map (history_item (dget i18n (str ''history_labels'') (JObj []))) hs);
     vals \<leftarrow> those (map as_str
       [product_name,
        JStr tags,
        dget meta (str ''brand'') (JStr []),
        dget meta (str ''country_of_origin'') (JStr []),
        dget meta (str ''category'') (JStr []),
        dget meta (str ''size'') (JStr []),
        dget meta (str ''alcohol_content'') (JStr []),
        dget data (str ''brand'') (JStr []),
        dget data (str ''country_of_origin'') (JStr []),
        dget data (str ''category'') (JStr []),
        dget data (str ''size'') (JStr []),
        dget data (str ''alcohol_content'') (JStr []),
        JStr sku,
        dget sections (str ''description_title'') (JStr []),
        dget sections (str ''ingredients_title'') (JStr []),
        dget sections (str ''precautions_title'') (JStr []),
        dget sections (str ''history_title'') (JStr []),
        dget i18n (str ''description'') (JStr []),
        dget i18n (str ''ingredients'') (JStr []),
        dget i18n (str ''precautions'') (JStr []),
        JStr (concat items)]);
     Some (foldl (\<lambda>html (placeholder, v). py_replace placeholder v html) T
       (zip [str ''{{TITLE}}'', str ''{{TAGS}}'', str ''{{BRAND_LABEL}}'', str ''{{COUNTRY_LABEL}}'',
             str ''{{CATEGORY_LABEL}}'', str ''{{SIZE_LABEL}}'', str ''{{ALCOHOL_LABEL}}'',
             str ''{{BRAND}}'', str ''{{COUNTRY}}'', str ''{{CATEGORY}}'', str ''{{SIZE}}'',
             str ''{{ALCOHOL}}'', str ''{{SKU}}'', str ''{{DESC_TITLE}}'', str ''{{ING_TITLE}}'',
             str ''{{PREC_TITLE}}'', str ''{{HISTORY_TITLE}}'', str ''{{DESCRIPTION}}'',
             str ''{{INGREDIENTS}}'', str ''{{PRECAUTIONS}}'', str ''{{HISTORY_ITEMS}}''] vals))
   }"

text \<open>
  The loop over \<^verbatim>\<open>LANG_MAP\<close>. A written file is its path, as the components
  \<^verbatim>\<open>products\<close>, SKU, file name, with its text. The flag tells whether the loop ran to its end:
  a page that raises stops it, and the files written before stay.
\<close>

fun render_langs ::
  "ustr \<Rightarrow> dict \<Rightarrow> ustr \<Rightarrow> json \<Rightarrow> (ustr \<times> ustr) list \<Rightarrow> (ustr list \<times> ustr) list \<times> bool" where
  "render_langs T data sku product_name [] = ([], True)"
| "render_langs T data sku product_name ((lang, filename) # rest) =
     (case render_page T data sku product_name lang of
        None \<Rightarrow> ([], False)
      | Some html \<Rightarrow>
          (case render_langs T data sku product_name rest of
             (files, done) \<Rightarrow> (([str ''products'', sku, filename], html) # files, done)))"

text \<open>The body of the main loop for one content file; a record without SKU is passed over.\<close>

definition render_product :: "ustr \<Rightarrow> dict \<Rightarrow> (ustr list \<times> ustr) list \<times> bool" where
  "render_product T data =
     (case fmt (dget data (str ''sku'') (JStr [])) of
        None \<Rightarrow> ([], False)
      | Some s \<Rightarrow>
          let sku = py_strip s in
          if sku = [] then ([], True)
          else
            let product_name =
              py_or (dget data (str ''name'') JNull)
                (py_or (dget data (str ''sku_name'') JNull)
                   (py_or (dget data (str ''title'') JNull) (JStr [])))
            in render_langs T data sku product_name LANG_MAP)"

section \<open>Enricher: search and fetch behind the cache (\<^verbatim>\<open>enrich_products.py\<close>)\<close>

text \<open>
  \<^verbatim>\<open>WebCache\<close> keeps one file per entry, named by the SHA-1 of the query or of the URL. The two
  directories are maps from that name to what the Enricher wrote there. The state also logs
  every request sent to the network, so that a retry can be told from a cache hit.
\<close>

record webdoc =
  doc_url :: ustr
  doc_title :: ustr
  doc_text :: ustr

datatype request = SearchRequest ustr nat | PageRequest ustr

record enrich_state =
  search_dir :: "ustr \<rightharpoonup> json list"
  page_dir :: "ustr \<rightharpoonup> webdoc"
  net_log :: "request list"

definition MAX_FETCH_CHARS :: nat where
  "MAX_FETCH_CHARS = 40000"

text \<open>\<^verbatim>\<open>clean_spaces(s)\<close> on a string (\<^verbatim>\<open>s or ""\<close> is then \<open>s\<close>)\<close>

definition clean_spaces :: "ustr \<Rightarrow> ustr" where
  "clean_spaces s = sub_runs py_isspace (str '' '') (py_strip s)"

text \<open>
  What the search library does when it is called: it raises, or it yields results. A result
  that is no dictionary raises inside the \<^verbatim>\<open>try\<close> block as well, and \<^verbatim>\<open>except\<close> discards
  whatever was collected before.
\<close>

datatype search_outcome = SearchRaises | SearchYields "json list"

definition collect_results :: "search_outcome \<Rightarrow> json list" where
  "collect_results out =
     (case out of
        SearchRaises \<Rightarrow> []
      | SearchYields rs \<Rightarrow>
          (case those (map as_dict rs) of
             None \<Rightarrow> []
           | Some ds \<Rightarrow>
               map (\<lambda>r. JObj
                 [(str ''title'', dget r (str ''title'') (JStr [])),
                  (str ''url'', dget r (str ''href'') (JStr [])),
                  (str ''snippet'', dget r (str ''body'') (JStr []))]) ds))"

definition ddg_search ::
  "pyrt \<Rightarrow> search_outcome \<Rightarrow> ustr \<Rightarrow> nat \<Rightarrow> enrich_state \<Rightarrow> json list \<times> enrich_state" where
  "ddg_search L out query max_results st =
     (case search_dir st (sha1_hex L query) of
        Some cached \<Rightarrow> (cached, st)
      | None \<Rightarrow>
          let results = collect_results out
          in (results,
              st\<lparr>search_dir := (search_dir st)(sha1_hex L query \<mapsto> results),
                 net_log := net_log st @ [SearchRequest query max_results]\<rparr>))"

text \<open>
  What the request and the extraction libraries do for one URL: something inside the \<^verbatim>\<open>try\<close>
  block raises, or there is a response with its status, the text \<^verbatim>\<open>trafilatura.extract\<close> found
  (if any), the text of the parsed page, and its title.
\<close>

datatype title_outcome = TitleRaises | NoTitle | Title ustr

datatype fetch_outcome = FetchRaises | Response nat "ustr option" ustr title_outcome

definition fetch_and_extract ::
  "pyrt \<Rightarrow> fetch_outcome \<Rightarrow> ustr \<Rightarrow> enrich_state \<Rightarrow> webdoc option \<times> enrich_state" where
  "fetch_and_extract L out u st =
     (case page_dir st (sha1_hex L u) of
        Some cached \<Rightarrow> (Some cached, st)
      | None \<Rightarrow>
          let st1 = st\<lparr>net_log := net_log st @ [PageRequest u]\<rparr> in
          (case out of
             FetchRaises \<Rightarrow> (None, st1)
           | Response status downloaded soup_text soup_title \<Rightarrow>
               if status \<ge> 400 then (None, st1)
               else
                 let text0 = clean_spaces (case downloaded of None \<Rightarrow> [] | Some d \<Rightarrow> d);
                     text1 = (if text0 = [] then clean_spaces soup_text else text0);
                     title1 = (case soup_title of Title t \<Rightarrow> clean_spaces t | _ \<Rightarrow> []);
                     doc = \<lparr>doc_url = u, doc_title = title1, doc_text = take MAX_FETCH_CHARS text1\<rparr>
                 in (Some doc, st1\<lparr>page_dir := (page_dir st1)(sha1_hex L u \<mapsto> doc)\<rparr>)))"

section \<open>Merger (\<^verbatim>\<open>merge_enriched_into_content.py\<close>)\<close>

definition FIELDS_TO_MERGE :: "ustr list" where
  "FIELDS_TO_MERGE =
     [str ''description'', str ''ingredients'', str ''precautions'', str ''history'', str ''sources'']"

text \<open>
  \<^verbatim>\<open>field in en_new\<close> and \<^verbatim>\<open>en_new[field]\<close>. On a list the first is membership, on a string it
  is a substring test, and the second raises on both.
\<close>

fun field_in :: "json \<Rightarrow> ustr \<Rightarrow> bool option" where
  "field_in (JObj d) f = Some (map_of d f \<noteq> None)"
| "field_in (JArr xs) f = Some (JStr f \<in> set xs)"
| "field_in (JStr s) f = Some (contains s f)"
| "field_in _ f = None"

fun item :: "json \<Rightarrow> ustr \<Rightarrow> json option" where
  "item (JObj d) f = map_of d f"
| "item _ f = None"

text \<open>
  One turn of the loop over \<^verbatim>\<open>FIELDS_TO_MERGE\<close>, on the pair of \<^verbatim>\<open>en_old\<close> and \<^verbatim>\<open>changed\<close>.
  \<^verbatim>\<open>en_old.get(field)\<close> is \<^verbatim>\<open>None\<close> for a missing field.
\<close>

definition merge_field :: "json \<Rightarrow> json \<times> bool \<Rightarrow> ustr \<Rightarrow> (json \<times> bool) option" where
  "merge_field en_new acc field =
     (case acc of (en_old, changed) \<Rightarrow> do {
        present \<leftarrow> field_in en_new field;
        if \<not> present then Some (en_old, changed)
        else do {
          v \<leftarrow> item en_new field;
          if \<not> truthy v then Some (en_old, changed)
          else do {
            old \<leftarrow> as_dict en_old;
            if \<not> py_eq (dget old field JNull) v
            then Some (JObj (AList.update field v old), True)
            else Some (en_old, changed)
          }
        }
      })"

text \<open>The test of the loop body on dictionaries: the new value is there, true, and not equal to the old one.\<close>

definition overwrites :: "dict \<Rightarrow> dict \<Rightarrow> ustr \<Rightarrow> bool" where
  "overwrites en_new en_old field =
     (case map_of en_new field of
        None \<Rightarrow> False
      | Some v \<Rightarrow> truthy v \<and> \<not> py_eq (dget en_old field JNull) v)"

fun merge_fields :: "json \<Rightarrow> json \<times> bool \<Rightarrow> ustr list \<Rightarrow> (json \<times> bool) option" where
  "merge_fields en_new acc [] = Some acc"
| "merge_fields en_new acc (f # fs) = merge_field en_new acc f \<bind> (\<lambda>acc'. merge_fields en_new acc' fs)"

text \<open>
  The body of the main loop for the content file \<open>fname\<close> holding \<open>product\<close>, against the
  enriched store. The result is the record the file holds afterwards: the file is written only
  when a field changed. \<^verbatim>\<open>setdefault\<close> puts a missing \<^verbatim>\<open>i18n\<close> or \<^verbatim>\<open>en\<close> into the record. A file whose
  name does not end in \<^verbatim>\<open>.json\<close> is passed over, one without enriched entry is counted as skipped.
\<close>

datatype merge_result = NotJson | NotEnriched | Merged json bool

definition endswith :: "ustr \<Rightarrow> ustr \<Rightarrow> bool" where
  "endswith s p = startswith (rev s) (rev p)"

definition merge_one :: "dict \<Rightarrow> ustr \<Rightarrow> json \<Rightarrow> merge_result option" where
  "merge_one enriched fname product =
     (if \<not> endswith fname (str ''.json'') then Some NotJson else
      let sku = py_replace (str ''.json'') [] fname in
      case map_of enriched sku of
        None \<Rightarrow> Some NotEnriched
      | Some e \<Rightarrow> do {
          p \<leftarrow> as_dict product;
          i18n \<leftarrow> as_dict (dget p (str ''i18n'') (JObj []));
          let en_old = dget i18n (str ''en'') (JObj []);
          enriched_sku \<leftarrow> as_dict e;
          new_i18n \<leftarrow> as_dict (dget enriched_sku (str ''i18n'') (JObj []));
          let en_new = dget new_i18n (str ''en'') (JObj []);
          (en_old', changed) \<leftarrow> merge_fields en_new (en_old, False) FIELDS_TO_MERGE;
          Some (Merged
            (if changed
             then JObj (AList.update (str ''i18n'') (JObj (AList.update (str ''en'') en_old' i18n)) p)
             else product)
            changed)
        })"

section \<open>Post-QC Normalizer (\<^verbatim>\<open>post_qc.py\<close>)\<close>





definition fix_water_description :: "pyrt \<Rightarrow> json \<Rightarrow> json \<Rightarrow> json option" where
  "fix_water_description L desc title0 = do {
     t \<leftarrow> map_option (py_upper L) (as_str (py_or title0 (JStr [])));
     desc1 \<leftarrow>
       (if list_ex (\<lambda>k. contains t k) [str ''NON-CARBONATED'', str ''STILL'', str ''BLUE'']
        then map_option (\<lambda>d. JStr (sub_word L (str ''sparkling'') (str ''still'') False d)) (as_str desc)
        else Some desc);
     desc2 \<leftarrow>
       (if list_ex (\<lambda>k. contains t k) [str ''SPARKLING'', str ''CARBONATED'', str ''GREEN'']
        then map_option (\<lambda>d. JStr (sub_word L (str ''still'') (str ''sparkling'') False d)) (as_str desc1)
        else Some desc1);
     Some desc2
   }"



definition water_fix :: "pyrt \<Rightarrow> json \<Rightarrow> dict \<Rightarrow> (dict \<times> bool) option" where
  "water_fix L cat en =
     (if cat = JStr (str ''Water'') then do {
        let desc = dget en (str ''description'') (JStr []);
        let title0 = dget en (str ''title'') (JStr []);
        new_desc \<leftarrow> fix_water_description L desc title0;
        if new_desc \<noteq> desc then Some (AList.update (str ''description'') new_desc en, True)
        else Some (en, False)
      }
      else Some (en, False))"


section \<open>Premium Pass (\<^verbatim>\<open>premium_pass.py\<close>)\<close>

definition additions :: "(ustr \<times> ustr) list" where
  "additions =
     [(str ''WATER'', str ''Carefully sourced and valued for its purity and everyday refreshment, it is well suited for daily hydration at home or on the go.''),
      (str ''CEREAL'', str ''Prepared using traditional methods, this product is appreciated for its consistent quality and versatility in everyday home cooking.''),
      (str ''BEER'', str ''Brewed with attention to balance and character, it reflects the heritage and craftsmanship associated with its style.''),
      (str ''PASTA'', str ''Made to deliver reliable texture and taste, it is suitable for a wide range of classic and modern recipes.'')]"

definition enhance_description :: "pyrt \<Rightarrow> json \<Rightarrow> json \<Rightarrow> json option" where
  "enhance_description L desc category =
     (if \<not> truthy desc then Some desc
      else do {
        n \<leftarrow> py_len desc;
        if n > 180 then Some desc
        else do {
          c \<leftarrow> as_str category;
          let extra = (case map_of additions (py_upper L c) of
                         Some a \<Rightarrow> a
                       | None \<Rightarrow> str ''Valued for its consistent quality and suitability for everyday use.'');
          d \<leftarrow> as_str desc;
          Some (JStr (py_strip d @ str '' '' @ extra))
        }
      })"

definition enhance_ingredients :: "json \<Rightarrow> json option" where
  "enhance_ingredients ing =
     (if \<not> truthy ing then Some ing
      else do {
        n \<leftarrow> py_len ing;
        if n > 60 then Some ing
        else do {
          i \<leftarrow> as_str ing;
          Some (JStr (py_strip i @ str '' Commonly used in traditional recipes and everyday cooking.''))
        }
      })"

definition enhance_history :: "pyrt \<Rightarrow> json \<Rightarrow> json \<Rightarrow> json \<Rightarrow> json \<Rightarrow> json option" where
  "enhance_history L history brand category country =
     (if \<not> truthy history then Some history
      else do {
        n \<leftarrow> py_len history;
        if n \<ge> 3 then Some history
        else do {
          b \<leftarrow> fmt brand;
          co \<leftarrow> fmt (py_or country (JStr (str ''its region of production'')));
          c \<leftarrow> as_str category;
          Some (JArr
            [JObj [(str ''year'', JStr (str ''Origins'')),
                   (str ''text'', JStr (str ''The '' @ b @ str '' brand originates from '' @ co @
                      str '', reflecting local traditions and expertise.''))],
             JObj [(str ''year'', JStr (str ''Production'')),
                   (str ''text'', JStr (str ''Over time, '' @ b @
                      str '' has focused on maintaining consistent quality and careful production standards within the '' @
                      py_lower L c @ str '' category.''))],
             JObj [(str ''year'', JStr (str ''Today'')),
                   (str ''text'', JStr (str ''Today, '' @ b @
                      str '' products are appreciated for their reliability and suitability for everyday use.''))]])
        }
      })"

text \<open>
  One of the three steps of the main loop on the \<^verbatim>\<open>en\<close> dictionary: the field is assigned
  only when the enhanced value differs.
\<close>

definition set_if_new :: "ustr \<Rightarrow> json \<Rightarrow> json \<Rightarrow> dict \<Rightarrow> dict" where
  "set_if_new key old new en = (if new \<noteq> old then AList.update key new en else en)"

text \<open>
  The \<^verbatim>\<open>en\<close> dictionary after the three steps, given what the three functions returned.
\<close>

definition premium_en :: "json \<Rightarrow> json \<Rightarrow> json \<Rightarrow> dict \<Rightarrow> dict" where
  "premium_en new_desc new_ing new_hist en =
     (let en1 = set_if_new (str ''description'') (dget en (str ''description'') (JStr [])) new_desc en;
          en2 = set_if_new (str ''ingredients'') (dget en1 (str ''ingredients'') (JStr [])) new_ing en1
      in set_if_new (str ''history'') (dget en2 (str ''history'') (JArr [])) new_hist en2)"

text \<open>
  The body of the main loop for one content file: the record the file holds afterwards. A
  record whose \<^verbatim>\<open>en\<close> block is missing or empty is passed over.
\<close>

definition premium_pass :: "pyrt \<Rightarrow> json \<Rightarrow> json option" where
  "premium_pass L data = do {
     d \<leftarrow> as_dict data;
     all_i18n \<leftarrow> as_dict (dget d (str ''i18n'') (JObj []));
     let i18n = dget all_i18n (str ''en'') (JObj []);
     if \<not> truthy i18n then Some data
     else do {
       let category = dget d (str ''category'') (JStr []);
       let brand = dget d (str ''brand'') (JStr (str ''the brand''));
       let country = dget d (str ''country_of_origin'') (JStr []);
       en \<leftarrow> as_dict i18n;
       let desc = dget en (str ''description'') (JStr []);
       new_desc \<leftarrow> enhance_description L desc category;
       let en1 = set_if_new (str ''description'') desc new_desc en;
       let ing = dget en1 (str ''ingredients'') (JStr []);
       new_ing \<leftarrow> enhance_ingredients ing;
       let en2 = set_if_new (str ''ingredients'') ing new_ing en1;
       let hist = dget en2 (str ''history'') (JArr []);
       new_hist \<leftarrow> enhance_history L hist brand category country;
       let en3 = set_if_new (str ''history'') hist new_hist en2;
       Some (if new_desc \<noteq> desc \<or> new_ing \<noteq> ing \<or> new_hist \<noteq> hist
             then JObj (AList.update (str ''i18n'') (JObj (AList.update (str ''en'') (JObj en3) all_i18n)) d)
             else data)
     }
   }"

section \<open>Edit Service (\<^verbatim>\<open>app.py\<close>)\<close>

text \<open>
  The content directory maps a SKU to its file \<^verbatim>\<open>content/<sku>.json\<close>, if there is one. What the
  handlers see of a file is \<^verbatim>\<open>json.loads(file.read_text(encoding="utf-8"))\<close>: the parsed value,
  or \<open>Unparsable\<close> where one of the two calls raises (an empty file is such a file).
\<close>

datatype content_file = Parsed json | Unparsable

type_synonym content_dir = "ustr \<rightharpoonup> content_file"

text \<open>
  A response is a status with a JSON payload; a handler that raises is the server's error
  response (status 500). A \<^verbatim>\<open>lang\<close> that is neither a string nor unhashable is outside the model.
\<close>

datatype response = Reply nat json | ServerError | Unmodelled

definition not_found :: response where
  "not_found = Reply 404 (JObj [(str ''error'', JStr (str ''SKU not found''))])"

text \<open>
  \<^verbatim>\<open>get_product\<close> returns the parsed value from the view. Flask turns a dictionary into a JSON
  response with status 200 and raises \<^verbatim>\<open>TypeError\<close> for \<^verbatim>\<open>None\<close>, a number or a boolean. A
  string would become an HTML body and a list is a JSON response only in later versions of
  Flask: both are outside the model.
\<close>

definition view_reply :: "json \<Rightarrow> response" where
  "view_reply v =
     (case v of
        JObj _ \<Rightarrow> Reply 200 v
      | JNull \<Rightarrow> ServerError
      | JBool _ \<Rightarrow> ServerError
      | JInt _ \<Rightarrow> ServerError
      | _ \<Rightarrow> Unmodelled)"

definition get_product :: "content_dir \<Rightarrow> ustr \<Rightarrow> response" where
  "get_product content sku =
     (case content sku of
        None \<Rightarrow> not_found
      | Some Unparsable \<Rightarrow> ServerError
      | Some (Parsed product) \<Rightarrow> view_reply product)"

text \<open>
  \<^verbatim>\<open>text.encode("utf-8")\<close> raises \<^verbatim>\<open>UnicodeEncodeError\<close> on a lone surrogate, and
  \<^verbatim>\<open>json.dumps(value, ensure_ascii=False)\<close> writes the characters of every key and every string
  as they are: \<open>encodable value\<close> tells that the text of \<open>value\<close> can be written to a UTF-8 file.
\<close>

definition utf8_ok :: "nat \<Rightarrow> bool" where
  "utf8_ok c \<longleftrightarrow> \<not> (0xD800 \<le> c \<and> c \<le> 0xDFFF)"

fun encodable :: "json \<Rightarrow> bool"
  and encodable_list :: "json list \<Rightarrow> bool"
  and encodable_items :: "(ustr \<times> json) list \<Rightarrow> bool" where
  "encodable (JStr s) = list_all utf8_ok s"
| "encodable (JArr xs) = encodable_list xs"
| "encodable (JObj kvs) = encodable_items kvs"
| "encodable JNull = True"
| "encodable (JBool b) = True"
| "encodable (JInt i) = True"
| "encodable_list [] = True"
| "encodable_list (x # xs) = (encodable x \<and> encodable_list xs)"
| "encodable_items [] = True"
| "encodable_items ((k, v) # kvs) = (list_all utf8_ok k \<and> encodable v \<and> encodable_items kvs)"

text \<open>The new record after the assignments of \<^verbatim>\<open>save_product\<close>, \<open>None\<close> where they raise.\<close>

definition save_block :: "dict \<Rightarrow> ustr \<Rightarrow> json \<Rightarrow> json option" where
  "save_block data lang product = do {
     p \<leftarrow> as_dict product;
     i18n0 \<leftarrow> as_dict (dget p (str ''i18n'') (JObj []));
     let i18n1 = (if map_of i18n0 lang = None then AList.update lang (JObj []) i18n0 else i18n0);
     block \<leftarrow> map_of i18n1 lang \<bind> as_dict;
     let block' = py_update block
       [(str ''description'', dget data (str ''description'') (JStr [])),
        (str ''ingredients'', dget data (str ''ingredients'') (JStr [])),
        (str ''precautions'', dget data (str ''precautions'') (JStr [])),
        (str ''history'', dget data (str ''history'') (JArr []))];
     Some (JObj (AList.update (str ''i18n'') (JObj (AList.update lang (JObj block') i18n1)) p))
   }"

text \<open>
  \<^verbatim>\<open>save_product\<close>. The request body is \<^verbatim>\<open>request.json\<close>, a parsed JSON value. Every exception
  before \<^verbatim>\<open>write_text\<close> leaves the files as they are. \<^verbatim>\<open>write_text\<close> opens the file for writing,
  which empties it, and then encodes the text: where that raises, the file stays empty.
\<close>

definition save_product :: "content_dir \<Rightarrow> ustr \<Rightarrow> json \<Rightarrow> content_dir \<times> response" where
  "save_product content sku body =
     (case content sku of
        None \<Rightarrow> (content, not_found)
      | Some Unparsable \<Rightarrow> (content, ServerError)
      | Some (Parsed product) \<Rightarrow>
          (case as_dict body of
             None \<Rightarrow> (content, ServerError)
           | Some data \<Rightarrow>
               (case map_of data (str ''lang'') of
                  None \<Rightarrow> (content, ServerError)
                | Some (JStr lang) \<Rightarrow>
                    (case save_block data lang product of
                       None \<Rightarrow> (content, ServerError)
                     | Some product' \<Rightarrow>
                         if encodable product'
                         then (content(sku \<mapsto> Parsed product'),
                               Reply 200 (JObj [(str ''status'', JStr (str ''saved''))]))
                         else (content(sku \<mapsto> Unparsable), ServerError))
                | Some (JArr _) \<Rightarrow> (content, ServerError)
                | Some (JObj _) \<Rightarrow> (content, ServerError)
                | Some _ \<Rightarrow> (content, Unmodelled))))"

section \<open>Observations and examples\<close>

text \<open>The field \<open>f\<close> of the \<^verbatim>\<open>en\<close> block of a record, \<open>None\<close> if there is none.\<close>

definition en_get :: "json \<Rightarrow> ustr \<Rightarrow> json option" where
  "en_get data f = do {
     d \<leftarrow> as_dict data;
     i18n \<leftarrow> map_of d (str ''i18n'') \<bind> as_dict;
     en \<leftarrow> map_of i18n (str ''en'') \<bind> as_dict;
     map_of en f
   }"

text \<open>The \<^verbatim>\<open>year\<close> of a history entry.\<close>

definition entry_year :: "json \<Rightarrow> json option" where
  "entry_year e = as_dict e \<bind> (\<lambda>kv. map_of kv (str ''year''))"

text \<open>The labels of the three stages the Premium Pass writes.\<close>

definition premium_stages :: "json option list" where
  "premium_stages =
     [Some (JStr (str ''Origins'')), Some (JStr (str ''Production'')), Some (JStr (str ''Today''))]"

text \<open>A field that holds a string, or is missing.\<close>

definition text_field :: "dict \<Rightarrow> ustr \<Rightarrow> bool" where
  "text_field d k = (case map_of d k of None \<Rightarrow> True | Some (JStr _) \<Rightarrow> True | Some _ \<Rightarrow> False)"

text \<open>
  A runtime for the closed examples. They use ASCII text only, on which the Unicode tables are
  not consulted; the network location of a URL is taken to be what stands between \<^verbatim>\<open>//\<close> and
  the next \<^verbatim>\<open>/\<close>, \<^verbatim>\<open>?\<close> or \<^verbatim>\<open>#\<close>, and the hash keeps its argument.
\<close>

fun after_slashes :: "ustr \<Rightarrow> ustr" where
  "after_slashes (a # b # cs) = (if a = 0x2F \<and> b = 0x2F then cs else after_slashes (b # cs))"
| "after_slashes _ = []"

definition ascii_rt :: pyrt where
  "ascii_rt =
     \<lparr>uni_alnum = (\<lambda>c. False),
      uni_upper = (\<lambda>c. [c]),
      uni_lower = (\<lambda>s i. [s ! i]),
      url_netloc = (\<lambda>u. Some (takeWhile (\<lambda>c. c \<noteq> 0x2F \<and> c \<noteq> 0x3F \<and> c \<noteq> 0x23) (after_slashes u))),
      sha1_hex = (\<lambda>s. s)\<rparr>"

text \<open>
  A record as the Edit Service leaves it after a request that carried a description only, and
  the same record after the Premium Pass.
\<close>

definition edited_record :: json where
  "edited_record = JObj
     [(str ''sku'', JStr (str ''K100'')),
      (str ''name'', JStr (str ''Olives 500g'')),
      (str ''brand'', JStr (str ''KRINOS'')),
      (str ''country_of_origin'', JStr (str ''Greece'')),
      (str ''category'', JStr (str ''Pickled / Olives'')),
      (str ''i18n'', JObj
         [(str ''en'', JObj
            [(str ''title'', JStr (str ''Olives 500g'')),
             (str ''description'', JStr (str ''Green olives in brine.'')),
             (str ''ingredients'', JStr []),
             (str ''precautions'', JStr []),
             (str ''history'', JArr [])])])]"

definition edited_record_premium :: json where
  "edited_record_premium = JObj
     [(str ''sku'', JStr (str ''K100'')),
      (str ''name'', JStr (str ''Olives 500g'')),
      (str ''brand'', JStr (str ''KRINOS'')),
      (str ''country_of_origin'', JStr (str ''Greece'')),
      (str ''category'', JStr (str ''Pickled / Olives'')),
      (str ''i18n'', JObj
         [(str ''en'', JObj
            [(str ''title'', JStr (str ''Olives 500g'')),
             (str ''description'', JStr (str ''Green olives in brine. Valued for its consistent quality and suitability for everyday use.'')),
             (str ''ingredients'', JStr []),
             (str ''precautions'', JStr []),
             (str ''history'', JArr [])])])]"

text \<open>A record as the Merger leaves it: the Enricher's history has one entry.\<close>

definition enriched_history :: "json list" where
  "enriched_history =
     [JObj [(str ''year'', JStr (str ''-'')),
            (str ''text'', JStr (str ''Produced under the Krinos name; refer to the manufacturer for brand and product background.''))]]"

definition enriched_en :: dict where
  "enriched_en =
     [(str ''title'', JStr (str ''Olives 500G'')),
      (str ''description'', JStr (str ''A classic brined bite (500g) with a firm texture and bold, savory flavor. Perfect for everyday enjoyment.'')),
      (str ''history'', JArr enriched_history)]"

definition enriched_record :: dict where
  "enriched_record =
     [(str ''sku'', JStr (str ''K100'')),
      (str ''brand'', JStr (str ''KRINOS'')),
      (str ''country_of_origin'', JStr (str ''Greece'')),
      (str ''category'', JStr (str ''Pickled / Olives'')),
      (str ''i18n'', JObj [(str ''en'', JObj enriched_en)])]"

text \<open>The reply to a saved edit, and the fields a request assigns.\<close>

definition saved :: response where
  "saved = Reply 200 (JObj [(str ''status'', JStr (str ''saved''))])"

definition editable :: "ustr list" where
  "editable = [str ''description'', str ''ingredients'', str ''precautions'', str ''history'']"

text \<open>A content directory holding the merged record, and a request body that names a description only.\<close>

definition merged_content :: content_dir where
  "merged_content = Map.empty(str ''K100'' \<mapsto> Parsed (JObj enriched_record))"

definition posted_body :: dict where
  "posted_body = [(str ''lang'', JStr (str ''en'')), (str ''description'', JStr (str ''Olives from Crete.''))]"







text \<open>The \<^verbatim>\<open>en\<close> block of a sparkling water whose description calls it still.\<close>

definition water_en :: dict where
  "water_en =
     [(str ''title'', JStr (str ''AQUA SPARKLING 1L'')),
      (str ''description'', JStr (str ''A still water, bottled at the source.''))]"

text \<open>
  A request body whose description is a lone surrogate (the code point D800, which JSON text
  can carry as an escape), and a content directory whose file holds a number.
\<close>

definition surrogate_body :: dict where
  "surrogate_body = [(str ''lang'', JStr (str ''en'')), (str ''description'', JStr [0xD800])]"

definition number_content :: content_dir where
  "number_content = Map.empty(str ''K100'' \<mapsto> Parsed (JInt 5))"

text \<open>
  A content file as the store builder writes it, with a source added by hand, and an entry of
  the enriched store for the same SKU whose search found no page: its list of sources is empty.
\<close>

definition stored_en :: dict where
  "stored_en =
     [(str ''title'', JStr (str ''Olives 500g'')),
      (str ''description'', JStr (str ''Olives 500g is produced using traditional methods.'')),
      (str ''sources'', JArr [JObj [(str ''name'', JStr (str ''Krinos'')),
                                    (str ''url'', JStr (str ''https://www.krinos.com/olives''))]])]"

definition stored_record :: dict where
  "stored_record =
     [(str ''sku'', JStr (str ''K100'')),
      (str ''brand'', JStr (str ''KRINOS'')),
      (str ''category'', JStr (str ''Pickled / Olives'')),
      (str ''i18n'', JObj [(str ''en'', JObj stored_en)])]"

definition fetched_en :: dict where
  "fetched_en =
     [(str ''title'', JStr (str ''Olives 500G'')),
      (str ''description'', JStr (str ''A classic brined bite (500g) with a firm texture and bold, savory flavor.'')),
      (str ''sources'', JArr [])]"

definition fetched_record :: dict where
  "fetched_record =
     [(str ''sku'', JStr (str ''K100'')),
      (str ''brand'', JStr (str ''KRINOS'')),
      (str ''i18n'', JObj [(str ''en'', JObj fetched_en)])]"

definition enriched_store :: dict where
  "enriched_store = [(str ''K100'', JObj fetched_record)]"

text \<open>An empty cache, a URL, and what counts as a failed fetch: an exception, or a status from 400 on.\<close>

definition empty_cache :: enrich_state where
  "empty_cache = \<lparr>search_dir = Map.empty, page_dir = Map.empty, net_log = []\<rparr>"

definition example_query :: ustr where
  "example_query = str ''KRINOS Olives 500g ingredients''"

definition unavailable :: fetch_outcome where
  "unavailable = Response 503 None [] NoTitle"

definition example_url :: ustr where
  "example_url = str ''https://www.krinos.com/olives''"

fun fetch_failed :: "fetch_outcome \<Rightarrow> bool" where
  "fetch_failed FetchRaises = True"
| "fetch_failed (Response status downloaded soup_text soup_title) = (status \<ge> 400)"

text \<open>The language block \<open>lang\<close> of a record, and the keys the Localizer assigns in every block.\<close>

definition lang_block :: "dict \<Rightarrow> ustr \<Rightarrow> dict option" where
  "lang_block data lang = do {
     i18n \<leftarrow> map_of data (str ''i18n'') \<bind> as_dict;
     map_of i18n lang \<bind> as_dict
   }"

definition localized_keys :: "ustr list" where
  "localized_keys =
     [str ''sections'', str ''meta'', str ''title'', str ''description'', str ''ingredients'',
      str ''precautions'', str ''history'']"

text \<open>
  What the Page Renderer needs of a language block to get through: the texts it substitutes
  are strings or missing, the history is a list of dictionaries whose \<^verbatim>\<open>text\<close> is a string
  and which have no \<^verbatim>\<open>key\<close>, and the labels are dictionaries of strings.
\<close>

definition history_entry_ok :: "json \<Rightarrow> bool" where
  "history_entry_ok h =
     (case h of
        JObj e \<Rightarrow> map_of e (str ''key'') = None \<and> text_field e (str ''text'')
      | _ \<Rightarrow> False)"

definition block_texts_ok :: "dict \<Rightarrow> bool" where
  "block_texts_ok b \<longleftrightarrow>
     (case dget b (str ''sections'') (JObj []) of
        JObj s \<Rightarrow> list_all (text_field s)
          [str ''description_title'', str ''ingredients_title'', str ''precautions_title'',
           str ''history_title'']
      | _ \<Rightarrow> False) \<and>
     list_all (text_field b) [str ''description'', str ''ingredients'', str ''precautions''] \<and>
     (case dget b (str ''history'') (JArr []) of
        JArr hs \<Rightarrow> list_all history_entry_ok hs
      | _ \<Rightarrow> False)"

definition meta_ok :: "dict \<Rightarrow> bool" where
  "meta_ok b \<longleftrightarrow>
     (case dget b (str ''meta'') (JObj []) of
        JObj m \<Rightarrow> list_all (text_field m)
          [str ''brand'', str ''country_of_origin'', str ''category'', str ''size'',
           str ''alcohol_content'']
      | _ \<Rightarrow> False)"

definition history_labels_ok :: "dict \<Rightarrow> bool" where
  "history_labels_ok b \<longleftrightarrow>
     (case dget b (str ''history_labels'') (JObj []) of
        JObj l \<Rightarrow> text_field l []
      | _ \<Rightarrow> False)"

text \<open>A history the Localizer can take the years from: a list of dictionaries, or none.\<close>

definition history_list :: "dict \<Rightarrow> bool" where
  "history_list en =
     (case dget en (str ''history'') (JArr []) of
        JArr hs \<Rightarrow> list_all (\<lambda>h. as_dict h \<noteq> None) hs
      | _ \<Rightarrow> False)"

text \<open>A table entry that is a template which \<^verbatim>\<open>format\<close> fills with the given fields.\<close>

definition template_ok :: "(ustr \<times> ustr) list \<Rightarrow> json \<Rightarrow> bool" where
  "template_ok kw t = (case t of JStr tx \<Rightarrow> py_format kw tx \<noteq> None | _ \<Rightarrow> False)"

text \<open>
  A populated language block: each of the seven keys the Localizer assigns holds a value with
  content. The section titles, the labels, the title and the three texts are non-empty
  strings; the history is a non-empty list of entries that have a \<^verbatim>\<open>year\<close> and a non-empty
  \<^verbatim>\<open>text\<close>.
\<close>

definition nonempty_text :: "dict \<Rightarrow> ustr \<Rightarrow> bool" where
  "nonempty_text d k = (case map_of d k of Some (JStr s) \<Rightarrow> s \<noteq> [] | _ \<Rightarrow> False)"

definition entry_populated :: "json \<Rightarrow> bool" where
  "entry_populated h =
     (case h of
        JObj e \<Rightarrow> map_of e (str ''year'') \<noteq> None \<and> nonempty_text e (str ''text'')
      | _ \<Rightarrow> False)"

definition populated :: "dict \<Rightarrow> bool" where
  "populated b \<longleftrightarrow>
     (case map_of b (str ''sections'') of
        Some (JObj s) \<Rightarrow> list_all (nonempty_text s)
          [str ''description_title'', str ''ingredients_title'', str ''precautions_title'',
           str ''history_title'']
      | _ \<Rightarrow> False) \<and>
     (case map_of b (str ''meta'') of
        Some (JObj m) \<Rightarrow> list_all (nonempty_text m)
          [str ''brand'', str ''country_of_origin'', str ''category'', str ''size'',
           str ''alcohol_content'', str ''sku'']
      | _ \<Rightarrow> False) \<and>
     list_all (nonempty_text b)
       [str ''title'', str ''description'', str ''ingredients'', str ''precautions''] \<and>
     (case map_of b (str ''history'') of
        Some (JArr hs) \<Rightarrow> hs \<noteq> [] \<and> list_all entry_populated hs
      | _ \<Rightarrow> False)"

text \<open>A table entry that is a template which \<^verbatim>\<open>format\<close> fills to a non-empty text.\<close>

definition template_text :: "(ustr \<times> ustr) list \<Rightarrow> json \<Rightarrow> bool" where
  "template_text kw t =
     (case t of
        JStr tx \<Rightarrow> (case py_format kw tx of Some out \<Rightarrow> out \<noteq> [] | None \<Rightarrow> False)
      | _ \<Rightarrow> False)"

text \<open>The test for the result of \<open>localize_block\<close>.\<close>

definition localized_ok :: "dict option \<Rightarrow> bool" where
  "localized_ok r = (case r of None \<Rightarrow> False | Some b \<Rightarrow> block_texts_ok b \<and> meta_ok b)"

text \<open>
  The row of the end-to-end scenario, and a template with an empty \<^verbatim>\<open>i18n\<close> dictionary for the
  closed examples (\<^verbatim>\<open>template_product.json\<close> itself is not in the repository).
\<close>

definition k100_row :: "(ustr \<times> ustr) list" where
  "k100_row =
     [(str ''SKU ID'', str ''K100''),
      (str ''Brand'', str ''KRINOS''),
      (str ''SKU Name'', str ''Olives 500g''),
      (str ''Country'', str ''Greece''),
      (str ''Department'', str ''Pickled / Olives''),
      (str ''Size'', str ''500g''),
      (str ''Tags'', str ''greek,olives'')]"

definition blank_template :: json where
  "blank_template = JObj [(str ''i18n'', JObj [])]"

text \<open>The record a row leads to, and the keys of one of its language blocks.\<close>

fun written :: "row_result option \<Rightarrow> dict option" where
  "written (Some (Written sku product)) = Some product"
| "written _ = None"

definition block_keys :: "dict option \<Rightarrow> ustr \<Rightarrow> ustr list option" where
  "block_keys r lang = do {
     data \<leftarrow> r;
     b \<leftarrow> lang_block data lang;
     Some (map fst b)
   }"

text \<open>
  The record of the scenario as the store builder has it when the Localizer is called, for a
  template whose \<^verbatim>\<open>en\<close> block is empty: the top-level fields of the row and the \<^verbatim>\<open>en\<close> block
  of the Content Generator.
\<close>

definition generated_en :: dict where
  "generated_en =
     [(str ''title'', JStr (str ''Olives 500g'')),
      (str ''sections'', CG_SECTION_TITLES_en),
      (str ''description'', JStr (str ''Olives 500g is produced using traditional methods. Made in Greece, it reflects the heritage and expertise of the brand.'')),
      (str ''ingredients'', JStr CG_TEXT_en_ingredients),
      (str ''precautions'', JStr CG_TEXT_en_precautions),
      (str ''history'', JArr
         [JObj [(str ''year'', JStr (str ''Origins'')),
                (str ''text'', JStr (str ''The KRINOS brand was founded in Greece.''))],
          JObj [(str ''year'', JStr (str ''Development'')),
                (str ''text'', JStr (str ''Over time, KRINOS expanded its range.''))],
          JObj [(str ''year'', JStr (str ''Today'')),
                (str ''text'', JStr (str ''Today, KRINOS products are enjoyed worldwide.''))]])]"

definition k100_fields :: dict where
  "k100_fields =
     [(str ''sku'', JStr (str ''K100'')),
      (str ''name'', JStr (str ''Olives 500g'')),
      (str ''brand'', JStr (str ''KRINOS'')),
      (str ''country_of_origin'', JStr (str ''Greece'')),
      (str ''category'', JStr (str ''Pickled / Olives'')),
      (str ''size'', JStr (str ''500g'')),
      (str ''alcohol_content'', JStr []),
      (str ''image'', JStr (str ''../../assets/K100.jpg'')),
      (str ''tags'', JArr [JStr (str ''greek''), JStr (str ''olives'')])]"

definition generated_record :: dict where
  "generated_record = k100_fields @ [(str ''i18n'', JObj [(str ''en'', JObj generated_en)])]"

text \<open>Whether the language block \<open>lang\<close> of a result has the key \<open>k\<close>.\<close>

definition block_has_key :: "dict option \<Rightarrow> ustr \<Rightarrow> ustr \<Rightarrow> bool option" where
  "block_has_key r lang k = do {
     data \<leftarrow> r;
     b \<leftarrow> lang_block data lang;
     Some (map_of b k \<noteq> None)
   }"

text \<open>The field \<open>f\<close> of the \<^verbatim>\<open>en\<close> block of the record the store builder writes for a row.\<close>

definition written_en :: "row_result option \<Rightarrow> ustr \<Rightarrow> json option" where
  "written_en r f = do {
     data \<leftarrow> written r;
     en \<leftarrow> lang_block data (str ''en'');
     map_of en f
   }"

text \<open>The description of the scenario's \<^verbatim>\<open>en\<close> block, and the files of its pages.\<close>

definition k100_description :: ustr where
  "k100_description =
     str ''Olives 500g is produced using traditional methods. Made in Greece, it reflects the heritage and expertise of the brand.''"

definition k100_pages :: "ustr list list" where
  "k100_pages = map (\<lambda>f. [str ''products'', str ''K100'', f])
     [str ''index.html'', str ''ru.html'', str ''ua.html'', str ''de.html'', str ''es.html'',
      str ''it.html'', str ''hr.html'', str ''hu.html'']"

section \<open>Strings and dictionaries: basic facts\<close>

lemma str_eq_iff [simp]: "str a = str b \<longleftrightarrow> a = b"
proof -
  have "inj (of_char :: char \<Rightarrow> nat)"
    by (rule inj_on_inverseI [where g = char_of]) simp
  then show ?thesis
    by (simp add: str_def inj_map_eq_map)
qed

lemma str_Nil [simp]: "str [] = []" "str s = [] \<longleftrightarrow> s = []" "[] = str s \<longleftrightarrow> s = []"
  by (auto simp: str_def)

lemmas str_ops = str_def py_strip_def py_isspace_def py_replace_def

lemma map_of_set_if_new_same:
  "map_of en k = Some old \<Longrightarrow> map_of (set_if_new k old new en) k = Some new"
  by (simp add: set_if_new_def update_conv')

lemma map_of_set_if_new_other:
  "k' \<noteq> k \<Longrightarrow> map_of (set_if_new k old new en) k' = map_of en k'"
  by (simp add: set_if_new_def update_conv')

lemma dget_set_if_new_other:
  "k' \<noteq> k \<Longrightarrow> dget (set_if_new k old new en) k' dflt = dget en k' dflt"
  by (simp add: dget_def map_of_set_if_new_other)

lemma text_field_cases:
  "text_field d k \<Longrightarrow> \<exists>s. dget d k (JStr dflt) = JStr s"
  by (auto simp: text_field_def dget_def split: option.splits json.splits)

lemma en_get_attached:
  "map_of d (str ''i18n'') = Some (JObj i) \<Longrightarrow> map_of i (str ''en'') = Some (JObj e) \<Longrightarrow>
   en_get (JObj d) f = map_of e f"
  by (simp add: en_get_def)

lemma en_get_write_back:
  "en_get (JObj (AList.update (str ''i18n'') (JObj (AList.update (str ''en'') (JObj e') i)) d)) f = map_of e' f"
  by (simp add: en_get_def update_conv')

section \<open>Store builder: file names\<close>

text \<open>
  C7. The comment in \<^verbatim>\<open>safe_filename\<close> says that a trailing \<^verbatim>\<open>.0\<close> is removed, and the claim
  that the rest of the string stays as it is. \<^verbatim>\<open>value.replace(".0", "")\<close> removes every
  occurrence: the SKU \<^verbatim>\<open>1.05\<close> becomes \<^verbatim>\<open>15\<close>, the name of another SKU's file.
\<close>

theorem safe_filename_inner_dot_zero: "safe_filename (str ''1.05'') = str ''15''"
  by (simp add: str_ops forbidden_def safe_filename_def)

section \<open>Premium Pass\<close>

lemma enhance_description_text:
  "\<exists>s. enhance_description L (JStr x) (JStr c) = Some (JStr s)"
  by (simp add: enhance_description_def)

lemma enhance_ingredients_text:
  "\<exists>s. enhance_ingredients (JStr x) = Some (JStr s)"
  by (simp add: enhance_ingredients_def)

lemma enhance_history_list:
  "\<exists>h'. enhance_history L (JArr h) (JStr b) (JStr c) (JStr co) = Some (JArr h') \<and>
     (h = [] \<longrightarrow> h' = []) \<and> (3 \<le> length h \<longrightarrow> h' = h) \<and>
     (h \<noteq> [] \<and> length h < 3 \<longrightarrow> map entry_year h' = premium_stages)"
  by (auto simp: enhance_history_def py_or_def entry_year_def premium_stages_def)

text \<open>What one run does to a record that has a non-empty \<^verbatim>\<open>en\<close> dictionary.\<close>

lemma premium_pass_run:
  assumes d: "map_of d (str ''i18n'') = Some (JObj i)"
    and i: "map_of i (str ''en'') = Some (JObj e)"
    and e: "e \<noteq> []"
    and nd: "enhance_description L (dget e (str ''description'') (JStr []))
               (dget d (str ''category'') (JStr [])) = Some nd"
    and ni: "enhance_ingredients (dget e (str ''ingredients'') (JStr [])) = Some ni"
    and nh: "enhance_history L (dget e (str ''history'') (JArr []))
               (dget d (str ''brand'') (JStr (str ''the brand'')))
               (dget d (str ''category'') (JStr []))
               (dget d (str ''country_of_origin'') (JStr [])) = Some nh"
  shows "\<exists>data'. premium_pass L (JObj d) = Some data' \<and>
           (\<forall>f. en_get data' f = map_of (premium_en nd ni nh e) f)"
proof -
  let ?desc = "dget e (str ''description'') (JStr [])"
  let ?ing = "dget e (str ''ingredients'') (JStr [])"
  let ?hist = "dget e (str ''history'') (JArr [])"
  have i18n: "dget d (str ''i18n'') (JObj []) = JObj i" and en: "dget i (str ''en'') (JObj []) = JObj e"
    using d i by (simp_all add: dget_def)
  have en': "premium_en nd ni nh e =
      set_if_new (str ''history'') ?hist nh
        (set_if_new (str ''ingredients'') ?ing ni (set_if_new (str ''description'') ?desc nd e))"
    by (simp add: premium_en_def Let_def dget_set_if_new_other)
  have run: "premium_pass L (JObj d) =
      Some (if nd \<noteq> ?desc \<or> ni \<noteq> ?ing \<or> nh \<noteq> ?hist
            then JObj (AList.update (str ''i18n'')
                   (JObj (AList.update (str ''en'') (JObj (premium_en nd ni nh e)) i)) d)
            else JObj d)"
    using e by (simp add: premium_pass_def i18n en nd ni nh dget_set_if_new_other en' Let_def)
  show ?thesis
  proof (cases "nd \<noteq> ?desc \<or> ni \<noteq> ?ing \<or> nh \<noteq> ?hist")
    case True
    then show ?thesis
      unfolding run by (simp add: en_get_write_back)
  next
    case False
    then have "premium_pass L (JObj d) = Some (JObj d)" and "premium_en nd ni nh e = e"
      unfolding run by (simp_all add: premium_en_def set_if_new_def Let_def)
    then show ?thesis
      using d i by (simp add: en_get_attached)
  qed
qed

lemma premium_en_history:
  "map_of e (str ''history'') = Some hist \<Longrightarrow> map_of (premium_en nd ni nh e) (str ''history'') = Some nh"
  by (simp add: premium_en_def Let_def dget_set_if_new_other map_of_set_if_new_other
      map_of_set_if_new_same dget_def)

text \<open>
  C3, as the code has it. For a record of the data model (text fields hold strings, the history
  is a list), the pass replaces a history of one or two entries by three entries labelled
  Origins, Production, Today, and keeps a history of three or more entries. An empty history
  stays empty: \<^verbatim>\<open>enhance_history\<close> returns at \<^verbatim>\<open>if not history\<close>.
\<close>

theorem premium_history_regenerated:
  assumes "map_of d (str ''i18n'') = Some (JObj i)"
    and "map_of i (str ''en'') = Some (JObj e)"
    and "text_field d (str ''brand'')"
    and "text_field d (str ''category'')"
    and "text_field d (str ''country_of_origin'')"
    and "text_field e (str ''description'')"
    and "text_field e (str ''ingredients'')"
    and "map_of e (str ''history'') = Some (JArr h)"
  shows "\<exists>data' h'. premium_pass L (JObj d) = Some data' \<and>
           en_get data' (str ''history'') = Some (JArr h') \<and>
           (h = [] \<longrightarrow> h' = []) \<and>
           (3 \<le> length h \<longrightarrow> h' = h) \<and>
           (h \<noteq> [] \<and> length h < 3 \<longrightarrow> map entry_year h' = premium_stages)"
proof -
  from text_field_cases [OF assms(3)] obtain b
    where b: "dget d (str ''brand'') (JStr (str ''the brand'')) = JStr b" ..
  from text_field_cases [OF assms(4)] obtain c
    where c: "dget d (str ''category'') (JStr []) = JStr c" ..
  from text_field_cases [OF assms(5)] obtain co
    where co: "dget d (str ''country_of_origin'') (JStr []) = JStr co" ..
  from text_field_cases [OF assms(6)] obtain x
    where x: "dget e (str ''description'') (JStr []) = JStr x" ..
  from text_field_cases [OF assms(7)] obtain y
    where y: "dget e (str ''ingredients'') (JStr []) = JStr y" ..
  have hist: "dget e (str ''history'') (JArr []) = JArr h"
    using assms(8) by (simp add: dget_def)
  from enhance_description_text obtain nd
    where nd: "enhance_description L (JStr x) (JStr c) = Some (JStr nd)" ..
  from enhance_ingredients_text obtain ni
    where ni: "enhance_ingredients (JStr y) = Some (JStr ni)" ..
  from enhance_history_list [of L h b c co] obtain h'
    where nh: "enhance_history L (JArr h) (JStr b) (JStr c) (JStr co) = Some (JArr h')"
      and h': "h = [] \<longrightarrow> h' = []" "3 \<le> length h \<longrightarrow> h' = h"
        "h \<noteq> [] \<and> length h < 3 \<longrightarrow> map entry_year h' = premium_stages"
    by blast
  have e: "e \<noteq> []"
    using assms(8) by auto
  have "\<exists>data'. premium_pass L (JObj d) = Some data' \<and>
          (\<forall>f. en_get data' f = map_of (premium_en (JStr nd) (JStr ni) (JArr h') e) f)"
    by (rule premium_pass_run [OF assms(1,2) e]) (simp_all only: b c co x y hist nd ni nh)
  then obtain data' where run: "premium_pass L (JObj d) = Some data'"
    and get: "\<forall>f. en_get data' f = map_of (premium_en (JStr nd) (JStr ni) (JArr h') e) f"
    by blast
  have "en_get data' (str ''history'') = Some (JArr h')"
    using get premium_en_history [OF assms(8)] by simp
  with run h' show ?thesis
    by (intro exI conjI)
qed

theorem premium_history_regenerated_witness:
  "map_of enriched_en (str ''history'') = Some (JArr enriched_history) \<and> length enriched_history = 1 \<and>
   (\<exists>data' h'. premium_pass ascii_rt (JObj enriched_record) = Some data' \<and>
      en_get data' (str ''history'') = Some (JArr h') \<and>
      map entry_year h' = premium_stages)"
  using premium_history_regenerated
    [of enriched_record "[(str ''en'', JObj enriched_en)]" enriched_en enriched_history ascii_rt]
  by (simp add: enriched_record_def enriched_en_def enriched_history_def text_field_def)

theorem premium_history_empty_counterexample:
  "en_get edited_record (str ''history'') = Some (JArr []) \<and>
   premium_pass ascii_rt edited_record = Some edited_record_premium \<and>
   en_get edited_record_premium (str ''history'') = Some (JArr [])"
  by (simp add: edited_record_def edited_record_premium_def en_get_def premium_pass_def
      enhance_description_def enhance_ingredients_def enhance_history_def set_if_new_def
      additions_def py_upper_def upper_char_def ascii_upper_def ascii_rt_def dget_def Let_def str_ops)

section \<open>Edit Service\<close>

text \<open>
  C9. A SKU without content file gets the 404 reply with an \<^verbatim>\<open>error\<close> payload from both
  handlers, and the content directory stays as it is; a SKU whose file holds a record (a JSON
  object) gets that record, whole, with status 200.
\<close>

theorem edit_api_not_found:
  "(content sku = None \<longrightarrow>
      get_product content sku = Reply 404 (JObj [(str ''error'', JStr (str ''SKU not found''))]) \<and>
      save_product content sku body =
        (content, Reply 404 (JObj [(str ''error'', JStr (str ''SKU not found''))]))) \<and>
   (content sku = Some (Parsed (JObj p)) \<longrightarrow> get_product content sku = Reply 200 (JObj p))"
  by (simp add: get_product_def save_product_def not_found_def view_reply_def)

theorem edit_api_not_found_witness:
  "merged_content (str ''X999'') = None \<and>
   get_product merged_content (str ''X999'') =
     Reply 404 (JObj [(str ''error'', JStr (str ''SKU not found''))]) \<and>
   save_product merged_content (str ''X999'') (JObj [(str ''lang'', JStr (str ''ru''))]) =
     (merged_content, Reply 404 (JObj [(str ''error'', JStr (str ''SKU not found''))])) \<and>
   merged_content (str ''K100'') = Some (Parsed (JObj enriched_record)) \<and>
   get_product merged_content (str ''K100'') = Reply 200 (JObj enriched_record)"
  using edit_api_not_found [of merged_content "str ''X999''" "JObj [(str ''lang'', JStr (str ''ru''))]"]
    edit_api_not_found [of merged_content "str ''K100''" _ enriched_record]
  by (simp add: merged_content_def)

text \<open>
  A file that exists without holding a record is answered with the server's error response:
  the view returns what \<^verbatim>\<open>json.loads\<close> gives, and a file that does not parse raises there.
\<close>

lemma get_product_no_record:
  "content sku = Some Unparsable \<Longrightarrow> get_product content sku = ServerError"
  "content sku = Some (Parsed JNull) \<Longrightarrow> get_product content sku = ServerError"
  "content sku = Some (Parsed (JBool b)) \<Longrightarrow> get_product content sku = ServerError"
  "content sku = Some (Parsed (JInt n)) \<Longrightarrow> get_product content sku = ServerError"
  by (simp_all add: get_product_def view_reply_def)

lemma get_product_number: "get_product number_content (str ''K100'') = ServerError"
  by (simp add: get_product_no_record(4) number_content_def)

lemma map_of_py_update4:
  "map_of (py_update blk [(k1, v1), (k2, v2), (k3, v3), (k4, v4)]) =
     (map_of blk)(k1 \<mapsto> v1, k2 \<mapsto> v2, k3 \<mapsto> v3, k4 \<mapsto> v4)"
  by (simp add: py_update_def update_conv')

lemma save_block_result:
  assumes i: "dget p (str ''i18n'') (JObj []) = JObj i18n"
    and b: "dget i18n lang (JObj []) = JObj blk"
  shows "save_block data lang (JObj p) =
     Some (JObj (AList.update (str ''i18n'')
       (JObj (AList.update lang
          (JObj (py_update blk
             [(str ''description'', dget data (str ''description'') (JStr [])),
              (str ''ingredients'', dget data (str ''ingredients'') (JStr [])),
              (str ''precautions'', dget data (str ''precautions'') (JStr [])),
              (str ''history'', dget data (str ''history'') (JArr []))]))
          i18n)) p))"
proof (cases "map_of i18n lang")
  case None
  then have "blk = []"
    using b by (simp add: dget_def)
  with None show ?thesis
    by (simp add: save_block_def i update_conv' Let_def)
next
  case (Some v)
  then have "v = JObj blk"
    using b by (simp add: dget_def)
  with Some show ?thesis
    by (simp add: save_block_def i Let_def)
qed

text \<open>Texts that can be written: lookups and assignments keep them so.\<close>

lemma encodable_items_iff:
  "encodable_items kvs \<longleftrightarrow> (\<forall>(k, v)\<in>set kvs. list_all utf8_ok k \<and> encodable v)"
  by (induction kvs) auto

lemma encodable_lookup: "encodable_items d \<Longrightarrow> map_of d k = Some v \<Longrightarrow> encodable v"
  by (auto simp: encodable_items_iff dest: map_of_SomeD)

lemma encodable_dget: "encodable_items d \<Longrightarrow> encodable dflt \<Longrightarrow> encodable (dget d k dflt)"
  by (auto simp: dget_def encodable_lookup split: option.splits)

lemma encodable_update:
  "encodable_items d \<Longrightarrow> list_all utf8_ok k \<Longrightarrow> encodable v \<Longrightarrow>
     encodable_items (AList.update k v d)"
  by (induction d) auto

lemma encodable_str: "list_all utf8_ok (str s)"
  by (simp add: str_def utf8_ok_def list_all_iff of_char_def)

lemma encodable_block:
  assumes "encodable_items blk" and "encodable_items data"
  shows "encodable_items (py_update blk
     [(str ''description'', dget data (str ''description'') (JStr [])),
      (str ''ingredients'', dget data (str ''ingredients'') (JStr [])),
      (str ''precautions'', dget data (str ''precautions'') (JStr [])),
      (str ''history'', dget data (str ''history'') (JArr []))])"
  using assms by (simp add: py_update_def encodable_update encodable_str encodable_dget)

text \<open>
  C10. A POST for an existing SKU whose body names a language, the stored record and the body
  being texts that a UTF-8 file can hold: the four editable fields of
  that language block become the body's values, with the empty string or the empty list for a
  field the body leaves out; the other keys of the block, the other language blocks, the other
  top-level fields and the other files stay as they are. The \<^verbatim>\<open>i18n\<close> dictionary and the
  language block are created when they are missing.
\<close>

theorem save_product_assigns_all_four:
  assumes "content sku = Some (Parsed (JObj p))"
    and "map_of data (str ''lang'') = Some (JStr lang)"
    and "dget p (str ''i18n'') (JObj []) = JObj i18n"
    and "dget i18n lang (JObj []) = JObj blk"
    and "encodable (JObj p)"
    and "encodable (JObj data)"
  shows "\<exists>p' i18n' blk'.
      save_product content sku (JObj data) = (content(sku \<mapsto> Parsed (JObj p')), saved) \<and>
      map_of p' (str ''i18n'') = Some (JObj i18n') \<and>
      map_of i18n' lang = Some (JObj blk') \<and>
      map_of blk' (str ''description'') = Some (dget data (str ''description'') (JStr [])) \<and>
      map_of blk' (str ''ingredients'') = Some (dget data (str ''ingredients'') (JStr [])) \<and>
      map_of blk' (str ''precautions'') = Some (dget data (str ''precautions'') (JStr [])) \<and>
      map_of blk' (str ''history'') = Some (dget data (str ''history'') (JArr [])) \<and>
      (\<forall>k. k \<notin> set editable \<longrightarrow> map_of blk' k = map_of blk k) \<and>
      (\<forall>l. l \<noteq> lang \<longrightarrow> map_of i18n' l = map_of i18n l) \<and>
      (\<forall>k. k \<noteq> str ''i18n'' \<longrightarrow> map_of p' k = map_of p k)"
proof -
  let ?blk = "py_update blk
     [(str ''description'', dget data (str ''description'') (JStr [])),
      (str ''ingredients'', dget data (str ''ingredients'') (JStr [])),
      (str ''precautions'', dget data (str ''precautions'') (JStr [])),
      (str ''history'', dget data (str ''history'') (JArr []))]"
  let ?i18n = "AList.update lang (JObj ?blk) i18n"
  let ?p = "AList.update (str ''i18n'') (JObj ?i18n) p"
  have p: "encodable_items p" and data: "encodable_items data"
    using assms(5,6) by simp_all
  have "encodable (dget p (str ''i18n'') (JObj []))"
    using p by (simp add: encodable_dget)
  then have i18n: "encodable_items i18n"
    by (simp add: assms(3))
  then have "encodable (dget i18n lang (JObj []))"
    by (simp add: encodable_dget)
  then have blk: "encodable_items blk"
    by (simp add: assms(4))
  have "encodable (JStr lang)"
    using data assms(2) by (rule encodable_lookup)
  then have lang: "list_all utf8_ok lang"
    by simp
  have "encodable_items ?blk"
    using blk data by (rule encodable_block)
  then have "encodable_items ?i18n"
    using i18n lang by (simp add: encodable_update)
  then have "encodable (JObj ?p)"
    using p by (simp add: encodable_update encodable_str)
  then have "save_product content sku (JObj data) = (content(sku \<mapsto> Parsed (JObj ?p)), saved)"
    using assms(1,2) by (simp add: save_product_def save_block_result [OF assms(3,4)] saved_def)
  moreover have "map_of ?p (str ''i18n'') = Some (JObj ?i18n)"
    by (simp add: update_conv')
  moreover have "map_of ?i18n lang = Some (JObj ?blk)"
    by (simp add: update_conv')
  moreover have "map_of ?blk (str ''description'') = Some (dget data (str ''description'') (JStr []))"
    "map_of ?blk (str ''ingredients'') = Some (dget data (str ''ingredients'') (JStr []))"
    "map_of ?blk (str ''precautions'') = Some (dget data (str ''precautions'') (JStr []))"
    "map_of ?blk (str ''history'') = Some (dget data (str ''history'') (JArr []))"
    by (simp_all add: map_of_py_update4)
  moreover have "\<forall>k. k \<notin> set editable \<longrightarrow> map_of ?blk k = map_of blk k"
    by (simp add: map_of_py_update4 editable_def)
  moreover have "\<forall>l. l \<noteq> lang \<longrightarrow> map_of ?i18n l = map_of i18n l"
    by (simp add: update_conv')
  moreover have "\<forall>k. k \<noteq> str ''i18n'' \<longrightarrow> map_of ?p k = map_of p k"
    by (simp add: update_conv')
  ultimately show ?thesis
    by (intro exI conjI)
qed

lemma merged_content_encodable: "encodable (JObj enriched_record)" "encodable (JObj posted_body)"
  by (simp_all add: enriched_record_def enriched_en_def enriched_history_def posted_body_def
      encodable_str)

theorem save_product_assigns_all_four_witness:
  "\<exists>p' i18n' blk'.
      save_product merged_content (str ''K100'') (JObj posted_body) =
        (merged_content(str ''K100'' \<mapsto> Parsed (JObj p')), saved) \<and>
      map_of p' (str ''i18n'') = Some (JObj i18n') \<and>
      map_of i18n' (str ''en'') = Some (JObj blk') \<and>
      map_of blk' (str ''description'') = Some (dget posted_body (str ''description'') (JStr [])) \<and>
      map_of blk' (str ''ingredients'') = Some (dget posted_body (str ''ingredients'') (JStr [])) \<and>
      map_of blk' (str ''precautions'') = Some (dget posted_body (str ''precautions'') (JStr [])) \<and>
      map_of blk' (str ''history'') = Some (dget posted_body (str ''history'') (JArr [])) \<and>
      (\<forall>k. k \<notin> set editable \<longrightarrow> map_of blk' k = map_of enriched_en k) \<and>
      (\<forall>l. l \<noteq> str ''en'' \<longrightarrow> map_of i18n' l = map_of [(str ''en'', JObj enriched_en)] l) \<and>
      (\<forall>k. k \<noteq> str ''i18n'' \<longrightarrow> map_of p' k = map_of enriched_record k)"
  by (rule save_product_assigns_all_four [OF _ _ _ _ merged_content_encodable])
    (simp_all add: merged_content_def posted_body_def enriched_record_def dget_def)

text \<open>
  A body that carries a lone surrogate passes the assignments and fails in \<^verbatim>\<open>write_text\<close>: the
  request is answered with the server's error response and the file is left empty.
\<close>

lemma save_product_unencodable:
  "save_product merged_content (str ''K100'') (JObj surrogate_body) =
     (merged_content(str ''K100'' \<mapsto> Unparsable), ServerError)"
proof -
  let ?blk = "py_update enriched_en
     [(str ''description'', dget surrogate_body (str ''description'') (JStr [])),
      (str ''ingredients'', dget surrogate_body (str ''ingredients'') (JStr [])),
      (str ''precautions'', dget surrogate_body (str ''precautions'') (JStr [])),
      (str ''history'', dget surrogate_body (str ''history'') (JArr []))]"
  let ?i18n = "AList.update (str ''en'') (JObj ?blk) [(str ''en'', JObj enriched_en)]"
  let ?p = "AList.update (str ''i18n'') (JObj ?i18n) enriched_record"
  have i: "dget enriched_record (str ''i18n'') (JObj []) = JObj [(str ''en'', JObj enriched_en)]"
    and b: "dget [(str ''en'', JObj enriched_en)] (str ''en'') (JObj []) = JObj enriched_en"
    by (simp_all add: enriched_record_def dget_def)
  have block: "save_block surrogate_body (str ''en'') (JObj enriched_record) = Some (JObj ?p)"
    by (rule save_block_result [OF i b])
  have "map_of ?blk (str ''description'') = Some (JStr [0xD800])"
    by (simp add: map_of_py_update4 surrogate_body_def dget_def)
  moreover have "\<not> encodable (JStr [0xD800])"
    by (simp add: utf8_ok_def)
  ultimately have "\<not> encodable_items ?blk"
    using encodable_lookup by blast
  then have "\<not> encodable (JObj ?blk)"
    by simp
  moreover have "map_of ?i18n (str ''en'') = Some (JObj ?blk)"
    by (simp add: update_conv')
  ultimately have "\<not> encodable_items ?i18n"
    using encodable_lookup by blast
  then have "\<not> encodable (JObj ?i18n)"
    by simp
  moreover have "map_of ?p (str ''i18n'') = Some (JObj ?i18n)"
    by (simp add: update_conv')
  ultimately have "\<not> encodable_items ?p"
    using encodable_lookup by blast
  then have bad: "\<not> encodable (JObj ?p)"
    by simp
  have lang: "map_of surrogate_body (str ''lang'') = Some (JStr (str ''en''))"
    by (simp add: surrogate_body_def)
  show ?thesis
    using bad by (simp add: save_product_def merged_content_def lang block)
qed

lemma posted_body_resets_history:
  "dget posted_body (str ''history'') (JArr []) = JArr [] \<and>
   map_of enriched_en (str ''history'') = Some (JArr enriched_history) \<and> enriched_history \<noteq> []"
  by (simp add: posted_body_def dget_def enriched_en_def enriched_history_def)


section \<open>Merger\<close>

lemma merge_field_obj:
  "merge_field (JObj en_new) (JObj old, ch) f =
     Some (if overwrites en_new old f
           then (JObj (AList.update f (the (map_of en_new f)) old), True)
           else (JObj old, ch))"
  by (auto simp: merge_field_def overwrites_def split: option.splits)

lemma dget_update_other:
  "g \<noteq> f \<Longrightarrow> dget (AList.update f v d) g dflt = dget d g dflt"
  by (simp add: dget_def update_conv')

lemma dget_update_same:
  "dget (AList.update f v d) f dflt = v"
  by (simp add: dget_def update_conv')

lemma overwrites_update_other:
  "g \<noteq> f \<Longrightarrow> overwrites en_new (AList.update f v old) g = overwrites en_new old g"
  by (simp add: overwrites_def dget_update_other cong: option.case_cong)

lemma merge_fields_obj:
  "distinct fs \<Longrightarrow>
   \<exists>old'. merge_fields (JObj en_new) (JObj old, ch) fs =
            Some (JObj old', ch \<or> (\<exists>f\<in>set fs. overwrites en_new old f)) \<and>
          (\<forall>f. map_of old' f =
             (if f \<in> set fs \<and> overwrites en_new old f then map_of en_new f else map_of old f))"
proof (induction fs arbitrary: old ch)
  case Nil
  then show ?case by simp
next
  case (Cons g fs)
  then have g: "g \<notin> set fs" and d: "distinct fs"
    by simp_all
  show ?case
  proof (cases "overwrites en_new old g")
    case True
    then obtain v where v: "map_of en_new g = Some v"
      by (auto simp: overwrites_def split: option.splits)
    let ?old1 = "AList.update g v old"
    from Cons.IH [OF d, of ?old1 True] obtain old'
      where run: "merge_fields (JObj en_new) (JObj ?old1, True) fs =
                    Some (JObj old', True \<or> (\<exists>f\<in>set fs. overwrites en_new ?old1 f))"
        and get: "\<forall>f. map_of old' f =
             (if f \<in> set fs \<and> overwrites en_new ?old1 f then map_of en_new f else map_of ?old1 f)"
      by blast
    have same: "\<And>f. f \<in> set fs \<Longrightarrow> overwrites en_new ?old1 f = overwrites en_new old f"
      using g by (intro overwrites_update_other) auto
    have "merge_fields (JObj en_new) (JObj old, ch) (g # fs) =
            Some (JObj old', ch \<or> (\<exists>f\<in>set (g # fs). overwrites en_new old f))"
      using True run by (simp add: merge_field_obj v)
    moreover have "\<forall>f. map_of old' f =
        (if f \<in> set (g # fs) \<and> overwrites en_new old f then map_of en_new f else map_of old f)"
      using get same True v g by (auto simp: update_conv')
    ultimately show ?thesis
      by blast
  next
    case False
    from Cons.IH [OF d, of old ch] obtain old'
      where run: "merge_fields (JObj en_new) (JObj old, ch) fs =
                    Some (JObj old', ch \<or> (\<exists>f\<in>set fs. overwrites en_new old f))"
        and get: "\<forall>f. map_of old' f =
             (if f \<in> set fs \<and> overwrites en_new old f then map_of en_new f else map_of old f)"
      by blast
    have "merge_fields (JObj en_new) (JObj old, ch) (g # fs) =
            Some (JObj old', ch \<or> (\<exists>f\<in>set (g # fs). overwrites en_new old f))"
      using False run by (simp add: merge_field_obj)
    moreover have "\<forall>f. map_of old' f =
        (if f \<in> set (g # fs) \<and> overwrites en_new old f then map_of en_new f else map_of old f)"
      using get False by auto
    ultimately show ?thesis
      by blast
  qed
qed

lemma en_get_default:
  assumes "dget p (str ''i18n'') (JObj []) = JObj i18n" and "dget i18n (str ''en'') (JObj []) = JObj en"
  shows "en_get (JObj p) f = map_of en f"
  using assms by (auto simp: en_get_def dget_def split: option.splits)

lemma merge_one_run:
  assumes fname: "endswith fname (str ''.json'')"
    and e: "map_of enriched (py_replace (str ''.json'') [] fname) = Some (JObj e)"
    and ni: "dget e (str ''i18n'') (JObj []) = JObj ni"
    and en_new: "dget ni (str ''en'') (JObj []) = JObj en_new"
    and i18n: "dget p (str ''i18n'') (JObj []) = JObj i18n"
    and en_old: "dget i18n (str ''en'') (JObj []) = JObj en_old"
  shows "\<exists>product' changed.
      merge_one enriched fname (JObj p) = Some (Merged product' changed) \<and>
      (changed \<longleftrightarrow> (\<exists>f\<in>set FIELDS_TO_MERGE. overwrites en_new en_old f)) \<and>
      (\<forall>f. en_get product' f =
         (if f \<in> set FIELDS_TO_MERGE \<and> overwrites en_new en_old f then map_of en_new f
          else map_of en_old f))"
proof -
  have "distinct FIELDS_TO_MERGE"
    by (simp add: FIELDS_TO_MERGE_def)
  from merge_fields_obj [OF this, of en_new en_old False] obtain old'
    where run: "merge_fields (JObj en_new) (JObj en_old, False) FIELDS_TO_MERGE =
                  Some (JObj old', \<exists>f\<in>set FIELDS_TO_MERGE. overwrites en_new en_old f)"
      and get: "\<forall>f. map_of old' f =
          (if f \<in> set FIELDS_TO_MERGE \<and> overwrites en_new en_old f then map_of en_new f
           else map_of en_old f)"
    by auto
  let ?changed = "\<exists>f\<in>set FIELDS_TO_MERGE. overwrites en_new en_old f"
  let ?written = "JObj (AList.update (str ''i18n'') (JObj (AList.update (str ''en'') (JObj old') i18n)) p)"
  have m: "merge_one enriched fname (JObj p) = Some (Merged (if ?changed then ?written else JObj p) ?changed)"
    using fname by (simp add: merge_one_def e ni en_new i18n en_old run Let_def)
  have "\<forall>f. en_get (if ?changed then ?written else JObj p) f =
         (if f \<in> set FIELDS_TO_MERGE \<and> overwrites en_new en_old f then map_of en_new f
          else map_of en_old f)"
  proof (cases ?changed)
    case True
    then show ?thesis
      using get by (simp add: en_get_write_back)
  next
    case False
    then show ?thesis
      by (auto simp: en_get_default [OF i18n en_old])
  qed
  with m show ?thesis
    by blast
qed

text \<open>
  C4. For a content file with an entry in the enriched store (records of the data model on both
  sides), and every field of the \<^verbatim>\<open>en\<close> block: a new value that is missing or empty leaves
  the field as it was, and a field that changed holds the new value, which is non-empty and
  differs from the old one.
\<close>

theorem merge_never_clears:
  assumes "endswith fname (str ''.json'')"
    and "map_of enriched (py_replace (str ''.json'') [] fname) = Some (JObj e)"
    and "dget e (str ''i18n'') (JObj []) = JObj ni"
    and "dget ni (str ''en'') (JObj []) = JObj en_new"
    and "dget p (str ''i18n'') (JObj []) = JObj i18n"
    and "dget i18n (str ''en'') (JObj []) = JObj en_old"
  shows "\<exists>product' changed.
      merge_one enriched fname (JObj p) = Some (Merged product' changed) \<and>
      (\<forall>f. (map_of en_new f = None \<or> (\<exists>v. map_of en_new f = Some v \<and> \<not> truthy v)) \<longrightarrow>
           en_get product' f = en_get (JObj p) f) \<and>
      (\<forall>f. en_get product' f \<noteq> en_get (JObj p) f \<longrightarrow>
           f \<in> set FIELDS_TO_MERGE \<and>
           (\<exists>v. map_of en_new f = Some v \<and> truthy v \<and> \<not> py_eq (dget en_old f JNull) v \<and>
                en_get product' f = Some v))"
proof -
  from merge_one_run [OF assms] obtain product' changed
    where m: "merge_one enriched fname (JObj p) = Some (Merged product' changed)"
      and get: "\<forall>f. en_get product' f =
         (if f \<in> set FIELDS_TO_MERGE \<and> overwrites en_new en_old f then map_of en_new f
          else map_of en_old f)"
    by blast
  have old: "\<And>f. en_get (JObj p) f = map_of en_old f"
    by (rule en_get_default [OF assms(5,6)])
  have a: "\<forall>f. (map_of en_new f = None \<or> (\<exists>v. map_of en_new f = Some v \<and> \<not> truthy v)) \<longrightarrow>
           en_get product' f = en_get (JObj p) f"
    using get old by (auto simp: overwrites_def)
  have b: "\<forall>f. en_get product' f \<noteq> en_get (JObj p) f \<longrightarrow>
           f \<in> set FIELDS_TO_MERGE \<and>
           (\<exists>v. map_of en_new f = Some v \<and> truthy v \<and> \<not> py_eq (dget en_old f JNull) v \<and>
                en_get product' f = Some v)"
  proof (intro allI impI)
    fix f assume ne: "en_get product' f \<noteq> en_get (JObj p) f"
    then have f: "f \<in> set FIELDS_TO_MERGE" and ow: "overwrites en_new en_old f"
      using get old by (auto split: if_splits)
    then obtain v where "map_of en_new f = Some v" "truthy v" "\<not> py_eq (dget en_old f JNull) v"
      by (auto simp: overwrites_def split: option.splits)
    with f ow get show "f \<in> set FIELDS_TO_MERGE \<and>
           (\<exists>v. map_of en_new f = Some v \<and> truthy v \<and> \<not> py_eq (dget en_old f JNull) v \<and>
                en_get product' f = Some v)"
      by auto
  qed
  from m a b show ?thesis
    by blast
qed

lemma content_file_name:
  "endswith (str ''K100.json'') (str ''.json'')"
  "py_replace (str ''.json'') [] (str ''K100.json'') = str ''K100''"
  by (simp_all add: endswith_def str_ops)

theorem merge_never_clears_witness:
  "\<exists>product' changed.
      merge_one enriched_store (str ''K100.json'') (JObj stored_record) = Some (Merged product' changed) \<and>
      (\<forall>f. (map_of fetched_en f = None \<or> (\<exists>v. map_of fetched_en f = Some v \<and> \<not> truthy v)) \<longrightarrow>
           en_get product' f = en_get (JObj stored_record) f) \<and>
      (\<forall>f. en_get product' f \<noteq> en_get (JObj stored_record) f \<longrightarrow>
           f \<in> set FIELDS_TO_MERGE \<and>
           (\<exists>v. map_of fetched_en f = Some v \<and> truthy v \<and> \<not> py_eq (dget stored_en f JNull) v \<and>
                en_get product' f = Some v))"
  by (rule merge_never_clears
        [of "str ''K100.json''" enriched_store fetched_record "[(str ''en'', JObj fetched_en)]"
            fetched_en stored_record "[(str ''en'', JObj stored_en)]" stored_en])
     (simp_all add: content_file_name enriched_store_def fetched_record_def stored_record_def dget_def)


section \<open>Enricher: the cache\<close>

lemma ddg_search_cached:
  "ddg_search L out q n st = (r, st') \<Longrightarrow>
     search_dir st' (sha1_hex L q) = Some r \<and> ddg_search L out' q n' st' = (r, st')"
  by (auto simp: ddg_search_def Let_def split: option.splits)

lemma fetch_failed_run:
  "page_dir st (sha1_hex L u) = None \<Longrightarrow> fetch_failed out \<Longrightarrow>
     fetch_and_extract L out u st = (None, st\<lparr>net_log := net_log st @ [PageRequest u]\<rparr>)"
  by (cases out) (simp_all add: fetch_and_extract_def Let_def)

text \<open>
  C5, as the code has it. A search that fails is stored in the cache as the empty list, and
  any search, once made, is answered from the cache without a request. A page fetch that fails
  gives \<^verbatim>\<open>None\<close> and leaves the page cache as it was, so the next call for the same URL sends
  a request again. Both functions give a result whatever the network does.
\<close>

theorem enricher_failures:
  "(search_dir st (sha1_hex L q) = None \<longrightarrow>
      ddg_search L SearchRaises q n st =
        ([], st\<lparr>search_dir := (search_dir st)(sha1_hex L q \<mapsto> []),
                net_log := net_log st @ [SearchRequest q n]\<rparr>)) \<and>
   (ddg_search L out q n st = (r, st') \<longrightarrow>
      search_dir st' (sha1_hex L q) = Some r \<and> ddg_search L out' q n' st' = (r, st')) \<and>
   (page_dir st (sha1_hex L u) = None \<and> fetch_failed fo \<longrightarrow>
      fetch_and_extract L fo u st = (None, st\<lparr>net_log := net_log st @ [PageRequest u]\<rparr>) \<and>
      net_log (snd (fetch_and_extract L fo' u (snd (fetch_and_extract L fo u st)))) =
        net_log st @ [PageRequest u, PageRequest u])"
proof (intro conjI impI)
  assume "search_dir st (sha1_hex L q) = None"
  then show "ddg_search L SearchRaises q n st =
        ([], st\<lparr>search_dir := (search_dir st)(sha1_hex L q \<mapsto> []),
                net_log := net_log st @ [SearchRequest q n]\<rparr>)"
    by (simp add: ddg_search_def collect_results_def)
next
  assume "ddg_search L out q n st = (r, st')"
  then show "search_dir st' (sha1_hex L q) = Some r" and "ddg_search L out' q n' st' = (r, st')"
    using ddg_search_cached by blast+
next
  assume a: "page_dir st (sha1_hex L u) = None \<and> fetch_failed fo"
  then show first: "fetch_and_extract L fo u st = (None, st\<lparr>net_log := net_log st @ [PageRequest u]\<rparr>)"
    by (simp add: fetch_failed_run)
  from a have miss: "page_dir (st\<lparr>net_log := net_log st @ [PageRequest u]\<rparr>) (sha1_hex L u) = None"
    by simp
  show "net_log (snd (fetch_and_extract L fo' u (snd (fetch_and_extract L fo u st)))) =
        net_log st @ [PageRequest u, PageRequest u]"
    unfolding first using miss
    by (cases fo') (simp_all add: fetch_and_extract_def Let_def)
qed

theorem enricher_failures_witness:
  "search_dir empty_cache (sha1_hex ascii_rt example_query) = None \<and>
   ddg_search ascii_rt SearchRaises example_query 6 empty_cache =
     ([], empty_cache\<lparr>search_dir := (search_dir empty_cache)(sha1_hex ascii_rt example_query \<mapsto> []),
                      net_log := net_log empty_cache @ [SearchRequest example_query 6]\<rparr>) \<and>
   page_dir empty_cache (sha1_hex ascii_rt example_url) = None \<and> fetch_failed unavailable \<and>
   fetch_and_extract ascii_rt unavailable example_url empty_cache =
     (None, empty_cache\<lparr>net_log := net_log empty_cache @ [PageRequest example_url]\<rparr>) \<and>
   net_log (snd (fetch_and_extract ascii_rt FetchRaises example_url
      (snd (fetch_and_extract ascii_rt unavailable example_url empty_cache)))) =
     net_log empty_cache @ [PageRequest example_url, PageRequest example_url]"
proof -
  have h1: "search_dir empty_cache (sha1_hex ascii_rt example_query) = None"
    and h2: "page_dir empty_cache (sha1_hex ascii_rt example_url) = None"
    by (simp_all add: empty_cache_def)
  have h3: "fetch_failed unavailable"
    by (simp add: unavailable_def)
  from h1 h2 h3
    enricher_failures [of empty_cache ascii_rt example_query 6 SearchRaises "[]" empty_cache
      SearchRaises 6 example_url unavailable FetchRaises]
  show ?thesis
    by blast
qed

theorem fetch_failure_retried_counterexample:
  "fetch_and_extract ascii_rt FetchRaises example_url empty_cache =
     (None, empty_cache\<lparr>net_log := [PageRequest example_url]\<rparr>) \<and>
   page_dir (empty_cache\<lparr>net_log := [PageRequest example_url]\<rparr>) (sha1_hex ascii_rt example_url) = None \<and>
   fetch_and_extract ascii_rt FetchRaises example_url (empty_cache\<lparr>net_log := [PageRequest example_url]\<rparr>) =
     (None, empty_cache\<lparr>net_log := [PageRequest example_url, PageRequest example_url]\<rparr>)"
  by (simp add: fetch_and_extract_def empty_cache_def Let_def)


section \<open>Content Generator and Localizer\<close>

lemma map_of_py_update: "map_of (py_update d kvs) = map_of d ++ map_of (rev kvs)"
proof (induction kvs arbitrary: d)
  case Nil
  then show ?case by (simp add: py_update_def)
next
  case (Cons kv kvs)
  have "py_update d (kv # kvs) = py_update (AList.update (fst kv) (snd kv) d) kvs"
    by (simp add: py_update_def)
  then show ?case
    by (simp add: Cons.IH update_conv' map_add_def fun_eq_iff split: option.splits)
qed

lemma dget_py_update:
  "dget (py_update d kvs) k dflt = (case map_of (rev kvs) k of None \<Rightarrow> dget d k dflt | Some v \<Rightarrow> v)"
  by (simp add: dget_def map_of_py_update map_add_def split: option.splits)

lemma keys_py_update: "set (map fst (py_update d kvs)) = set (map fst d) \<union> set (map fst kvs)"
proof -
  have "set (map fst (py_update d kvs)) = dom (map_of (py_update d kvs))"
    by (simp add: dom_map_of_conv_image_fst)
  also have "\<dots> = dom (map_of d) \<union> dom (map_of (rev kvs))"
    by (simp add: map_of_py_update Un_commute)
  also have "\<dots> = set (map fst d) \<union> set (map fst kvs)"
    by (simp add: dom_map_of_conv_image_fst)
  finally show ?thesis .
qed

lemma localize_block_shape:
  "localize_block en name brand country sz years lang = Some b \<Longrightarrow>
     \<exists>kvs. b = py_update en kvs \<and> map fst kvs = localized_keys \<and>
           map_of kvs (str ''title'') = Some (JStr name)"
  by (auto simp: localize_block_def localized_keys_def split: bind_splits)

lemmas tables = SECTION_TITLES_def META_LABELS_def DESC_TPL_def ING_TEXT_def PREC_TEXT_def HIST_TPL_def

lemma tbl_sections:
  "list_all (\<lambda>lang. case map_of SECTION_TITLES lang of
       Some (JObj s) \<Rightarrow> list_all (text_field s)
         [str ''description_title'', str ''ingredients_title'', str ''precautions_title'',
          str ''history_title'']
     | _ \<Rightarrow> False) LANGS"
  by (simp add: LANGS_def SECTION_TITLES_def text_field_def)

lemma tbl_meta:
  "list_all (\<lambda>lang. case map_of META_LABELS lang of
       Some (JObj m) \<Rightarrow> list_all (text_field m)
         [str ''brand'', str ''country_of_origin'', str ''category'', str ''size'',
          str ''alcohol_content'']
     | _ \<Rightarrow> False) LANGS"
  by (simp add: LANGS_def META_LABELS_def text_field_def)

lemma tbl_desc:
  "list_all (\<lambda>lang. case map_of DESC_TPL lang of
       Some t \<Rightarrow> template_ok
         [(str ''name'', n), (str ''brand'', b), (str ''country'', c), (str ''size'', z)] t
     | None \<Rightarrow> False) LANGS"
  by (simp add: LANGS_def DESC_TPL_def template_ok_def str_def)

lemma tbl_ing:
  "list_all (\<lambda>lang. case map_of ING_TEXT lang of Some (JStr t) \<Rightarrow> True | _ \<Rightarrow> False) LANGS"
  by (simp add: LANGS_def ING_TEXT_def)

lemma tbl_prec:
  "list_all (\<lambda>lang. case map_of PREC_TEXT lang of Some (JStr t) \<Rightarrow> True | _ \<Rightarrow> False) LANGS"
  by (simp add: LANGS_def PREC_TEXT_def)

lemma tbl_hist:
  "list_all (\<lambda>lang. case map_of HIST_TPL lang of
       Some (JArr ts) \<Rightarrow> list_all (template_ok [(str ''brand'', b), (str ''country'', c)]) ts
     | _ \<Rightarrow> False) LANGS"
  by (simp add: LANGS_def HIST_TPL_def template_ok_def str_def)

lemma text_field_py_update:
  "text_field (py_update d kvs) k =
     (case map_of (rev kvs) k of None \<Rightarrow> text_field d k | Some (JStr _) \<Rightarrow> True | Some _ \<Rightarrow> False)"
  by (simp add: text_field_def map_of_py_update map_add_def split: option.splits)

lemma those_map_all:
  "(\<And>x. x \<in> set xs \<Longrightarrow> \<exists>y. f x = Some y \<and> P y) \<Longrightarrow>
     \<exists>ys. those (map f xs) = Some ys \<and> list_all P ys \<and> length ys = length xs"
proof (induction xs)
  case Nil
  then show ?case by simp
next
  case (Cons x xs)
  then obtain y where y: "f x = Some y" "P y"
    by auto
  from Cons obtain ys where "those (map f xs) = Some ys" "list_all P ys" "length ys = length xs"
    by auto
  with y show ?case
    by simp
qed

lemma history_entry_Some:
  "py_format [(str ''brand'', b), (str ''country'', c)] t \<noteq> None \<Longrightarrow>
     \<exists>h. history_entry b c y t = Some h \<and> history_entry_ok h"
  by (auto simp: history_entry_def history_entry_ok_def text_field_def)

lemma in_LANGS:
  "lang \<in> set LANGS \<Longrightarrow> list_all P LANGS \<Longrightarrow> P lang"
  by (simp add: list_all_iff)

lemma localize_block_ok:
  assumes lang: "lang \<in> set LANGS"
  shows "\<exists>b. localize_block en name brand country sz years lang = Some b \<and>
           block_texts_ok b \<and> meta_ok b"
proof -
  obtain s where s: "map_of SECTION_TITLES lang = Some (JObj s)"
      "list_all (text_field s)
         [str ''description_title'', str ''ingredients_title'', str ''precautions_title'',
          str ''history_title'']"
    using in_LANGS [OF lang tbl_sections] by (auto split: option.splits json.splits)
  obtain m where m: "map_of META_LABELS lang = Some (JObj m)"
      "list_all (text_field m)
         [str ''brand'', str ''country_of_origin'', str ''category'', str ''size'',
          str ''alcohol_content'']"
    using in_LANGS [OF lang tbl_meta] by (auto split: option.splits json.splits)
  obtain t d where t: "map_of DESC_TPL lang = Some (JStr t)"
      "py_format [(str ''name'', name), (str ''brand'', brand), (str ''country'', country),
                  (str ''size'', sz)] t = Some d"
    using in_LANGS [OF lang tbl_desc [of name brand country sz]]
    by (auto simp: template_ok_def split: option.splits json.splits)
  obtain ing where ing: "map_of ING_TEXT lang = Some (JStr ing)"
    using in_LANGS [OF lang tbl_ing] by (auto split: option.splits json.splits)
  obtain prec where prec: "map_of PREC_TEXT lang = Some (JStr prec)"
    using in_LANGS [OF lang tbl_prec] by (auto split: option.splits json.splits)
  obtain ts where ts: "map_of HIST_TPL lang = Some (JArr ts)"
      "list_all (template_ok [(str ''brand'', brand), (str ''country'', country)]) ts"
    using in_LANGS [OF lang tbl_hist [of brand country]] by (auto split: option.splits json.splits)
  let ?f = "\<lambda>(i, tpl). as_str tpl \<bind>
        history_entry brand country (if i < length years then years ! i else JStr [])"
  have "\<exists>hs. those (map ?f (enumerate 0 ts)) = Some hs \<and> list_all history_entry_ok hs \<and>
          length hs = length (enumerate 0 ts)"
  proof (rule those_map_all)
    fix x assume mem: "x \<in> set (enumerate 0 ts)"
    obtain i tpl where x: "x = (i, tpl)"
      by (cases x)
    from mem have "tpl \<in> set ts"
      by (auto simp: x in_set_enumerate_eq)
    with ts(2) have "template_ok [(str ''brand'', brand), (str ''country'', country)] tpl"
      by (simp add: list_all_iff)
    then obtain tx where "tpl = JStr tx"
        "py_format [(str ''brand'', brand), (str ''country'', country)] tx \<noteq> None"
      by (cases tpl) (simp_all add: template_ok_def)
    then show "\<exists>y. ?f x = Some y \<and> history_entry_ok y"
      using history_entry_Some by (simp add: x)
  qed
  then obtain hs where hs: "those (map ?f (enumerate 0 ts)) = Some hs" "list_all history_entry_ok hs"
    by blast
  let ?b = "py_update en
       [(str ''sections'', JObj s),
        (str ''meta'', JObj m),
        (str ''title'', JStr name),
        (str ''description'', JStr d),
        (str ''ingredients'', JStr ing),
        (str ''precautions'', JStr prec),
        (str ''history'', JArr hs)]"
  have "localize_block en name brand country sz years lang = Some ?b"
    by (simp add: localize_block_def s(1) m(1) t ing prec ts(1) hs(1))
  moreover have "block_texts_ok ?b"
    using s(2) hs(2) by (simp add: block_texts_ok_def dget_py_update text_field_py_update)
  moreover have "meta_ok ?b"
    using m(2) by (simp add: meta_ok_def dget_py_update)
  ultimately show ?thesis
    by blast
qed

lemma those_map_the:
  "(\<And>x. x \<in> set xs \<Longrightarrow> f x \<noteq> None) \<Longrightarrow> those (map f xs) = Some (map (\<lambda>x. the (f x)) xs)"
proof (induction xs)
  case Nil
  then show ?case by simp
next
  case (Cons x xs)
  then obtain y where "f x = Some y"
    by auto
  with Cons show ?case
    by simp
qed

lemma map_of_rev_graph:
  "map_of (rev (map (\<lambda>k. (k, f k)) ks)) = (Some \<circ> f) |` set ks"
  using map_of_map_restrict [of f "rev ks"] by (simp add: rev_map)

lemma text_or:
  "text_field d k \<Longrightarrow> as_str dflt \<noteq> None \<Longrightarrow> as_str (py_or (dget d k JNull) dflt) \<noteq> None"
  by (auto simp: text_field_def dget_def py_or_def split: option.splits json.splits)

lemma history_years:
  assumes "history_list en"
  shows "\<exists>hs. py_iter (dget en (str ''history'') (JArr [])) = Some hs \<and>
           those (map (\<lambda>h. map_option (\<lambda>d. dget d (str ''year'') (JStr [])) (as_dict h)) hs) \<noteq> None"
proof -
  from assms obtain hs where hs: "dget en (str ''history'') (JArr []) = JArr hs"
      "list_all (\<lambda>h. as_dict h \<noteq> None) hs"
    by (auto simp: history_list_def split: json.splits)
  have "those (map (\<lambda>h. map_option (\<lambda>d. dget d (str ''year'') (JStr [])) (as_dict h)) hs) =
          Some (map (\<lambda>h. the (map_option (\<lambda>d. dget d (str ''year'') (JStr [])) (as_dict h))) hs)"
    using hs(2) by (intro those_map_the) (auto simp: list_all_iff)
  with hs(1) show ?thesis
    by simp
qed


text \<open>The tables again: every entry has content.\<close>

lemma tbl_sections_full:
  "list_all (\<lambda>lang. case map_of SECTION_TITLES lang of
       Some (JObj s) \<Rightarrow> list_all (nonempty_text s)
         [str ''description_title'', str ''ingredients_title'', str ''precautions_title'',
          str ''history_title'']
     | _ \<Rightarrow> False) LANGS"
  by (simp add: LANGS_def SECTION_TITLES_def nonempty_text_def)

lemma tbl_meta_full:
  "list_all (\<lambda>lang. case map_of META_LABELS lang of
       Some (JObj m) \<Rightarrow> list_all (nonempty_text m)
         [str ''brand'', str ''country_of_origin'', str ''category'', str ''size'',
          str ''alcohol_content'', str ''sku'']
     | _ \<Rightarrow> False) LANGS"
  by (simp add: LANGS_def META_LABELS_def nonempty_text_def)

lemma tbl_desc_full:
  "list_all (\<lambda>lang. case map_of DESC_TPL lang of
       Some t \<Rightarrow> template_text
         [(str ''name'', n), (str ''brand'', b), (str ''country'', c), (str ''size'', z)] t
     | None \<Rightarrow> False) LANGS"
  by (simp add: LANGS_def DESC_TPL_def template_text_def str_def)

lemma tbl_ing_full:
  "list_all (\<lambda>lang. case map_of ING_TEXT lang of Some (JStr t) \<Rightarrow> t \<noteq> [] | _ \<Rightarrow> False) LANGS"
  by (simp add: LANGS_def ING_TEXT_def)

lemma tbl_prec_full:
  "list_all (\<lambda>lang. case map_of PREC_TEXT lang of Some (JStr t) \<Rightarrow> t \<noteq> [] | _ \<Rightarrow> False) LANGS"
  by (simp add: LANGS_def PREC_TEXT_def)

lemma tbl_hist_full:
  "list_all (\<lambda>lang. case map_of HIST_TPL lang of
       Some (JArr ts) \<Rightarrow> length ts = 3 \<and>
         list_all (template_text [(str ''brand'', b), (str ''country'', c)]) ts
     | _ \<Rightarrow> False) LANGS"
  by (simp add: LANGS_def HIST_TPL_def template_text_def str_def)


lemma history_entry_populated:
  "template_text [(str ''brand'', b), (str ''country'', c)] tpl \<Longrightarrow>
     \<exists>h. (as_str tpl \<bind> history_entry b c y) = Some h \<and> entry_populated h"
  by (cases tpl)
     (auto simp: template_text_def history_entry_def entry_populated_def nonempty_text_def
        split: option.splits)

text \<open>A block of the Localizer is populated when the product has a name.\<close>

lemma localize_block_populated:
  assumes lang: "lang \<in> set LANGS"
    and name: "name \<noteq> []"
    and run: "localize_block en name brand country sz years lang = Some b"
  shows "populated b"
proof -
  obtain s where s: "map_of SECTION_TITLES lang = Some (JObj s)"
      "list_all (nonempty_text s)
         [str ''description_title'', str ''ingredients_title'', str ''precautions_title'',
          str ''history_title'']"
    using in_LANGS [OF lang tbl_sections_full] by (auto split: option.splits json.splits)
  obtain m where m: "map_of META_LABELS lang = Some (JObj m)"
      "list_all (nonempty_text m)
         [str ''brand'', str ''country_of_origin'', str ''category'', str ''size'',
          str ''alcohol_content'', str ''sku'']"
    using in_LANGS [OF lang tbl_meta_full] by (auto split: option.splits json.splits)
  obtain t d where t: "map_of DESC_TPL lang = Some (JStr t)"
      "py_format [(str ''name'', name), (str ''brand'', brand), (str ''country'', country),
                  (str ''size'', sz)] t = Some d" "d \<noteq> []"
    using in_LANGS [OF lang tbl_desc_full [of name brand country sz]]
    by (auto simp: template_text_def split: option.splits json.splits)
  obtain ing where ing: "map_of ING_TEXT lang = Some (JStr ing)" "ing \<noteq> []"
    using in_LANGS [OF lang tbl_ing_full] by (auto split: option.splits json.splits)
  obtain prec where prec: "map_of PREC_TEXT lang = Some (JStr prec)" "prec \<noteq> []"
    using in_LANGS [OF lang tbl_prec_full] by (auto split: option.splits json.splits)
  obtain ts where ts: "map_of HIST_TPL lang = Some (JArr ts)" "length ts = 3"
      "list_all (template_text [(str ''brand'', brand), (str ''country'', country)]) ts"
    using in_LANGS [OF lang tbl_hist_full [of brand country]] by (auto split: option.splits json.splits)
  let ?f = "\<lambda>(i, tpl). as_str tpl \<bind>
        history_entry brand country (if i < length years then years ! i else JStr [])"
  have "\<exists>hs. those (map ?f (enumerate 0 ts)) = Some hs \<and> list_all entry_populated hs \<and>
          length hs = length (enumerate 0 ts)"
  proof (rule those_map_all)
    fix x assume mem: "x \<in> set (enumerate 0 ts)"
    obtain i tpl where x: "x = (i, tpl)"
      by (cases x)
    from mem have "tpl \<in> set ts"
      by (auto simp: x in_set_enumerate_eq)
    with ts(3) have "template_text [(str ''brand'', brand), (str ''country'', country)] tpl"
      by (simp add: list_all_iff)
    then show "\<exists>y. ?f x = Some y \<and> entry_populated y"
      using history_entry_populated by (simp add: x)
  qed
  then obtain hs where hs: "those (map ?f (enumerate 0 ts)) = Some hs" "list_all entry_populated hs"
      "length hs = length ts"
    by auto
  let ?b = "py_update en
       [(str ''sections'', JObj s),
        (str ''meta'', JObj m),
        (str ''title'', JStr name),
        (str ''description'', JStr d),
        (str ''ingredients'', JStr ing),
        (str ''precautions'', JStr prec),
        (str ''history'', JArr hs)]"
  have "localize_block en name brand country sz years lang = Some ?b"
    by (simp add: localize_block_def s(1) m(1) t(1,2) ing(1) prec(1) ts(1) hs(1))
  with run have b: "b = ?b"
    by simp
  have "hs \<noteq> []"
    using hs(3) ts(2) by auto
  then have "populated ?b"
    using s(2) m(2) hs(2) name t(3) ing(2) prec(2)
    by (simp add: populated_def nonempty_text_def map_of_py_update map_add_def)
  then show ?thesis
    by (simp only: b)
qed

text \<open>What the Localizer does to a record of the data model.\<close>

lemma generate_i18n_run_populated:
  assumes i18n: "map_of data (str ''i18n'') = Some (JObj i18n)"
    and en: "map_of i18n (str ''en'') = Some (JObj en)"
    and name: "as_str (py_or (dget data (str ''name'') JNull)
                 (py_or (dget en (str ''title'') JNull) (JStr []))) = Some name"
    and brand: "text_field data (str ''brand'')"
    and country: "text_field data (str ''country_of_origin'')"
    and sz: "text_field data (str ''size'')"
    and hist: "history_list en"
  shows "\<exists>data'. generate_i18n_from_en data = Some data' \<and>
      lang_block data' (str ''en'') = Some en \<and>
      (\<forall>k. k \<noteq> str ''i18n'' \<longrightarrow> map_of data' k = map_of data k) \<and>
      (\<forall>l. l \<notin> set LANGS \<longrightarrow> lang_block data' l = lang_block data l) \<and>
      (\<forall>lang\<in>set LANGS. \<exists>kvs.
          lang_block data' lang = Some (py_update en kvs) \<and> map fst kvs = localized_keys \<and>
          map_of kvs (str ''title'') = Some (JStr (py_strip name)) \<and>
          block_texts_ok (py_update en kvs) \<and> meta_ok (py_update en kvs) \<and>
          (py_strip name \<noteq> [] \<longrightarrow> populated (py_update en kvs)))"
proof -
  obtain b where b: "as_str (py_or (dget data (str ''brand'') JNull) (JStr [])) = Some b"
    using text_or [OF brand, of "JStr []"] by auto
  obtain c where c: "as_str (py_or (dget data (str ''country_of_origin'') JNull) (JStr [])) = Some c"
    using text_or [OF country, of "JStr []"] by auto
  obtain z where z: "as_str (py_or (dget data (str ''size'') JNull) (JStr [])) = Some z"
    using text_or [OF sz, of "JStr []"] by auto
  obtain hs years where hs: "py_iter (dget en (str ''history'') (JArr [])) = Some hs"
    and years: "those (map (\<lambda>h. map_option (\<lambda>d. dget d (str ''year'') (JStr [])) (as_dict h)) hs) = Some years"
    using history_years [OF hist] by auto
  let ?loc = "localize_block en (py_strip name) (py_strip b) (py_strip c) (py_strip z) years"
  let ?f = "\<lambda>lang. map_option (\<lambda>b. (lang, JObj b)) (?loc lang)"
  let ?blocks = "map (\<lambda>lang. (lang, JObj (the (?loc lang)))) LANGS"
  have ok: "\<And>lang. lang \<in> set LANGS \<Longrightarrow>
      \<exists>blk. ?loc lang = Some blk \<and> block_texts_ok blk \<and> meta_ok blk"
    by (rule localize_block_ok)
  have "those (map ?f LANGS) = Some (map (\<lambda>lang. the (?f lang)) LANGS)"
    using ok by (intro those_map_the) auto
  moreover have "map (\<lambda>lang. the (?f lang)) LANGS = ?blocks"
  proof (intro map_cong refl)
    fix x assume "x \<in> set LANGS"
    from ok [OF this] obtain blk where "?loc x = Some blk"
      by blast
    then show "the (?f x) = (x, JObj (the (?loc x)))"
      by simp
  qed
  ultimately have blocks: "those (map ?f LANGS) = Some ?blocks"
    by simp
  let ?data = "AList.update (str ''i18n'') (JObj (py_update i18n ?blocks)) data"
  have run: "generate_i18n_from_en data = Some ?data"
    by (simp add: generate_i18n_from_en_def i18n en name b c z hs years blocks)
  have look: "map_of (py_update i18n ?blocks) =
      map_of i18n ++ ((Some \<circ> (\<lambda>lang. JObj (the (?loc lang)))) |` set LANGS)"
    by (simp add: map_of_py_update map_of_rev_graph)
  have "str ''en'' \<notin> set LANGS"
    by (simp add: LANGS_def)
  then have e: "lang_block ?data (str ''en'') = Some en"
    by (simp add: lang_block_def update_conv' look map_add_def restrict_map_def en)
  have o: "\<forall>k. k \<noteq> str ''i18n'' \<longrightarrow> map_of ?data k = map_of data k"
    by (simp add: update_conv')
  have r: "\<forall>l. l \<notin> set LANGS \<longrightarrow> lang_block ?data l = lang_block data l"
    by (simp add: lang_block_def update_conv' look map_add_def restrict_map_def i18n)
  have l: "\<forall>lang\<in>set LANGS. \<exists>kvs.
          lang_block ?data lang = Some (py_update en kvs) \<and> map fst kvs = localized_keys \<and>
          map_of kvs (str ''title'') = Some (JStr (py_strip name)) \<and>
          block_texts_ok (py_update en kvs) \<and> meta_ok (py_update en kvs) \<and>
          (py_strip name \<noteq> [] \<longrightarrow> populated (py_update en kvs))"
  proof
    fix lang assume lang: "lang \<in> set LANGS"
    from ok [OF lang] obtain blk where blk: "?loc lang = Some blk" "block_texts_ok blk" "meta_ok blk"
      by blast
    from localize_block_shape [OF blk(1)] obtain kvs where kvs: "blk = py_update en kvs"
        "map fst kvs = localized_keys" "map_of kvs (str ''title'') = Some (JStr (py_strip name))"
      by blast
    have "lang_block ?data lang = Some blk"
      using lang by (simp add: lang_block_def update_conv' look map_add_def restrict_map_def blk(1))
    moreover have "py_strip name \<noteq> [] \<longrightarrow> populated blk"
      using localize_block_populated [OF lang _ blk(1)] by blast
    ultimately show "\<exists>kvs.
          lang_block ?data lang = Some (py_update en kvs) \<and> map fst kvs = localized_keys \<and>
          map_of kvs (str ''title'') = Some (JStr (py_strip name)) \<and>
          block_texts_ok (py_update en kvs) \<and> meta_ok (py_update en kvs) \<and>
          (py_strip name \<noteq> [] \<longrightarrow> populated (py_update en kvs))"
      using blk kvs by blast
  qed
  from run e o r l show ?thesis
    by blast
qed

lemma generate_i18n_run:
  assumes "map_of data (str ''i18n'') = Some (JObj i18n)"
    and "map_of i18n (str ''en'') = Some (JObj en)"
    and "as_str (py_or (dget data (str ''name'') JNull)
                 (py_or (dget en (str ''title'') JNull) (JStr []))) = Some name"
    and "text_field data (str ''brand'')"
    and "text_field data (str ''country_of_origin'')"
    and "text_field data (str ''size'')"
    and "history_list en"
  shows "\<exists>data'. generate_i18n_from_en data = Some data' \<and>
      lang_block data' (str ''en'') = Some en \<and>
      (\<forall>k. k \<noteq> str ''i18n'' \<longrightarrow> map_of data' k = map_of data k) \<and>
      (\<forall>l. l \<notin> set LANGS \<longrightarrow> lang_block data' l = lang_block data l) \<and>
      (\<forall>lang\<in>set LANGS. \<exists>kvs.
          lang_block data' lang = Some (py_update en kvs) \<and> map fst kvs = localized_keys \<and>
          map_of kvs (str ''title'') = Some (JStr (py_strip name)) \<and>
          block_texts_ok (py_update en kvs) \<and> meta_ok (py_update en kvs))"
proof -
  from generate_i18n_run_populated [OF assms]
  obtain data' where run: "generate_i18n_from_en data = Some data'"
    and e: "lang_block data' (str ''en'') = Some en"
    and o: "\<forall>k. k \<noteq> str ''i18n'' \<longrightarrow> map_of data' k = map_of data k"
    and r: "\<forall>l. l \<notin> set LANGS \<longrightarrow> lang_block data' l = lang_block data l"
    and l: "\<forall>lang\<in>set LANGS. \<exists>kvs.
          lang_block data' lang = Some (py_update en kvs) \<and> map fst kvs = localized_keys \<and>
          map_of kvs (str ''title'') = Some (JStr (py_strip name)) \<and>
          block_texts_ok (py_update en kvs) \<and> meta_ok (py_update en kvs) \<and>
          (py_strip name \<noteq> [] \<longrightarrow> populated (py_update en kvs))"
    by (elim exE conjE) (rule that)
  have l': "\<forall>lang\<in>set LANGS. \<exists>kvs.
          lang_block data' lang = Some (py_update en kvs) \<and> map fst kvs = localized_keys \<and>
          map_of kvs (str ''title'') = Some (JStr (py_strip name)) \<and>
          block_texts_ok (py_update en kvs) \<and> meta_ok (py_update en kvs)"
  proof
    fix lang assume "lang \<in> set LANGS"
    with l have "\<exists>kvs.
          lang_block data' lang = Some (py_update en kvs) \<and> map fst kvs = localized_keys \<and>
          map_of kvs (str ''title'') = Some (JStr (py_strip name)) \<and>
          block_texts_ok (py_update en kvs) \<and> meta_ok (py_update en kvs) \<and>
          (py_strip name \<noteq> [] \<longrightarrow> populated (py_update en kvs))"
      by (rule bspec)
    then obtain kvs where "lang_block data' lang = Some (py_update en kvs)"
        "map fst kvs = localized_keys"
        "map_of kvs (str ''title'') = Some (JStr (py_strip name))"
        "block_texts_ok (py_update en kvs)" "meta_ok (py_update en kvs)"
      by (elim exE conjE)
    then show "\<exists>kvs.
          lang_block data' lang = Some (py_update en kvs) \<and> map fst kvs = localized_keys \<and>
          map_of kvs (str ''title'') = Some (JStr (py_strip name)) \<and>
          block_texts_ok (py_update en kvs) \<and> meta_ok (py_update en kvs)"
      by (intro exI conjI)
  qed
  from run e o r l' show ?thesis
    by (intro exI conjI)
qed

lemma en_description_format:
  "py_format [(str ''title'', t), (str ''country'', c)] CG_TEXT_en_description =
     Some (t @ str '' is produced using traditional methods. Made in '' @ c @
           str '', it reflects the heritage and expertise of the brand.'')"
  by (simp add: CG_TEXT_en_description_def str_def)

lemma en_history_format:
  "those (map (\<lambda>(y, t). history_entry b c (JStr y) t) CG_TEXT_en_history) =
     Some [JObj [(str ''year'', JStr (str ''Origins'')),
                 (str ''text'', JStr (str ''The '' @ b @ str '' brand was founded in '' @ c @ str ''.''))],
           JObj [(str ''year'', JStr (str ''Development'')),
                 (str ''text'', JStr (str ''Over time, '' @ b @ str '' expanded its range.''))],
           JObj [(str ''year'', JStr (str ''Today'')),
                 (str ''text'', JStr (str ''Today, '' @ b @ str '' products are enjoyed worldwide.''))]]"
  by (simp add: CG_TEXT_en_history_def history_entry_def str_def)

text \<open>What the Content Generator returns for a product whose name, brand and country are strings.\<close>

lemma generate_en_content_run:
  assumes "dget product (str ''name'') (JStr []) = JStr n" and "py_strip n \<noteq> []"
    and "dget product (str ''brand'') (JStr []) = JStr b"
    and "dget product (str ''country_of_origin'') (JStr []) = JStr c"
  shows "generate_en_content product en_block =
     Some (py_update en_block
       [(str ''title'', JStr (py_strip n)),
        (str ''sections'', CG_SECTION_TITLES_en),
        (str ''description'', JStr (py_strip n @ str '' is produced using traditional methods. Made in '' @ c @
           str '', it reflects the heritage and expertise of the brand.'')),
        (str ''ingredients'', JStr CG_TEXT_en_ingredients),
        (str ''precautions'', JStr CG_TEXT_en_precautions),
        (str ''history'', JArr
          [JObj [(str ''year'', JStr (str ''Origins'')),
                 (str ''text'', JStr (str ''The '' @ b @ str '' brand was founded in '' @ c @ str ''.''))],
           JObj [(str ''year'', JStr (str ''Development'')),
                 (str ''text'', JStr (str ''Over time, '' @ b @ str '' expanded its range.''))],
           JObj [(str ''year'', JStr (str ''Today'')),
                 (str ''text'', JStr (str ''Today, '' @ b @ str '' products are enjoyed worldwide.''))]])])"
  using assms(2)
  by (simp add: generate_en_content_def assms(1,3,4) py_or_def en_description_format en_history_format)

lemma localizer_name:
  "text_field data (str ''name'') \<Longrightarrow> text_field en (str ''title'') \<Longrightarrow>
     \<exists>n. as_str (py_or (dget data (str ''name'') JNull)
            (py_or (dget en (str ''title'') JNull) (JStr []))) = Some n"
  using text_or [of data "str ''name''" "py_or (dget en (str ''title'') JNull) (JStr [])"]
    text_or [of en "str ''title''" "JStr []"]
  by auto

text \<open>
  C6, as the code has it. For a record of the data model that has a name (the record's
  \<^verbatim>\<open>name\<close> or else the title of its \<^verbatim>\<open>en\<close> block, not blank) and every language code of the
  Localizer: the language block has the keys of the \<^verbatim>\<open>en\<close> block together with the seven keys
  the Localizer assigns (\<^verbatim>\<open>sections\<close>, \<^verbatim>\<open>meta\<close>, \<^verbatim>\<open>title\<close>, \<^verbatim>\<open>description\<close>, \<^verbatim>\<open>ingredients\<close>,
  \<^verbatim>\<open>precautions\<close>, \<^verbatim>\<open>history\<close>); it is populated, each of the seven holding a value with content;
  and the \<^verbatim>\<open>en\<close> block is left as it was. The two key sets are the same when the \<^verbatim>\<open>en\<close> block
  has the seven keys already.
\<close>

theorem localizer_block_keys:
  assumes "map_of data (str ''i18n'') = Some (JObj i18n)"
    and "map_of i18n (str ''en'') = Some (JObj en)"
    and "as_str (py_or (dget data (str ''name'') JNull)
                 (py_or (dget en (str ''title'') JNull) (JStr []))) = Some n"
    and "py_strip n \<noteq> []"
    and "text_field data (str ''brand'')"
    and "text_field data (str ''country_of_origin'')"
    and "text_field data (str ''size'')"
    and "history_list en"
    and "lang \<in> set LANGS"
  shows "\<exists>data' block.
      generate_i18n_from_en data = Some data' \<and>
      lang_block data' (str ''en'') = Some en \<and>
      lang_block data' lang = Some block \<and>
      set (map fst block) = set (map fst en) \<union> set localized_keys \<and>
      (set localized_keys \<subseteq> set (map fst en) \<longrightarrow> set (map fst block) = set (map fst en)) \<and>
      populated block"
proof -
  from generate_i18n_run_populated [OF assms(1,2,3,5,6,7,8)] obtain data'
    where run: "generate_i18n_from_en data = Some data'"
      and en: "lang_block data' (str ''en'') = Some en"
      and langs: "\<forall>lang\<in>set LANGS. \<exists>kvs.
          lang_block data' lang = Some (py_update en kvs) \<and> map fst kvs = localized_keys \<and>
          map_of kvs (str ''title'') = Some (JStr (py_strip n)) \<and>
          block_texts_ok (py_update en kvs) \<and> meta_ok (py_update en kvs) \<and>
          (py_strip n \<noteq> [] \<longrightarrow> populated (py_update en kvs))"
    by (elim exE conjE) (rule that)
  from langs assms(9) have "\<exists>kvs.
          lang_block data' lang = Some (py_update en kvs) \<and> map fst kvs = localized_keys \<and>
          map_of kvs (str ''title'') = Some (JStr (py_strip n)) \<and>
          block_texts_ok (py_update en kvs) \<and> meta_ok (py_update en kvs) \<and>
          (py_strip n \<noteq> [] \<longrightarrow> populated (py_update en kvs))"
    by (rule bspec)
  then obtain kvs where kvs: "lang_block data' lang = Some (py_update en kvs)"
      "map fst kvs = localized_keys"
    and pop: "py_strip n \<noteq> [] \<longrightarrow> populated (py_update en kvs)"
    by (elim exE conjE)
  have keys: "set (map fst (py_update en kvs)) = set (map fst en) \<union> set localized_keys"
    using keys_py_update [of en kvs] kvs(2) by simp
  then have same: "set localized_keys \<subseteq> set (map fst en) \<longrightarrow>
      set (map fst (py_update en kvs)) = set (map fst en)"
    by blast
  from pop assms(4) have "populated (py_update en kvs)"
    by (rule mp)
  with run en kvs(1) keys same show ?thesis
    by (intro exI conjI)
qed

lemma generated_record_facts:
  "map_of generated_record (str ''i18n'') = Some (JObj [(str ''en'', JObj generated_en)])"
  "text_field generated_record (str ''name'')"
  "text_field generated_record (str ''brand'')"
  "text_field generated_record (str ''country_of_origin'')"
  "text_field generated_record (str ''size'')"
  "text_field generated_en (str ''title'')"
  "history_list generated_en"
  "map_of generated_en (str ''meta'') = None"
  by (simp_all add: generated_record_def k100_fields_def generated_en_def text_field_def
      history_list_def dget_def)

lemma generated_record_name:
  "as_str (py_or (dget generated_record (str ''name'') JNull)
     (py_or (dget generated_en (str ''title'') JNull) (JStr []))) = Some (str ''Olives 500g'')"
  "py_strip (str ''Olives 500g'') \<noteq> []"
  by (simp_all add: generated_record_def k100_fields_def dget_def py_or_def str_ops)

theorem localizer_block_keys_witness:
  "\<exists>data' block.
      generate_i18n_from_en generated_record = Some data' \<and>
      lang_block data' (str ''en'') = Some generated_en \<and>
      lang_block data' (str ''ru'') = Some block \<and>
      set (map fst block) = set (map fst generated_en) \<union> set localized_keys \<and>
      (set localized_keys \<subseteq> set (map fst generated_en) \<longrightarrow>
         set (map fst block) = set (map fst generated_en)) \<and>
      populated block"
  by (rule localizer_block_keys [where i18n = "[(str ''en'', JObj generated_en)]",
        OF _ _ generated_record_name])
     (simp_all add: generated_record_facts LANGS_def)

theorem localizer_adds_meta_counterexample:
  "block_has_key (generate_i18n_from_en generated_record) (str ''en'') (str ''meta'') = Some False \<and>
   block_has_key (generate_i18n_from_en generated_record) (str ''ru'') (str ''meta'') = Some True"
proof -
  have name: "as_str (py_or (dget generated_record (str ''name'') JNull)
                (py_or (dget generated_en (str ''title'') JNull) (JStr []))) = Some (str ''Olives 500g'')"
    by (simp add: generated_record_def k100_fields_def dget_def py_or_def)
  have ru: "str ''ru'' \<in> set LANGS"
    by (simp add: LANGS_def)
  from generate_i18n_run [OF generated_record_facts(1) _ name generated_record_facts(3,4,5,7)]
  obtain data' where run: "generate_i18n_from_en generated_record = Some data'"
      and en: "lang_block data' (str ''en'') = Some generated_en"
      and langs: "\<forall>lang\<in>set LANGS. \<exists>kvs.
          lang_block data' lang = Some (py_update generated_en kvs) \<and> map fst kvs = localized_keys \<and>
          map_of kvs (str ''title'') = Some (JStr (py_strip (str ''Olives 500g''))) \<and>
          block_texts_ok (py_update generated_en kvs) \<and> meta_ok (py_update generated_en kvs)"
    by auto
  from langs ru obtain kvs where kvs: "lang_block data' (str ''ru'') = Some (py_update generated_en kvs)"
      "map fst kvs = localized_keys"
    by blast
  have "str ''meta'' \<in> set (map fst (py_update generated_en kvs))"
    unfolding keys_py_update kvs(2) by (simp add: localized_keys_def)
  then have "map_of (py_update generated_en kvs) (str ''meta'') \<noteq> None"
    by (simp add: map_of_eq_None_iff)
  with run en kvs(1) generated_record_facts(8) show ?thesis
    by (simp add: block_has_key_def)
qed


section \<open>The Page Renderer and the end-to-end scenario\<close>


lemma as_str_dget:
  "text_field d k \<Longrightarrow> \<exists>y. as_str (dget d k (JStr dflt)) = Some y"
  using text_field_cases [of d k dflt] by auto

lemma those_all_Some:
  "list_all (\<lambda>x. f x \<noteq> None) xs \<Longrightarrow> those (map f xs) \<noteq> None"
  using those_map_the [of xs f] by (simp add: list_all_iff)

lemma history_item_ok:
  assumes "history_entry_ok h" and "dget b (str ''history_labels'') (JObj []) = JObj l"
    and "text_field l []"
  shows "history_item (dget b (str ''history_labels'') (JObj [])) h \<noteq> None"
proof -
  from assms(1) obtain e where e: "h = JObj e" "map_of e (str ''key'') = None"
      "text_field e (str ''text'')"
    by (auto simp: history_entry_ok_def split: json.splits)
  obtain lab where lab: "dget l [] (JStr []) = JStr lab"
    using text_field_cases [OF assms(3)] by blast
  obtain tx where tx: "dget e (str ''text'') (JStr []) = JStr tx"
    using text_field_cases [OF e(3)] by blast
  have key: "dget e (str ''key'') (JStr []) = JStr []"
    using e(2) by (simp add: dget_def)
  show ?thesis
    by (simp add: history_item_def e(1) assms(2) key lab tx)
qed

lemma tags_html_ok:
  assumes "list_all (\<lambda>t. fmt t \<noteq> None) ts"
  shows "tags_html (JArr ts) \<noteq> None"
proof -
  have "those (map (\<lambda>tag. map_option g (fmt tag)) ts) \<noteq> None" for g :: "ustr \<Rightarrow> ustr"
    using assms by (intro those_all_Some) (simp add: list_all_iff)
  then have \<open>those (map (\<lambda>tag. map_option (\<lambda>t. str ''<span class="tag">'' @ t @ str ''</span>'')
      (fmt tag)) ts) \<noteq> None\<close> .
  then show ?thesis
    by (auto simp: tags_html_def)
qed

lemma render_page_ok:
  assumes all: "map_of data (str ''i18n'') = Some (JObj all)"
    and b: "dget all lang (JObj []) = JObj b"
    and texts: "block_texts_ok b"
    and meta: "meta_ok b"
    and labels: "history_labels_ok b"
    and top: "list_all (text_field data)
       [str ''brand'', str ''country_of_origin'', str ''category'', str ''size'', str ''alcohol_content'']"
    and tags: "tags_html (dget data (str ''tags'') (JArr [])) \<noteq> None"
    and name: "as_str product_name \<noteq> None"
  shows "render_page T data sku product_name lang \<noteq> None"
proof -
  from texts obtain s hs where s: "dget b (str ''sections'') (JObj []) = JObj s"
      "list_all (text_field s)
          [str ''description_title'', str ''ingredients_title'', str ''precautions_title'',
           str ''history_title'']"
    and fields: "list_all (text_field b) [str ''description'', str ''ingredients'', str ''precautions'']"
    and hs: "dget b (str ''history'') (JArr []) = JArr hs" "list_all history_entry_ok hs"
    by (auto simp: block_texts_ok_def split: json.splits)
  from meta obtain m where m: "dget b (str ''meta'') (JObj []) = JObj m"
      "list_all (text_field m)
          [str ''brand'', str ''country_of_origin'', str ''category'', str ''size'',
           str ''alcohol_content'']"
    by (auto simp: meta_ok_def split: json.splits)
  from labels obtain l where l: "dget b (str ''history_labels'') (JObj []) = JObj l" "text_field l []"
    by (auto simp: history_labels_ok_def split: json.splits)
  obtain tg where tg: "tags_html (dget data (str ''tags'') (JArr [])) = Some tg"
    using tags by auto
  have "those (map (history_item (dget b (str ''history_labels'') (JObj []))) hs) \<noteq> None"
    using hs(2) history_item_ok [OF _ l] by (intro those_all_Some) (simp add: list_all_iff)
  then obtain items where items:
      "those (map (history_item (dget b (str ''history_labels'') (JObj []))) hs) = Some items"
    by auto
  let ?vals = "[product_name,
        JStr tg,
        dget m (str ''brand'') (JStr []),
        dget m (str ''country_of_origin'') (JStr []),
        dget m (str ''category'') (JStr []),
        dget m (str ''size'') (JStr []),
        dget m (str ''alcohol_content'') (JStr []),
        dget data (str ''brand'') (JStr []),
        dget data (str ''country_of_origin'') (JStr []),
        dget data (str ''category'') (JStr []),
        dget data (str ''size'') (JStr []),
        dget data (str ''alcohol_content'') (JStr []),
        JStr sku,
        dget s (str ''description_title'') (JStr []),
        dget s (str ''ingredients_title'') (JStr []),
        dget s (str ''precautions_title'') (JStr []),
        dget s (str ''history_title'') (JStr []),
        dget b (str ''description'') (JStr []),
        dget b (str ''ingredients'') (JStr []),
        dget b (str ''precautions'') (JStr []),
        JStr (concat items)]"
  have "those (map as_str ?vals) \<noteq> None"
    using name s(2) m(2) fields top by (intro those_all_Some) (simp add: as_str_dget)
  then obtain vals where vals: "those (map as_str ?vals) = Some vals"
    by auto
  show ?thesis
    by (simp only: render_page_def all b s(1) m(1) tg hs(1) items vals Option.bind.simps
        as_dict.simps py_iter.simps option.distinct not_False_eq_True)
qed


lemma render_langs_ok:
  "(\<And>lang f. (lang, f) \<in> set langs \<Longrightarrow> render_page T data sku name lang \<noteq> None) \<Longrightarrow>
     \<exists>files. render_langs T data sku name langs = (files, True) \<and>
       map fst files = map (\<lambda>lf. [str ''products'', sku, snd lf]) langs"
proof (induction langs)
  case Nil
  then show ?case by simp
next
  case (Cons lf langs)
  obtain lang f where lf: "lf = (lang, f)"
    by (cases lf)
  from Cons.prems [of lang f] obtain html where html: "render_page T data sku name lang = Some html"
    by (auto simp: lf)
  from Cons.IH Cons.prems obtain files where "render_langs T data sku name langs = (files, True)"
      "map fst files = map (\<lambda>lf. [str ''products'', sku, snd lf]) langs"
    by auto
  then show ?case
    by (simp add: lf html)
qed

lemma as_dict_eq_Some: "as_dict x = Some d \<longleftrightarrow> x = JObj d"
  by (cases x) auto

lemma as_str_eq_Some: "as_str x = Some s \<longleftrightarrow> x = JStr s"
  by (cases x) auto

lemma lang_block_lookup:
  "lang_block data lang = Some b \<Longrightarrow>
     \<exists>all. map_of data (str ''i18n'') = Some (JObj all) \<and> dget all lang (JObj []) = JObj b"
  by (auto simp: lang_block_def dget_def as_dict_eq_Some split: bind_splits)

lemma dget_py_update_other:
  "k \<notin> set (map fst kvs) \<Longrightarrow> dget (py_update d kvs) k dflt = dget d k dflt"
proof -
  assume "k \<notin> set (map fst kvs)"
  then have "map_of (rev kvs) k = None"
    by (simp add: map_of_eq_None_iff)
  then show ?thesis
    by (simp add: dget_py_update)
qed

lemma str_append: "str a @ str b = str (a @ b)"
  by (simp add: str_def)

lemma k100_cells:
  "cell k100_row (str ''SKU ID'') = str ''K100''"
  "cell k100_row (str ''SKU Name'') = str ''Olives 500g''"
  "cell k100_row (str ''Brand'') = str ''KRINOS''"
  "cell k100_row (str ''Country'') = str ''Greece''"
  "cell k100_row (str ''Department'') = str ''Pickled / Olives''"
  "cell k100_row (str ''Size'') = str ''500g''"
  "cell k100_row (str ''Tags'') = str ''greek,olives''"
  by (simp_all add: cell_def k100_row_def str_ops)

lemma k100_names:
  "safe_filename (str ''K100'') = str ''K100''"
  "py_strip (str ''Olives 500g'') = str ''Olives 500g''"
  "py_strip (str ''K100'') = str ''K100''"
  "map (\<lambda>t. JStr (py_strip t)) (filter (\<lambda>t. py_strip t \<noteq> []) (py_split 0x2C (str ''greek,olives''))) =
     [JStr (str ''greek''), JStr (str ''olives'')]"
  by (simp_all add: safe_filename_def forbidden_def str_ops)


lemma k100_fields_lookup:
  "map_of (rev k100_fields) (str ''i18n'') = None"
  "map_of (rev k100_fields) (str ''sku'') = Some (JStr (str ''K100''))"
  "map_of (rev k100_fields) (str ''name'') = Some (JStr (str ''Olives 500g''))"
  "map_of (rev k100_fields) (str ''brand'') = Some (JStr (str ''KRINOS''))"
  "map_of (rev k100_fields) (str ''country_of_origin'') = Some (JStr (str ''Greece''))"
  "map_of (rev k100_fields) (str ''category'') = Some (JStr (str ''Pickled / Olives''))"
  "map_of (rev k100_fields) (str ''size'') = Some (JStr (str ''500g''))"
  "map_of (rev k100_fields) (str ''alcohol_content'') = Some (JStr [])"
  "map_of (rev k100_fields) (str ''tags'') = Some (JArr [JStr (str ''greek''), JStr (str ''olives'')])"
  by (simp_all add: k100_fields_def)

lemma generated_en_lookup:
  "map_of (rev generated_en) (str ''title'') = Some (JStr (str ''Olives 500g''))"
  "map_of (rev generated_en) (str ''sections'') = Some CG_SECTION_TITLES_en"
  "map_of (rev generated_en) (str ''description'') = Some (JStr k100_description)"
  "\<exists>s. map_of (rev generated_en) (str ''ingredients'') = Some (JStr s)"
  "\<exists>s. map_of (rev generated_en) (str ''precautions'') = Some (JStr s)"
  "\<exists>h. map_of (rev generated_en) (str ''history'') = Some (JArr h) \<and> length h = 3 \<and>
        list_all history_entry_ok h \<and> list_all (\<lambda>h. as_dict h \<noteq> None) h"
  "map_of (rev generated_en) (str ''meta'') = None"
  "map_of (rev generated_en) (str ''history_labels'') = None"
  by (simp_all add: generated_en_def k100_description_def history_entry_ok_def text_field_def)

text \<open>The store builder on the row of the scenario, up to the call of the Localizer.\<close>

lemma k100_build:
  assumes t: "map_of t (str ''i18n'') = Some (JObj i)"
    and e0: "dget i (str ''en'') (JObj []) = JObj e0"
  shows "build_product (JObj t) k100_row =
     map_option (Written (str ''K100''))
       (generate_i18n_from_en
         (AList.update (str ''i18n'') (JObj [(str ''en'', JObj (py_update e0 generated_en))])
            (py_update t k100_fields)))"
proof -
  let ?p1 = "py_update t k100_fields"
  let ?p2 = "AList.update (str ''i18n'') (JObj [(str ''en'', JObj e0)]) ?p1"
  have fields: "[(str ''sku'', JStr (safe_filename (cell k100_row (str ''SKU ID'')))),
           (str ''name'', JStr (cell k100_row (str ''SKU Name''))),
           (str ''brand'', JStr (cell k100_row (str ''Brand''))),
           (str ''country_of_origin'', JStr (cell k100_row (str ''Country''))),
           (str ''category'', JStr (cell k100_row (str ''Department''))),
           (str ''size'', JStr (cell k100_row (str ''Size''))),
           (str ''alcohol_content'', JStr []),
           (str ''image'', JStr (str ''../../assets/'' @ safe_filename (cell k100_row (str ''SKU ID'')) @ str ''.jpg'')),
           (str ''tags'', JArr (map (\<lambda>t. JStr (py_strip t))
              (filter (\<lambda>t. py_strip t \<noteq> []) (py_split 0x2C (cell k100_row (str ''Tags''))))))] =
        k100_fields"
    by (simp add: k100_cells k100_names k100_fields_def str_append)
  have i18n: "map_of ?p1 (str ''i18n'') = Some (JObj i)"
    by (simp add: map_of_py_update map_add_def k100_fields_lookup t)
  have "dget ?p2 (str ''name'') (JStr []) = JStr (str ''Olives 500g'')"
    "dget ?p2 (str ''brand'') (JStr []) = JStr (str ''KRINOS'')"
    "dget ?p2 (str ''country_of_origin'') (JStr []) = JStr (str ''Greece'')"
    by (simp_all add: dget_update_other dget_py_update k100_fields_lookup)
  then have "generate_en_content ?p2 e0 =
     Some (py_update e0
       [(str ''title'', JStr (py_strip (str ''Olives 500g''))),
        (str ''sections'', CG_SECTION_TITLES_en),
        (str ''description'', JStr (py_strip (str ''Olives 500g'') @
           str '' is produced using traditional methods. Made in '' @ str ''Greece'' @
           str '', it reflects the heritage and expertise of the brand.'')),
        (str ''ingredients'', JStr CG_TEXT_en_ingredients),
        (str ''precautions'', JStr CG_TEXT_en_precautions),
        (str ''history'', JArr
          [JObj [(str ''year'', JStr (str ''Origins'')),
                 (str ''text'', JStr (str ''The '' @ str ''KRINOS'' @ str '' brand was founded in '' @
                    str ''Greece'' @ str ''.''))],
           JObj [(str ''year'', JStr (str ''Development'')),
                 (str ''text'', JStr (str ''Over time, '' @ str ''KRINOS'' @ str '' expanded its range.''))],
           JObj [(str ''year'', JStr (str ''Today'')),
                 (str ''text'', JStr (str ''Today, '' @ str ''KRINOS'' @
                    str '' products are enjoyed worldwide.''))]])])"
    by (intro generate_en_content_run) (simp_all add: k100_names)
  then have en1: "generate_en_content ?p2 e0 = Some (py_update e0 generated_en)"
    by (simp add: k100_names str_append generated_en_def)
  have "build_product (JObj t) k100_row =
      generate_i18n_from_en
        (AList.update (str ''i18n'') (JObj [(str ''en'', JObj (py_update e0 generated_en))]) ?p2) \<bind>
      (\<lambda>p. Some (Written (str ''K100'') p))"
    unfolding build_product_def Let_def fields
    by (simp add: k100_cells k100_names i18n e0 en1)
  then show ?thesis
    by (simp add: map_conv_bind_option comp_def)
qed


lemma history_labels_ok_py_update:
  "str ''history_labels'' \<notin> set (map fst kvs) \<Longrightarrow>
     history_labels_ok (py_update d kvs) = history_labels_ok d"
  by (simp add: history_labels_ok_def dget_py_update_other)

lemma meta_ok_py_update:
  "str ''meta'' \<notin> set (map fst kvs) \<Longrightarrow> meta_ok (py_update d kvs) = meta_ok d"
  by (simp add: meta_ok_def dget_py_update_other)

lemma generated_en_keys:
  "str ''history_labels'' \<notin> set (map fst generated_en)" "str ''meta'' \<notin> set (map fst generated_en)"
  "str ''history_labels'' \<notin> set localized_keys"
  by (simp_all add: generated_en_def localized_keys_def)

lemma generated_en_texts: "block_texts_ok (py_update e0 generated_en)"
proof -
  obtain h where h: "map_of (rev generated_en) (str ''history'') = Some (JArr h)"
      "list_all history_entry_ok h"
    using generated_en_lookup(6) by blast
  obtain s1 s2 where s: "map_of (rev generated_en) (str ''ingredients'') = Some (JStr s1)"
      "map_of (rev generated_en) (str ''precautions'') = Some (JStr s2)"
    using generated_en_lookup(4,5) by blast
  have sections: "dget (py_update e0 generated_en) (str ''sections'') (JObj []) = CG_SECTION_TITLES_en"
    and history: "dget (py_update e0 generated_en) (str ''history'') (JArr []) = JArr h"
    by (simp_all add: dget_py_update generated_en_lookup(2) h(1))
  have titles: "list_all (text_field (the (as_dict CG_SECTION_TITLES_en)))
      [str ''description_title'', str ''ingredients_title'', str ''precautions_title'', str ''history_title'']"
    by (simp add: CG_SECTION_TITLES_en_def text_field_def)
  have texts: "list_all (text_field (py_update e0 generated_en))
      [str ''description'', str ''ingredients'', str ''precautions'']"
    by (simp add: text_field_py_update generated_en_lookup(3) s)
  show ?thesis
    unfolding block_texts_ok_def sections history
    using titles texts h(2) by (simp add: CG_SECTION_TITLES_en_def)
qed

lemma lang_map_langs:
  "(lang, f) \<in> set LANG_MAP \<Longrightarrow> lang = str ''en'' \<or> lang \<in> set LANGS"
  by (auto simp: LANG_MAP_def LANGS_def)

text \<open>
  The record the store builder writes for the row of the scenario: the \<^verbatim>\<open>en\<close> block is the
  template's, updated by the Content Generator; the top-level fields are those of the row; the
  language blocks are those of the Localizer.
\<close>

lemma k100_store:
  assumes "map_of t (str ''i18n'') = Some (JObj i)"
    and "dget i (str ''en'') (JObj []) = JObj e0"
  shows "\<exists>product.
      build_product (JObj t) k100_row = Some (Written (str ''K100'') product) \<and>
      lang_block product (str ''en'') = Some (py_update e0 generated_en) \<and>
      (\<forall>k. k \<noteq> str ''i18n'' \<longrightarrow>
         map_of product k =
           (case map_of (rev k100_fields) k of None \<Rightarrow> map_of t k | Some v \<Rightarrow> Some v)) \<and>
      (\<forall>l. l \<notin> set LANGS \<longrightarrow> l \<noteq> str ''en'' \<longrightarrow> lang_block product l = None) \<and>
      (\<forall>lang\<in>set LANGS. \<exists>kvs.
          lang_block product lang = Some (py_update (py_update e0 generated_en) kvs) \<and>
          map fst kvs = localized_keys \<and>
          map_of kvs (str ''title'') = Some (JStr (str ''Olives 500g'')) \<and>
          block_texts_ok (py_update (py_update e0 generated_en) kvs) \<and>
          meta_ok (py_update (py_update e0 generated_en) kvs))"
proof -
  let ?en = "py_update e0 generated_en"
  let ?p3 = "AList.update (str ''i18n'') (JObj [(str ''en'', JObj ?en)]) (py_update t k100_fields)"
  have top: "\<And>k. k \<noteq> str ''i18n'' \<Longrightarrow>
      map_of ?p3 k = (case map_of (rev k100_fields) k of None \<Rightarrow> map_of t k | Some v \<Rightarrow> Some v)"
    by (simp add: update_conv' map_of_py_update map_add_def)
  have p3_i18n: "map_of ?p3 (str ''i18n'') = Some (JObj [(str ''en'', JObj ?en)])"
    by (simp add: update_conv')
  have en_en: "map_of [(str ''en'', JObj ?en)] (str ''en'') = Some (JObj ?en)"
    by simp
  obtain h where h: "map_of (rev generated_en) (str ''history'') = Some (JArr h)"
      "list_all (\<lambda>h. as_dict h \<noteq> None) h"
    using generated_en_lookup(6) by blast
  have en_title: "map_of ?en (str ''title'') = Some (JStr (str ''Olives 500g''))"
    and en_hist: "map_of ?en (str ''history'') = Some (JArr h)"
    by (simp_all add: map_of_py_update map_add_def generated_en_lookup h(1))
  have name: "as_str (py_or (dget ?p3 (str ''name'') JNull)
        (py_or (dget ?en (str ''title'') JNull) (JStr []))) = Some (str ''Olives 500g'')"
    by (simp add: dget_def top k100_fields_lookup py_or_def)
  have fields: "text_field ?p3 (str ''brand'')" "text_field ?p3 (str ''country_of_origin'')"
    "text_field ?p3 (str ''size'')"
    by (simp_all add: text_field_def top k100_fields_lookup)
  have hist: "history_list ?en"
    using h(2) by (simp add: history_list_def dget_def en_hist)
  from generate_i18n_run [OF p3_i18n en_en name fields hist]
  obtain product where loc: "generate_i18n_from_en ?p3 = Some product"
    and p_en: "lang_block product (str ''en'') = Some ?en"
    and p_top: "\<forall>k. k \<noteq> str ''i18n'' \<longrightarrow> map_of product k = map_of ?p3 k"
    and p_other: "\<forall>l. l \<notin> set LANGS \<longrightarrow> lang_block product l = lang_block ?p3 l"
    and p_langs: "\<forall>lang\<in>set LANGS. \<exists>kvs.
          lang_block product lang = Some (py_update ?en kvs) \<and> map fst kvs = localized_keys \<and>
          map_of kvs (str ''title'') = Some (JStr (py_strip (str ''Olives 500g''))) \<and>
          block_texts_ok (py_update ?en kvs) \<and> meta_ok (py_update ?en kvs)"
    by (elim exE conjE) blast
  have built: "build_product (JObj t) k100_row = Some (Written (str ''K100'') product)"
    by (simp add: k100_build [OF assms(1,2)] loc)
  have p_top': "\<forall>k. k \<noteq> str ''i18n'' \<longrightarrow>
         map_of product k =
           (case map_of (rev k100_fields) k of None \<Rightarrow> map_of t k | Some v \<Rightarrow> Some v)"
    using p_top top by simp
  have only: "\<forall>l. l \<notin> set LANGS \<longrightarrow> l \<noteq> str ''en'' \<longrightarrow> lang_block product l = None"
    using p_other by (simp add: lang_block_def p3_i18n)
  have p_langs': "\<forall>lang\<in>set LANGS. \<exists>kvs.
          lang_block product lang = Some (py_update ?en kvs) \<and> map fst kvs = localized_keys \<and>
          map_of kvs (str ''title'') = Some (JStr (str ''Olives 500g'')) \<and>
          block_texts_ok (py_update ?en kvs) \<and> meta_ok (py_update ?en kvs)"
    using p_langs by (simp only: k100_names)
  from built p_en p_top' only p_langs' show ?thesis
    by (intro exI conjI)
qed


lemma localized_title:
  assumes "map fst kvs = localized_keys" and "map_of kvs (str ''title'') = Some v"
  shows "map_of (py_update en kvs) (str ''title'') = Some v"
proof -
  have "distinct (map fst kvs)"
    by (simp add: assms(1) localized_keys_def)
  then have "map_of (rev kvs) = map_of kvs"
    by (simp add: map_of_inject_set distinct_rev rev_map [symmetric] del: map_of_eq_dom)
  then show ?thesis
    by (simp add: map_of_py_update map_add_def assms(2))
qed

lemma k100_top_fields:
  assumes "\<forall>k. k \<noteq> str ''i18n'' \<longrightarrow>
         map_of product k =
           (case map_of (rev k100_fields) k of None \<Rightarrow> map_of t k | Some v \<Rightarrow> Some v)"
  shows "dget product (str ''sku'') (JStr []) = JStr (str ''K100'')"
    and "dget product (str ''name'') JNull = JStr (str ''Olives 500g'')"
    and "dget product (str ''tags'') (JArr []) = JArr [JStr (str ''greek''), JStr (str ''olives'')]"
    and "list_all (text_field product)
       [str ''brand'', str ''country_of_origin'', str ''category'', str ''size'', str ''alcohol_content'']"
proof -
  have top: "map_of product k = Some v" if "map_of (rev k100_fields) k = Some v" "k \<noteq> str ''i18n''" for k v
    using assms that by simp
  have f: "map_of product (str ''sku'') = Some (JStr (str ''K100''))"
    "map_of product (str ''name'') = Some (JStr (str ''Olives 500g''))"
    "map_of product (str ''tags'') = Some (JArr [JStr (str ''greek''), JStr (str ''olives'')])"
    "\<exists>s. map_of product (str ''brand'') = Some (JStr s)"
    "\<exists>s. map_of product (str ''country_of_origin'') = Some (JStr s)"
    "\<exists>s. map_of product (str ''category'') = Some (JStr s)"
    "\<exists>s. map_of product (str ''size'') = Some (JStr s)"
    "\<exists>s. map_of product (str ''alcohol_content'') = Some (JStr s)"
    by (simp_all add: top k100_fields_lookup)
  show "dget product (str ''sku'') (JStr []) = JStr (str ''K100'')"
    and "dget product (str ''name'') JNull = JStr (str ''Olives 500g'')"
    and "dget product (str ''tags'') (JArr []) = JArr [JStr (str ''greek''), JStr (str ''olives'')]"
    by (simp_all add: dget_def f)
  show "list_all (text_field product)
       [str ''brand'', str ''country_of_origin'', str ''category'', str ''size'', str ''alcohol_content'']"
    using f(4-8) by (auto simp: text_field_def)
qed


text \<open>
  C1, as the code has it. For the row of the scenario, every template that is a dictionary with an
  \<^verbatim>\<open>i18n\<close> dictionary whose \<^verbatim>\<open>en\<close> block, if any, carries well-formed labels, and every page
  template: the record is written under the SKU \<^verbatim>\<open>K100\<close>; its \<^verbatim>\<open>en\<close> block has the title
  \<^verbatim>\<open>Olives 500g\<close>, a description that contains the title and \<^verbatim>\<open>Greece\<close>, and a history of three
  entries; the record has a block for each of the seven language codes, with the same title,
  and for no code besides these and \<^verbatim>\<open>en\<close>; and the Page Renderer runs to its end and writes
  the eight files of \<open>k100_pages\<close>, all under \<^verbatim>\<open>products/K100\<close>.
\<close>

theorem k100_scenario:
  assumes "map_of t (str ''i18n'') = Some (JObj i)"
    and "dget i (str ''en'') (JObj []) = JObj e0"
    and "meta_ok e0"
    and "history_labels_ok e0"
  shows "\<exists>product en h files.
      build_product (JObj t) k100_row = Some (Written (str ''K100'') product) \<and>
      lang_block product (str ''en'') = Some en \<and>
      map_of en (str ''title'') = Some (JStr (str ''Olives 500g'')) \<and>
      map_of en (str ''description'') = Some (JStr k100_description) \<and>
      contains k100_description (str ''Olives 500g'') \<and>
      contains k100_description (str ''Greece'') \<and>
      map_of en (str ''history'') = Some (JArr h) \<and> length h = 3 \<and>
      (\<forall>lang\<in>set LANGS. \<exists>b. lang_block product lang = Some b \<and>
           map_of b (str ''title'') = Some (JStr (str ''Olives 500g''))) \<and>
      (\<forall>l. lang_block product l \<noteq> None \<longrightarrow> l = str ''en'' \<or> l \<in> set LANGS) \<and>
      length LANGS = 7 \<and> distinct LANGS \<and>
      render_product T product = (files, True) \<and>
      map fst files = k100_pages \<and> length files = 8"
proof -
  let ?en = "py_update e0 generated_en"
  from k100_store [OF assms(1,2)]
  obtain product where built: "build_product (JObj t) k100_row = Some (Written (str ''K100'') product)"
    and p_en: "lang_block product (str ''en'') = Some ?en"
    and p_top: "\<forall>k. k \<noteq> str ''i18n'' \<longrightarrow>
         map_of product k =
           (case map_of (rev k100_fields) k of None \<Rightarrow> map_of t k | Some v \<Rightarrow> Some v)"
    and p_other: "\<forall>l. l \<notin> set LANGS \<longrightarrow> l \<noteq> str ''en'' \<longrightarrow> lang_block product l = None"
    and p_langs: "\<forall>lang\<in>set LANGS. \<exists>kvs.
          lang_block product lang = Some (py_update ?en kvs) \<and> map fst kvs = localized_keys \<and>
          map_of kvs (str ''title'') = Some (JStr (str ''Olives 500g'')) \<and>
          block_texts_ok (py_update ?en kvs) \<and> meta_ok (py_update ?en kvs)"
    by (elim exE conjE) (rule that)
  obtain h where h: "map_of (rev generated_en) (str ''history'') = Some (JArr h)" "length h = 3"
    using generated_en_lookup(6) by blast
  have en_title: "map_of ?en (str ''title'') = Some (JStr (str ''Olives 500g''))"
    and en_desc: "map_of ?en (str ''description'') = Some (JStr k100_description)"
    and en_hist: "map_of ?en (str ''history'') = Some (JArr h)"
    by (simp_all add: map_of_py_update map_add_def generated_en_lookup h(1))
  have titles: "\<forall>lang\<in>set LANGS. \<exists>b. lang_block product lang = Some b \<and>
           map_of b (str ''title'') = Some (JStr (str ''Olives 500g''))"
  proof
    fix lang assume "lang \<in> set LANGS"
    with p_langs obtain kvs where kvs: "lang_block product lang = Some (py_update ?en kvs)"
        "map_of kvs (str ''title'') = Some (JStr (str ''Olives 500g''))"
        "map fst kvs = localized_keys"
      by blast
    from kvs(1) localized_title [OF kvs(3,2)]
    show "\<exists>b. lang_block product lang = Some b \<and>
           map_of b (str ''title'') = Some (JStr (str ''Olives 500g''))"
      by blast
  qed
  have only: "\<forall>l. lang_block product l \<noteq> None \<longrightarrow> l = str ''en'' \<or> l \<in> set LANGS"
  proof (intro allI impI)
    fix l assume l: "lang_block product l \<noteq> None"
    show "l = str ''en'' \<or> l \<in> set LANGS"
    proof (rule ccontr)
      assume "\<not> (l = str ''en'' \<or> l \<in> set LANGS)"
      then have "l \<notin> set LANGS" "l \<noteq> str ''en''"
        by simp_all
      then have "lang_block product l = None"
        by (rule p_other [rule_format])
      with l show False
        by simp
    qed
  qed
  have count: "length LANGS = 7" "distinct LANGS"
    by (simp_all add: LANGS_def)
  note sku = k100_top_fields(1) [OF p_top] and pname = k100_top_fields(2) [OF p_top]
    and tags = k100_top_fields(3) [OF p_top] and p_fields = k100_top_fields(4) [OF p_top]
  have en_ok: "block_texts_ok ?en" "meta_ok ?en" "history_labels_ok ?en"
    using assms(3,4)
    by (simp_all only: generated_en_texts meta_ok_py_update [OF generated_en_keys(2)]
        history_labels_ok_py_update [OF generated_en_keys(1)])
  have pages: "render_page T product (str ''K100'') (JStr (str ''Olives 500g'')) lang \<noteq> None"
    if "(lang, f) \<in> set LANG_MAP" for lang f
  proof -
    have "\<exists>b. lang_block product lang = Some b \<and> block_texts_ok b \<and> meta_ok b \<and> history_labels_ok b"
    proof (cases "lang = str ''en''")
      case True
      then show ?thesis
        using p_en en_ok by simp
    next
      case False
      then have "lang \<in> set LANGS"
        using lang_map_langs [OF that] by simp
      with p_langs obtain kvs where kvs: "lang_block product lang = Some (py_update ?en kvs)"
          "map fst kvs = localized_keys" "block_texts_ok (py_update ?en kvs)"
          "meta_ok (py_update ?en kvs)"
        by blast
      have "history_labels_ok (py_update ?en kvs)"
        using en_ok(3) by (simp add: history_labels_ok_py_update kvs(2) generated_en_keys)
      with kvs show ?thesis
        by blast
    qed
    then obtain b where b: "lang_block product lang = Some b" "block_texts_ok b" "meta_ok b"
        "history_labels_ok b"
      by blast
    from lang_block_lookup [OF b(1)] obtain all
      where all: "map_of product (str ''i18n'') = Some (JObj all)" "dget all lang (JObj []) = JObj b"
      by blast
    show ?thesis
      by (rule render_page_ok [OF all b(2,3,4) p_fields]) (simp_all add: tags tags_html_ok)
  qed
  have "\<exists>files. render_langs T product (str ''K100'') (JStr (str ''Olives 500g'')) LANG_MAP = (files, True) \<and>
      map fst files = map (\<lambda>lf. [str ''products'', str ''K100'', snd lf]) LANG_MAP"
    by (rule render_langs_ok) (rule pages)
  then obtain files where files: "render_langs T product (str ''K100'') (JStr (str ''Olives 500g'')) LANG_MAP = (files, True)"
      "map fst files = map (\<lambda>lf. [str ''products'', str ''K100'', snd lf]) LANG_MAP"
    by blast
  have rendered: "render_product T product = (files, True)"
    by (simp add: render_product_def sku k100_names pname py_or_def files(1))
  have paths: "map fst files = k100_pages"
    by (simp add: files(2) LANG_MAP_def k100_pages_def)
  then have "length (map fst files) = 8"
    by (simp add: k100_pages_def)
  then have eight: "length files = 8"
    by simp
  have inside: "contains k100_description (str ''Olives 500g'')" "contains k100_description (str ''Greece'')"
    by (simp_all add: k100_description_def str_def)
  from built p_en en_title en_desc inside en_hist h(2) titles only count rendered paths eight
  show ?thesis
    by (intro exI conjI)
qed


lemma blank_template_facts:
  "map_of [(str ''i18n'', JObj [])] (str ''i18n'') = Some (JObj [])"
  "dget [] (str ''en'') (JObj []) = JObj []"
  "meta_ok []"
  "history_labels_ok []"
  by (simp_all add: dget_def meta_ok_def history_labels_ok_def text_field_def)

theorem k100_scenario_witness:
  "\<exists>product en h files.
      build_product blank_template k100_row = Some (Written (str ''K100'') product) \<and>
      lang_block product (str ''en'') = Some en \<and>
      map_of en (str ''title'') = Some (JStr (str ''Olives 500g'')) \<and>
      map_of en (str ''description'') = Some (JStr k100_description) \<and>
      contains k100_description (str ''Olives 500g'') \<and>
      contains k100_description (str ''Greece'') \<and>
      map_of en (str ''history'') = Some (JArr h) \<and> length h = 3 \<and>
      (\<forall>lang\<in>set LANGS. \<exists>b. lang_block product lang = Some b \<and>
           map_of b (str ''title'') = Some (JStr (str ''Olives 500g''))) \<and>
      (\<forall>l. lang_block product l \<noteq> None \<longrightarrow> l = str ''en'' \<or> l \<in> set LANGS) \<and>
      length LANGS = 7 \<and> distinct LANGS \<and>
      render_product [] product = (files, True) \<and>
      map fst files = k100_pages \<and> length files = 8"
  unfolding blank_template_def
  by (rule k100_scenario [OF blank_template_facts])

text \<open>
  The description of the scenario's \<^verbatim>\<open>en\<close> block does not contain the brand: the template of the
  Content Generator interpolates the title and the country only.
\<close>

theorem k100_description_counterexample:
  "written_en (build_product blank_template k100_row) (str ''description'') = Some (JStr k100_description) \<and>
   \<not> contains k100_description (str ''KRINOS'')"
proof -
  from k100_store [OF blank_template_facts(1,2)]
  obtain product where built: "build_product (JObj [(str ''i18n'', JObj [])]) k100_row =
        Some (Written (str ''K100'') product)"
    and p_en: "lang_block product (str ''en'') = Some (py_update [] generated_en)"
    by (elim exE conjE) blast
  have "map_of (py_update [] generated_en) (str ''description'') = Some (JStr k100_description)"
    by (simp add: map_of_py_update map_add_def generated_en_lookup)
  then have "written_en (build_product blank_template k100_row) (str ''description'') =
      Some (JStr k100_description)"
    by (simp add: written_en_def blank_template_def built p_en)
  moreover have "\<not> contains k100_description (str ''KRINOS'')"
    by (simp add: k100_description_def str_def)
  ultimately show ?thesis
    by (rule conjI)
qed

section \<open>Post-QC: the water correction\<close>


lemma list_all2_right:
  "list_all2 P xs ys \<Longrightarrow> (\<And>x y. x \<in> set xs \<Longrightarrow> P x y \<Longrightarrow> Q y) \<Longrightarrow> list_all Q ys"
  by (induction rule: list_all2_induct) auto

text \<open>
  Word runs. After a word character no match begins, so a run of word characters is copied; a
  character that is not a word character matches no letter of a pattern.
\<close>

lemma word_at_prev_word: "is_word L c \<Longrightarrow> \<not> word_at L pat True (c # cs)"
  by (simp add: word_at_def)

lemma word_at_nonword:
  assumes "\<forall>p\<in>set pat. \<forall>c. ci_match p c \<longrightarrow> is_word L c" and "\<not> is_word L d"
  shows "\<not> word_at L pat prev (d # cs)"
proof
  assume w: "word_at L pat prev (d # cs)"
  then obtain p ps where pat: "pat = p # ps"
    by (cases pat) (simp_all add: word_at_def)
  with w have "ci_match p d"
    by (simp add: word_at_def)
  moreover have "p \<in> set pat"
    by (simp add: pat)
  ultimately have "is_word L d"
    using assms(1) by blast
  with assms(2) show False
    by simp
qed

lemma sub_word_run:
  "list_all (is_word L) w \<Longrightarrow> sub_word L pat rep True (w @ r) = w @ sub_word L pat rep True r"
  by (induction w) (simp_all add: word_at_prev_word)

lemma has_word_run:
  "list_all (is_word L) w \<Longrightarrow> has_word L pat True (w @ r) = has_word L pat True r"
  by (induction w) (simp_all add: word_at_prev_word)

lemma sub_word_nonword:
  assumes "\<forall>p\<in>set pat. \<forall>c. ci_match p c \<longrightarrow> is_word L c" and "\<not> is_word L d"
  shows "sub_word L pat rep prev (d # cs) = d # sub_word L pat rep False cs"
  using word_at_nonword [of pat L d prev cs] assms by simp

lemma has_word_nonword:
  assumes "\<forall>p\<in>set pat. \<forall>c. ci_match p c \<longrightarrow> is_word L c" and "\<not> is_word L d"
  shows "has_word L pat prev (d # cs) = has_word L pat False cs"
  using word_at_nonword [of pat L d prev cs] assms by simp

lemma sub_word_boundary:
  assumes "\<forall>p\<in>set pat. \<forall>c. ci_match p c \<longrightarrow> is_word L c"
    and "r = [] \<or> \<not> is_word L (hd r)"
  shows "sub_word L pat rep prev r = [] \<or> \<not> is_word L (hd (sub_word L pat rep prev r))"
proof (cases r)
  case Nil
  then show ?thesis
    by simp
next
  case (Cons d cs)
  with assms(2) have "\<not> is_word L d"
    by simp
  then have "sub_word L pat rep prev (d # cs) = d # sub_word L pat rep False cs"
    using assms(1) by (rule sub_word_nonword [rotated])
  with \<open>\<not> is_word L d\<close> show ?thesis
    by (simp only: Cons list.sel list.distinct not_False_eq_True simp_thms)
qed


text \<open>At the start of a maximal run of word characters the pattern matches iff the run does.\<close>

lemma list_all2_right_all:
  "list_all2 P xs ys \<Longrightarrow> \<forall>x\<in>set xs. \<forall>y. P x y \<longrightarrow> Q y \<Longrightarrow> list_all Q ys"
  by (induction rule: list_all2_induct) auto

lemma word_at_run:
  assumes ok: "\<forall>p\<in>set pat. \<forall>c. ci_match p c \<longrightarrow> is_word L c"
    and w: "list_all (is_word L) w" "w \<noteq> []"
    and r: "r = [] \<or> \<not> is_word L (hd r)"
  shows "word_at L pat False (w @ r) \<longleftrightarrow> list_all2 ci_match pat w"
proof
  assume m: "list_all2 ci_match pat w"
  then have len: "length pat = length w"
    by (rule list_all2_lengthD)
  have "is_word L (hd (w @ r))"
    using w by (cases w) simp_all
  moreover have "is_word L ((w @ r) ! (length w - 1))"
    using w by (simp add: nth_append list_all_length)
  moreover have "\<not> (case r of [] \<Rightarrow> False | d # _ \<Rightarrow> is_word L d)"
    using r by (cases r) simp_all
  moreover have "pat \<noteq> []"
    using len w(2) by auto
  ultimately show "word_at L pat False (w @ r)"
    using m len by (simp add: word_at_def)
next
  assume a: "word_at L pat False (w @ r)"
  let ?n = "length pat"
  note a' = a [unfolded word_at_def]
  note n = a' [THEN conjunct1] a' [THEN conjunct2, THEN conjunct1]
    and m = a' [THEN conjunct2, THEN conjunct2, THEN conjunct2, THEN conjunct1]
    and b = a' [THEN conjunct2, THEN conjunct2, THEN conjunct2, THEN conjunct2]
  have allw: "list_all (is_word L) (take ?n (w @ r))"
    using m ok by (rule list_all2_right_all)
  have le: "?n \<le> length w"
  proof (rule ccontr)
    assume "\<not> ?n \<le> length w"
    then have lt: "length w < ?n"
      by simp
    have "r \<noteq> []"
      using lt n(2) by (cases r) simp_all
    then have "take ?n (w @ r) ! length w = hd r"
      using lt by (simp add: nth_append hd_conv_nth)
    moreover have "length w < length (take ?n (w @ r))"
      using lt n(2) by simp
    then have "is_word L (take ?n (w @ r) ! length w)"
      by (rule list_all_length [THEN iffD1, rule_format, OF allw])
    ultimately have "is_word L (hd r)"
      by simp
    with r \<open>r \<noteq> []\<close> show False
      by simp
  qed
  have pos: "0 < ?n"
    using n(1) by simp
  have "?n - 1 < length w"
    using le pos by arith
  then have "is_word L (w ! (?n - 1))"
    by (rule list_all_length [THEN iffD1, rule_format, OF w(1)])
  then have "is_word L ((w @ r) ! (?n - 1))"
    using \<open>?n - 1 < length w\<close> by (simp add: nth_append)
  with b have c: "\<not> (case drop ?n (w @ r) of [] \<Rightarrow> False | d # _ \<Rightarrow> is_word L d)"
    by simp
  have "?n = length w"
  proof (rule ccontr)
    assume "?n \<noteq> length w"
    with le have lt: "?n < length w"
      by simp
    then have "drop ?n (w @ r) = w ! ?n # (drop (Suc ?n) w @ r)"
      by (simp add: Cons_nth_drop_Suc)
    moreover have "is_word L (w ! ?n)"
      using lt by (rule list_all_length [THEN iffD1, rule_format, OF w(1)])
    ultimately show False
      using c by simp
  qed
  with m show "list_all2 ci_match pat w"
    by simp
qed


lemma has_word_start:
  assumes ok: "\<forall>p\<in>set pat. \<forall>c. ci_match p c \<longrightarrow> is_word L c"
    and w: "list_all (is_word L) w" "w \<noteq> []"
    and r: "r = [] \<or> \<not> is_word L (hd r)"
  shows "has_word L pat False (w @ r) \<longleftrightarrow> list_all2 ci_match pat w \<or> has_word L pat True r"
proof -
  from w(2) obtain c w' where cw: "w = c # w'"
    by (cases w) simp_all
  with w(1) have c: "is_word L c" and w': "list_all (is_word L) w'"
    by simp_all
  have "has_word L pat False (w @ r) \<longleftrightarrow> word_at L pat False (w @ r) \<or> has_word L pat True (w' @ r)"
    by (simp add: cw c)
  then show ?thesis
    by (simp only: word_at_run [OF ok w r] has_word_run [OF w'])
qed


lemma sub_word_start:
  assumes ok: "\<forall>p\<in>set pat. \<forall>c. ci_match p c \<longrightarrow> is_word L c"
    and w: "list_all (is_word L) w" "w \<noteq> []"
    and r: "r = [] \<or> \<not> is_word L (hd r)"
  shows "sub_word L pat rep False (w @ r) =
     (if list_all2 ci_match pat w then rep else w) @ sub_word L pat rep True r"
proof -
  from w(2) obtain c w' where cw: "w = c # w'"
    by (cases w) simp_all
  with w(1) have c: "is_word L c" and w': "list_all (is_word L) w'"
    by simp_all
  show ?thesis
  proof (cases "list_all2 ci_match pat w")
    case True
    then have at: "word_at L pat False (c # (w' @ r))"
      using word_at_run [OF ok w r] by (simp add: cw)
    from True have len: "length pat = Suc (length w')"
      by (simp add: cw list_all2_lengthD)
    have "(c # (w' @ r)) ! length w' = w ! length w'"
      by (simp add: cw nth_append nth_Cons')
    moreover have "is_word L (w ! length w')"
      using w(1) unfolding list_all_length by (simp add: cw)
    ultimately have "is_word L ((c # (w' @ r)) ! length w')"
      by simp
    then show ?thesis
      using True at by (simp add: cw len)
  next
    case False
    then have "\<not> word_at L pat False (c # (w' @ r))"
      using word_at_run [OF ok w r] by (simp add: cw)
    then show ?thesis
      using False by (simp add: cw c sub_word_run [OF w'])
  qed
qed


lemma word_run_cases:
  obtains "s = []"
  | d cs where "s = d # cs" "\<not> is_word L d"
  | w r where "s = w @ r" "w \<noteq> []" "list_all (is_word L) w" "r = [] \<or> \<not> is_word L (hd r)"
      "length r < length s"
proof (cases s)
  case Nil
  then show ?thesis
    by (rule that(1))
next
  case (Cons c cs)
  show ?thesis
  proof (cases "is_word L c")
    case False
    with Cons show ?thesis
      by (rule that(2))
  next
    case True
    let ?w = "takeWhile (is_word L) s" and ?r = "dropWhile (is_word L) s"
    have 1: "s = ?w @ ?r"
      by simp
    have 2: "?w \<noteq> []"
      using True by (simp add: Cons)
    have 3: "list_all (is_word L) ?w"
      by (auto simp: list_all_iff dest: set_takeWhileD)
    have 4: "?r = [] \<or> \<not> is_word L (hd ?r)"
      using hd_dropWhile [of "is_word L" s] by (cases "dropWhile (is_word L) s = []") simp_all
    have "length (dropWhile (is_word L) cs) \<le> length cs"
      by (rule length_dropWhile_le)
    then have 5: "length ?r < length s"
      using True by (simp add: Cons)
    from 1 2 3 4 5 show ?thesis
      by (rule that(3))
  qed
qed


text \<open>
  After the substitution no word matches the pattern, when the replacement is a word that
  does not match it.
\<close>

lemma sub_word_removes:
  assumes ok: "\<forall>p\<in>set pat. \<forall>c. ci_match p c \<longrightarrow> is_word L c"
    and rep: "list_all (is_word L) rep" "rep \<noteq> []" "\<not> list_all2 ci_match pat rep"
  shows "\<not> has_word L pat prev (sub_word L pat rep prev s)"
proof (induction "length s" arbitrary: s prev rule: less_induct)
  case less
  show ?case
  proof (rule word_run_cases [where s = s and L = L])
    assume "s = []"
    then show ?thesis
      by simp
  next
    fix d cs assume s: "s = d # cs" and d: "\<not> is_word L d"
    have "\<not> has_word L pat False (sub_word L pat rep False cs)"
      by (rule less) (simp add: s)
    then show ?thesis
      by (simp only: s sub_word_nonword [OF ok d] has_word_nonword [OF ok d] not_False_eq_True)
  next
    fix w r assume s: "s = w @ r" and w: "w \<noteq> []" "list_all (is_word L) w"
      and r: "r = [] \<or> \<not> is_word L (hd r)" and len: "length r < length s"
    let ?out = "sub_word L pat rep True r"
    have ih: "\<not> has_word L pat True ?out"
      using len by (rule less)
    have out: "?out = [] \<or> \<not> is_word L (hd ?out)"
      using ok r by (rule sub_word_boundary)
    show ?thesis
    proof (cases prev)
      case True
      then show ?thesis
        using ih by (simp add: s sub_word_run [OF w(2)] has_word_run [OF w(2)])
    next
      case False
      let ?x = "if list_all2 ci_match pat w then rep else w"
      have x: "list_all (is_word L) ?x" "?x \<noteq> []" "\<not> list_all2 ci_match pat ?x"
        using w rep by simp_all
      have "sub_word L pat rep False s = ?x @ ?out"
        unfolding s using ok w(2,1) r by (rule sub_word_start)
      moreover have "\<not> has_word L pat False (?x @ ?out)"
        unfolding has_word_start [OF ok x(1,2) out] using x(3) ih by simp
      ultimately show ?thesis
        using False by simp
    qed
  qed
qed

text \<open>A word that matches the pattern or the replacement leaves a word that matches the replacement.\<close>

lemma sub_word_introduces:
  assumes ok: "\<forall>p\<in>set pat. \<forall>c. ci_match p c \<longrightarrow> is_word L c"
    and ok': "\<forall>p\<in>set rep. \<forall>c. ci_match p c \<longrightarrow> is_word L c"
    and rep: "list_all (is_word L) rep" "rep \<noteq> []" "list_all2 ci_match rep rep"
  shows "has_word L pat prev s \<or> has_word L rep prev s \<Longrightarrow>
     has_word L rep prev (sub_word L pat rep prev s)"
proof (induction "length s" arbitrary: s prev rule: less_induct)
  case less
  show ?case
  proof (rule word_run_cases [where s = s and L = L])
    assume "s = []"
    with less.prems show ?thesis
      by simp
  next
    fix d cs assume s: "s = d # cs" and d: "\<not> is_word L d"
    from less.prems have "has_word L pat False cs \<or> has_word L rep False cs"
      by (simp only: s has_word_nonword [OF ok d] has_word_nonword [OF ok' d])
    then have "has_word L rep False (sub_word L pat rep False cs)"
      by (rule less.hyps [rotated]) (simp add: s)
    then show ?thesis
      by (simp only: s sub_word_nonword [OF ok d] has_word_nonword [OF ok' d])
  next
    fix w r assume s: "s = w @ r" and w: "w \<noteq> []" "list_all (is_word L) w"
      and r: "r = [] \<or> \<not> is_word L (hd r)" and len: "length r < length s"
    let ?out = "sub_word L pat rep True r"
    have ih: "has_word L pat True r \<or> has_word L rep True r \<Longrightarrow> has_word L rep True ?out"
      using len by (rule less.hyps)
    have out: "?out = [] \<or> \<not> is_word L (hd ?out)"
      using ok r by (rule sub_word_boundary)
    show ?thesis
    proof (cases prev)
      case True
      with less.prems have "has_word L pat True r \<or> has_word L rep True r"
        by (simp add: s has_word_run [OF w(2)])
      then have "has_word L rep True ?out"
        by (rule ih)
      then show ?thesis
        using True by (simp add: s sub_word_run [OF w(2)] has_word_run [OF w(2)])
    next
      case False
      let ?x = "if list_all2 ci_match pat w then rep else w"
      have x: "list_all (is_word L) ?x" "?x \<noteq> []"
        using w rep by simp_all
      have sub: "sub_word L pat rep False s = ?x @ ?out"
        unfolding s using ok w(2,1) r by (rule sub_word_start)
      from less.prems False
      have prem: "(list_all2 ci_match pat w \<or> has_word L pat True r) \<or>
          (list_all2 ci_match rep w \<or> has_word L rep True r)"
        by (simp only: s has_word_start [OF ok w(2,1) r] has_word_start [OF ok' w(2,1) r])
      have "list_all2 ci_match rep ?x \<or> has_word L rep True ?out"
      proof (cases "list_all2 ci_match pat w")
        case True
        then show ?thesis
          using rep(3) by simp
      next
        case no: False
        show ?thesis
        proof (cases "list_all2 ci_match rep w")
          case True
          then show ?thesis
            using no by simp
        next
          case False
          with no prem have "has_word L pat True r \<or> has_word L rep True r"
            by simp
          then have "has_word L rep True ?out"
            by (rule ih)
          then show ?thesis
            by simp
        qed
      qed
      then have "has_word L rep False (?x @ ?out)"
        by (simp only: has_word_start [OF ok' x out])
      then show ?thesis
        using False by (simp only: sub)
    qed
  qed
qed


text \<open>The two words of the water correction.\<close>

lemma water_letters:
  "\<forall>p\<in>set (str ''still''). \<forall>c. ci_match p c \<longrightarrow> is_word L c"
  "\<forall>p\<in>set (str ''sparkling''). \<forall>c. ci_match p c \<longrightarrow> is_word L c"
  by (auto simp: str_def ci_match_def is_word_def)

lemma water_words:
  "list_all (is_word L) (str ''still'')" "str ''still'' \<noteq> []"
  "list_all (is_word L) (str ''sparkling'')" "str ''sparkling'' \<noteq> []"
  "list_all2 ci_match (str ''still'') (str ''still'')"
  "list_all2 ci_match (str ''sparkling'') (str ''sparkling'')"
  "\<not> list_all2 ci_match (str ''still'') (str ''sparkling'')"
  "\<not> list_all2 ci_match (str ''sparkling'') (str ''still'')"
  by (simp_all add: str_def ci_match_def is_word_def)

text \<open>\<^verbatim>\<open>in\<close> and \<^verbatim>\<open>upper\<close>: an upper-case ASCII keyword of the title stays where it is.\<close>

lemma startswith_iff: "startswith s p \<longleftrightarrow> (\<exists>b. s = p @ b)"
  by (induction s p rule: startswith.induct) auto

lemma contains_iff: "contains s k \<longleftrightarrow> (\<exists>a b. s = a @ k @ b)"
proof (induction s)
  case Nil
  then show ?case
    by simp
next
  case (Cons c cs)
  show ?case
  proof
    assume "contains (c # cs) k"
    then consider "startswith (c # cs) k" | "contains cs k"
      by auto
    then show "\<exists>a b. c # cs = a @ k @ b"
    proof cases
      case 1
      then obtain b where "c # cs = k @ b"
        unfolding startswith_iff ..
      then have "c # cs = [] @ k @ b"
        by simp
      then show ?thesis
        by (intro exI)
    next
      case 2
      then obtain a b where "cs = a @ k @ b"
        unfolding Cons.IH by (elim exE)
      then have "c # cs = (c # a) @ k @ b"
        by simp
      then show ?thesis
        by (intro exI)
    qed
  next
    assume "\<exists>a b. c # cs = a @ k @ b"
    then obtain a b where ab: "c # cs = a @ k @ b"
      by (elim exE)
    show "contains (c # cs) k"
    proof (cases a)
      case Nil
      with ab have "startswith (c # cs) k"
        unfolding startswith_iff by (intro exI [of _ b]) simp
      then show ?thesis
        by simp
    next
      case (Cons a0 a')
      with ab have "cs = a' @ k @ b"
        by simp
      then have "contains cs k"
        unfolding Cons.IH by (intro exI)
      then show ?thesis
        by simp
    qed
  qed
qed

lemma py_upper_append: "py_upper L (a @ b) = py_upper L a @ py_upper L b"
  by (simp add: py_upper_def)

lemma contains_py_upper:
  assumes "contains s k" and "py_upper L k = k"
  shows "contains (py_upper L s) k"
proof -
  from assms(1) obtain a b where "s = a @ k @ b"
    unfolding contains_iff by (elim exE)
  then have "py_upper L s = py_upper L a @ k @ py_upper L b"
    by (simp add: py_upper_append assms(2))
  then show ?thesis
    unfolding contains_iff by (intro exI)
qed

lemma py_upper_SPARKLING: "py_upper L (str ''SPARKLING'') = str ''SPARKLING''"
  by (simp add: py_upper_def upper_char_def ascii_upper_def str_def)

text \<open>
  The correction of a description that has the word \<^verbatim>\<open>still\<close>, under a title that has the
  keyword \<^verbatim>\<open>SPARKLING\<close>. The first substitution, if the title has one of its keywords too,
  leaves the word, and the second replaces every occurrence.
\<close>

lemma fix_water_sparkling:
  assumes title: "contains title (str ''SPARKLING'')"
    and still: "has_word L (str ''still'') False d"
  shows "\<exists>d'. fix_water_description L (JStr d) (JStr title) = Some (JStr d') \<and>
      has_word L (str ''sparkling'') False d' \<and> \<not> has_word L (str ''still'') False d'"
proof -
  let ?t = "py_upper L title"
  let ?first = "list_ex (\<lambda>k. contains ?t k) [str ''NON-CARBONATED'', str ''STILL'', str ''BLUE'']"
  let ?d1 = "if ?first then sub_word L (str ''sparkling'') (str ''still'') False d else d"
  let ?d2 = "sub_word L (str ''still'') (str ''sparkling'') False ?d1"
  have "title \<noteq> []"
    using title by (cases title) (simp_all add: str_def)
  then have t: "as_str (py_or (JStr title) (JStr [])) = Some title"
    by (simp add: py_or_def)
  have second: "list_ex (\<lambda>k. contains ?t k) [str ''SPARKLING'', str ''CARBONATED'', str ''GREEN'']"
    using contains_py_upper [OF title py_upper_SPARKLING] by simp
  have run: "fix_water_description L (JStr d) (JStr title) = Some (JStr ?d2)"
    unfolding fix_water_description_def t using second by simp
  have "has_word L (str ''still'') False (sub_word L (str ''sparkling'') (str ''still'') False d)"
    using still
    by (intro sub_word_introduces [OF water_letters(2,1) water_words(1,2,5)] disjI2)
  then have d1: "has_word L (str ''still'') False ?d1"
    using still by simp
  then have "has_word L (str ''sparkling'') False ?d2"
    by (intro sub_word_introduces [OF water_letters(1,2) water_words(3,4,6)] disjI1)
  moreover have "\<not> has_word L (str ''still'') False ?d2"
    by (rule sub_word_removes [OF water_letters(1) water_words(3,4,7)])
  ultimately show ?thesis
    using run by (intro exI conjI)
qed


text \<open>
  C8. In the category \<^verbatim>\<open>Water\<close>, for an \<^verbatim>\<open>en\<close> block whose title contains \<^verbatim>\<open>SPARKLING\<close> and whose
  description has the word \<^verbatim>\<open>still\<close> (a whole word, in any case): the water correction runs,
  reports a change and assigns a description that has the word \<^verbatim>\<open>sparkling\<close> and no longer has
  the word \<^verbatim>\<open>still\<close>.
\<close>

theorem water_fix_sparkling:
  assumes "dget en (str ''title'') (JStr []) = JStr title"
    and "contains title (str ''SPARKLING'')"
    and "dget en (str ''description'') (JStr []) = JStr d"
    and "has_word L (str ''still'') False d"
  shows "\<exists>d'. water_fix L (JStr (str ''Water'')) en =
        Some (AList.update (str ''description'') (JStr d') en, True) \<and>
      has_word L (str ''sparkling'') False d' \<and>
      \<not> has_word L (str ''still'') False d'"
proof -
  from fix_water_sparkling [OF assms(2,4)] obtain d'
    where run: "fix_water_description L (JStr d) (JStr title) = Some (JStr d')"
      and new: "has_word L (str ''sparkling'') False d'" "\<not> has_word L (str ''still'') False d'"
    by (elim exE conjE)
  from new(2) assms(4) have "d' \<noteq> d"
    by auto
  then have "water_fix L (JStr (str ''Water'')) en =
      Some (AList.update (str ''description'') (JStr d') en, True)"
    by (simp add: water_fix_def assms(1,3) run)
  with new show ?thesis
    by (intro exI conjI)
qed

theorem water_fix_sparkling_witness:
  "\<exists>d'. water_fix ascii_rt (JStr (str ''Water'')) water_en =
        Some (AList.update (str ''description'') (JStr d') water_en, True) \<and>
      has_word ascii_rt (str ''sparkling'') False d' \<and>
      \<not> has_word ascii_rt (str ''still'') False d'"
  by (rule water_fix_sparkling [where title = "str ''AQUA SPARKLING 1L''"
        and d = "str ''A still water, bottled at the source.''"])
     (simp_all add: water_en_def dget_def str_def word_at_def is_word_def ci_match_def)

text \<open>The corrected description of the example.\<close>

lemma water_fix_example:
  "water_fix ascii_rt (JStr (str ''Water'')) water_en =
     Some (AList.update (str ''description'')
       (JStr (str ''A sparkling water, bottled at the source.'')) water_en, True)"
  by (simp add: water_fix_def fix_water_description_def water_en_def dget_def py_or_def
      py_upper_def upper_char_def ascii_upper_def str_def word_at_def is_word_def ci_match_def)

section \<open>Second runs of Post-QC and of the Premium Pass\<close>






























end
